theory Spec2Isabelle
  imports Main "HOL-Library.AList"
begin

section \<open>The generic form\<close>

text \<open>
  Every codec of the package goes through one dynamically typed representation: the Go
  values that \<^verbatim>\<open>yaml.v2\<close> produces when it decodes into \<^verbatim>\<open>interface{}\<close>,
  plus the string-keyed map \<^verbatim>\<open>map[string]interface{}\<close> that the encoders build and
  that the normalizer returns.

  \<^item> \<open>VNull\<close> is \<^verbatim>\<open>nil\<close>;
  \<^item> \<open>VBool\<close>, \<open>VInt\<close>, \<open>VString\<close> are \<^verbatim>\<open>bool\<close>, \<^verbatim>\<open>int\<close>, \<^verbatim>\<open>string\<close>;
  \<^item> \<open>VFloat s\<close> is a \<^verbatim>\<open>float64\<close>, identified by its default rendering \<open>s\<close>
    (no codec of the package computes with a number);
  \<^item> \<open>VSlice\<close> is \<^verbatim>\<open>[]interface{}\<close>;
  \<^item> \<open>VMapI\<close> is \<^verbatim>\<open>map[interface{}]interface{}\<close>, the map with untyped keys;
  \<^item> \<open>VMapS\<close> is \<^verbatim>\<open>map[string]interface{}\<close>.

  A Go map is written as the list of its entries in the order in which a
  \<^verbatim>\<open>range\<close> loop visits them; \<open>map_of\<close> reads it. Go fixes no iteration order, so
  a statement about a map is made for every list.
\<close>

datatype val =
    VNull
  | VBool bool
  | VInt int
  | VFloat string
  | VString string
  | VSlice "val list"
  | VMapI "(val \<times> val) list"
  | VMapS "(string \<times> val) list"

type_synonym obj = "(string \<times> val) list"

datatype error = TypeError

subsection \<open>The string functions of the standard library that the package calls\<close>

definition digit :: "nat \<Rightarrow> char" where
  "digit d = ''0123456789'' ! d"

function string_of_nat :: "nat \<Rightarrow> string" where
  "string_of_nat n =
     (if n < 10 then [digit n] else string_of_nat (n div 10) @ [digit (n mod 10)])"
  by pat_completeness auto
termination
  by (relation "measure id") auto

declare string_of_nat.simps [simp del]

definition string_of_int :: "int \<Rightarrow> string" where
  "string_of_int i =
     (if i < 0 then CHR ''-'' # string_of_nat (nat (- i)) else string_of_nat (nat i))"

fun join :: "string \<Rightarrow> string list \<Rightarrow> string" where
  "join sep [] = []"
| "join sep [x] = x"
| "join sep (x # y # ys) = x @ sep @ join sep (y # ys)"

text \<open>
  \<^verbatim>\<open>fmt\<close> prints a map with its keys sorted (package \<^verbatim>\<open>internal/fmtsort\<close>, since
  Go 1.12), whatever the order in which the map hands them out. \<open>string_less\<close> is the
  comparison \<^verbatim>\<open>a < b\<close> of two Go strings, byte by byte. \<open>key_less a b\<close> is
  \<^verbatim>\<open>compare(a, b) < 0\<close> there for two keys of a \<^verbatim>\<open>map[interface{}]interface{}\<close>:
  nil is below every other key, two ints compare by value, two strings as strings, and
  false is below true. Keys of two different types are compared there by the addresses
  of their type descriptors, and floats by their values; the model has neither, and
  \<open>key_less\<close> orders no such pair. \<open>sort_entries\<close> is \<^verbatim>\<open>sort.Stable\<close> by that
  comparison.
\<close>

fun string_less :: "string \<Rightarrow> string \<Rightarrow> bool" where
  "string_less [] [] = False"
| "string_less [] (y # ys) = True"
| "string_less (x # xs) [] = False"
| "string_less (x # xs) (y # ys) =
     ((of_char x :: nat) < of_char y \<or> (x = y \<and> string_less xs ys))"

fun key_less :: "val \<Rightarrow> val \<Rightarrow> bool" where
  "key_less VNull b = (b \<noteq> VNull)"
| "key_less (VBool a) (VBool b) = (\<not> a \<and> b)"
| "key_less (VInt a) (VInt b) = (a < b)"
| "key_less (VString a) (VString b) = string_less a b"
| "key_less _ _ = False"

fun insert_entry :: "val \<times> 'a \<Rightarrow> (val \<times> 'a) list \<Rightarrow> (val \<times> 'a) list" where
  "insert_entry e [] = [e]"
| "insert_entry e (x # xs) =
     (if key_less (fst x) (fst e) then x # insert_entry e xs else e # x # xs)"

definition sort_entries :: "(val \<times> 'a) list \<Rightarrow> (val \<times> 'a) list" where
  "sort_entries kvs = foldr insert_entry kvs []"

text \<open>
  \<^verbatim>\<open>fmt.Sprint(v)\<close>, which is also \<^verbatim>\<open>fmt.Sprintf("%v", v)\<close>: the default
  rendering of a value. A float is held as its rendering. A sequence is rendered as
  \<^verbatim>\<open>[a b]\<close> and a map as \<^verbatim>\<open>map[k:v k:v]\<close>, the entries sorted by key.
\<close>

fun Sprint :: "val \<Rightarrow> string" where
  "Sprint VNull = ''<nil>''"
| "Sprint (VBool b) = (if b then ''true'' else ''false'')"
| "Sprint (VInt i) = string_of_int i"
| "Sprint (VFloat s) = s"
| "Sprint (VString s) = s"
| "Sprint (VSlice xs) = ''['' @ join '' '' (map Sprint xs) @ '']''"
| "Sprint (VMapI kvs) =
     ''map['' @ join '' ''
        (map snd (sort_entries (map (\<lambda>(k, v). (k, Sprint k @ '':'' @ Sprint v)) kvs))) @ '']''"
| "Sprint (VMapS kvs) =
     ''map['' @ join '' ''
        (map snd (sort_entries (map (\<lambda>(k, v). (VString k, k @ '':'' @ Sprint v)) kvs))) @ '']''"

text \<open>
  The values whose rendering the language fixes: in every map inside the value the keys
  are distinct and, nil apart, all strings, all ints or all bools, so that
  \<open>key_less\<close> orders any two of them.
\<close>

definition one_kind :: "val list \<Rightarrow> bool" where
  "one_kind ks \<longleftrightarrow>
     distinct ks \<and>
     (list_all (\<lambda>k. case k of VNull \<Rightarrow> True | VString s \<Rightarrow> True | _ \<Rightarrow> False) ks
      \<or> list_all (\<lambda>k. case k of VNull \<Rightarrow> True | VInt i \<Rightarrow> True | _ \<Rightarrow> False) ks
      \<or> list_all (\<lambda>k. case k of VNull \<Rightarrow> True | VBool b \<Rightarrow> True | _ \<Rightarrow> False) ks)"

fun sortable :: "val \<Rightarrow> bool" where
  "sortable (VSlice xs) = list_all sortable xs"
| "sortable (VMapI kvs) =
     (one_kind (map fst kvs) \<and> list_all (\<lambda>(k, v). sortable v) kvs)"
| "sortable (VMapS kvs) =
     (distinct (map fst kvs) \<and> list_all (\<lambda>(k, v). sortable v) kvs)"
| "sortable _ = True"

text \<open>\<^verbatim>\<open>strings.ToLower\<close> on ASCII letters, and \<^verbatim>\<open>strings.HasPrefix\<close>.\<close>

definition to_lower :: "char \<Rightarrow> char" where
  "to_lower c =
     (case map_of (zip ''ABCDEFGHIJKLMNOPQRSTUVWXYZ'' ''abcdefghijklmnopqrstuvwxyz'') c of
        Some l \<Rightarrow> l
      | None \<Rightarrow> c)"

definition ToLower :: "string \<Rightarrow> string" where
  "ToLower s = map to_lower s"

definition HasPrefix :: "string \<Rightarrow> string \<Rightarrow> bool" where
  "HasPrefix s p = (take (length p) s = p)"

section \<open>Extensions and the value normalizer (extensions.go)\<close>

type_synonym Extensions = "(string \<times> val) list"

text \<open>
  \<^verbatim>\<open>cleanupMapValue\<close> with its two helpers. The loop of
  \<^verbatim>\<open>cleanupInterfaceMap\<close> stores \<^verbatim>\<open>res[fmt.Sprintf("%v", k)]\<close> entry by entry,
  so a later entry whose key has the same rendering replaces an earlier one.
\<close>

fun cleanupMapValue :: "val \<Rightarrow> val"
  and cleanupInterfaceArray :: "val list \<Rightarrow> val list"
  and cleanupInterfaceMap :: "(val \<times> val) list \<Rightarrow> obj" where
  "cleanupMapValue v =
     (case v of
        VSlice value \<Rightarrow> VSlice (cleanupInterfaceArray value)
      | VMapI value \<Rightarrow> VMapS (cleanupInterfaceMap value)
      | _ \<Rightarrow> v)"
| "cleanupInterfaceArray in' = map cleanupMapValue in'"
| "cleanupInterfaceMap in' =
     fold (\<lambda>(k, v) res. AList.update (Sprint k) (cleanupMapValue v) res) in' []"

declare cleanupMapValue.simps [simp del] cleanupInterfaceMap.simps [simp del]

text \<open>
  \<^verbatim>\<open>Extensions.MarshalYAML\<close>: only the keys with the prefix are copied.
\<close>

definition Extensions_MarshalYAML :: "Extensions \<Rightarrow> obj" where
  "Extensions_MarshalYAML r =
     fold (\<lambda>k obj. if HasPrefix (ToLower k) ''x-''
                    then AList.update k (the (map_of r k)) obj else obj)
       (map fst r) []"

text \<open>
  \<^verbatim>\<open>Extensions.UnmarshalYAML\<close>. Its argument \<open>obj\<close> is the map that the callback
  \<^verbatim>\<open>unmarshal(&obj)\<close> delivered (when the callback fails, the method returns that
  error and stores nothing); \<open>r\<close> is the receiver.
\<close>

definition Extensions_UnmarshalYAML :: "Extensions \<Rightarrow> obj \<Rightarrow> Extensions" where
  "Extensions_UnmarshalYAML r obj =
     fold (\<lambda>k r. if HasPrefix (ToLower k) ''x-''
                  then AList.update k (cleanupMapValue (the (map_of obj k))) r else r)
       (map fst obj) r"

section \<open>The idioms of the codecs\<close>

subsection \<open>Encoders\<close>

text \<open>
  Every \<^verbatim>\<open>MarshalYAML\<close> starts from an empty \<^verbatim>\<open>map[string]interface{}\<close> and
  runs a sequence of statements, each of which stores at most one key or copies a
  whole map. None of them returns an error.

  \<^item> \<open>put k v\<close> is \<^verbatim>\<open>obj[k] = v\<close>;
  \<^item> \<open>put_if c k v\<close> is \<^verbatim>\<open>if c { obj[k] = v }\<close>;
  \<^item> \<open>put_ptr p k enc\<close> is \<^verbatim>\<open>if p != nil { obj[k] = p }\<close> for a pointer \<open>p\<close>,
    \<open>enc\<close> being the generic form of what it points to;
  \<^item> \<open>put_range m\<close> is \<^verbatim>\<open>for key, val := range m { obj[key] = val }\<close>.
\<close>

type_synonym put = "obj \<Rightarrow> obj"

definition put :: "string \<Rightarrow> val \<Rightarrow> put" where
  "put k v obj = AList.update k v obj"

definition put_if :: "bool \<Rightarrow> string \<Rightarrow> val \<Rightarrow> put" where
  "put_if c k v obj = (if c then AList.update k v obj else obj)"

definition put_ptr :: "'a option \<Rightarrow> string \<Rightarrow> ('a \<Rightarrow> val) \<Rightarrow> put" where
  "put_ptr p k enc obj = (case p of None \<Rightarrow> obj | Some x \<Rightarrow> AList.update k (enc x) obj)"

definition put_range :: "obj \<Rightarrow> put" where
  "put_range m obj = fold (\<lambda>key obj. AList.update key (the (map_of m key)) obj) (map fst m) obj"

definition build :: "put list \<Rightarrow> obj" where
  "build ps = fold (\<lambda>p obj. p obj) ps []"

text \<open>The generic form of a \<^verbatim>\<open>[]string\<close> and of a \<^verbatim>\<open>map[string]string\<close>.\<close>

definition strings_val :: "string list \<Rightarrow> val" where
  "strings_val xs = VSlice (map VString xs)"

definition string_map_val :: "(string \<times> string) list \<Rightarrow> val" where
  "string_map_val m = VMapS (map (\<lambda>(k, s). (k, VString s)) m)"

subsection \<open>Decoders\<close>

text \<open>
  Every \<^verbatim>\<open>UnmarshalYAML\<close> obtains the map \<open>obj\<close> from its callback and then runs a
  sequence of statements on the receiver \<open>r\<close>; a statement that returns an error ends
  the method. A statement is a function from the receiver to an error or the updated
  receiver, and \<open>run\<close> executes a sequence of them.
\<close>

type_synonym 'r step = "'r \<Rightarrow> error + 'r"

fun run :: "'r step list \<Rightarrow> 'r \<Rightarrow> error + 'r" where
  "run [] r = Inr r"
| "run (st # sts) r = (case st r of Inl e \<Rightarrow> Inl e | Inr r' \<Rightarrow> run sts r')"

text \<open>
  \<^verbatim>\<open>if value, ok := obj[k]; ok { if value, ok := value.(string); ok { r.F = value } }\<close>
\<close>

definition string_field :: "obj \<Rightarrow> string \<Rightarrow> (string \<Rightarrow> 'r \<Rightarrow> 'r) \<Rightarrow> 'r step" where
  "string_field obj k assign r =
     (case map_of obj k of Some (VString value) \<Rightarrow> Inr (assign value r) | _ \<Rightarrow> Inr r)"

text \<open>
  \<^verbatim>\<open>if value, ok := obj[k]; ok { if value, ok := value.(bool); ok { r.F = value } }\<close>
\<close>

definition bool_field :: "obj \<Rightarrow> string \<Rightarrow> (bool \<Rightarrow> 'r \<Rightarrow> 'r) \<Rightarrow> 'r step" where
  "bool_field obj k assign r =
     (case map_of obj k of Some (VBool value) \<Rightarrow> Inr (assign value r) | _ \<Rightarrow> Inr r)"

text \<open>
  \<^verbatim>\<open>if value, ok := obj[k]; ok { r.F = value }\<close>, for a field of type
  \<^verbatim>\<open>interface{}\<close>; the fields that are normalized pass
  \<^verbatim>\<open>cleanupMapValue(value)\<close> to the setter.
\<close>

definition value_field :: "obj \<Rightarrow> string \<Rightarrow> (val \<Rightarrow> 'r \<Rightarrow> 'r) \<Rightarrow> 'r step" where
  "value_field obj k assign r =
     (case map_of obj k of Some value \<Rightarrow> Inr (assign value r) | None \<Rightarrow> Inr r)"

text \<open>
  \<^verbatim>\<open>if value, ok := obj[k]; ok { if value, ok := value.([]interface{}); ok { r.F = value } }\<close>
\<close>

definition slice_field :: "obj \<Rightarrow> string \<Rightarrow> (val list \<Rightarrow> 'r \<Rightarrow> 'r) \<Rightarrow> 'r step" where
  "slice_field obj k assign r =
     (case map_of obj k of Some (VSlice value) \<Rightarrow> Inr (assign value r) | _ \<Rightarrow> Inr r)"

text \<open>
  The ordered string arrays:
  \<^verbatim>\<open>if value, ok := value.([]interface{}); ok { s := make([]string, len(value));
  for i, v := range value { s[i] = fmt.Sprint(v) }; r.F = s }\<close>
\<close>

definition strings_field :: "obj \<Rightarrow> string \<Rightarrow> (string list \<Rightarrow> 'r \<Rightarrow> 'r) \<Rightarrow> 'r step" where
  "strings_field obj k assign r = slice_field obj k (\<lambda>value. assign (map Sprint value)) r"

text \<open>
  A structured field:
  \<^verbatim>\<open>if value, ok := obj[k]; ok { rbytes, err := yaml.Marshal(value); ...;
  value := T{}; if err := yaml.Unmarshal(rbytes, &value); err != nil { return err };
  r.F = &value }\<close>.
  The way through \<^verbatim>\<open>yaml.Marshal\<close> and \<^verbatim>\<open>yaml.Unmarshal\<close> into a fresh
  value of the field's type is the argument \<open>unmarshal\<close>: the library and the decoder
  of the child decide what it returns.
\<close>

definition child_field ::
  "obj \<Rightarrow> string \<Rightarrow> (val \<Rightarrow> error + 'c) \<Rightarrow> ('c \<Rightarrow> 'r \<Rightarrow> 'r) \<Rightarrow> 'r step" where
  "child_field obj k unmarshal assign r =
     (case map_of obj k of
        None \<Rightarrow> Inr r
      | Some value \<Rightarrow>
          (case unmarshal value of Inl err \<Rightarrow> Inl err | Inr value \<Rightarrow> Inr (assign value r)))"

text \<open>
  The end of a decoder:
  \<^verbatim>\<open>exts := Extensions{}; if err := unmarshal(&exts); ...;
  if len(exts) > 0 { r.Extensions = exts }\<close>.
\<close>

definition extensions_field :: "obj \<Rightarrow> (Extensions \<Rightarrow> 'r \<Rightarrow> 'r) \<Rightarrow> 'r step" where
  "extensions_field obj assign r =
     (let exts = Extensions_UnmarshalYAML [] obj
      in if length exts > 0 then Inr (assign exts r) else Inr r)"

text \<open>
  The same without the last statement: the bag is decoded and the method returns.
\<close>

definition extensions_unused :: "obj \<Rightarrow> 'r step" where
  "extensions_unused obj r = (let exts = Extensions_UnmarshalYAML [] obj in Inr r)"

text \<open>
  A collection that is decoded from the whole map (the path items of \<^verbatim>\<open>Paths\<close>, the
  callback items of \<^verbatim>\<open>Callback\<close>):
  \<^verbatim>\<open>paths := PathItems{}; if err := unmarshal(&paths); err != nil { return err };
  if len(paths) > 0 { r.PathItems = paths }\<close>. The argument \<open>items\<close> is what the callback
  returned.
\<close>

definition items_field :: "error + 'c list \<Rightarrow> ('c list \<Rightarrow> 'r \<Rightarrow> 'r) \<Rightarrow> 'r step" where
  "items_field items assign r =
     (case items of
        Inl err \<Rightarrow> Inl err
      | Inr items \<Rightarrow> if length items > 0 then Inr (assign items r) else Inr r)"

text \<open>
  The mapping of a discriminator:
  \<^verbatim>\<open>if value, ok := cleanupMapValue(value).(map[string]interface{}); ok {
  s := make(map[string]string, len(value)); for k, v := range value { s[k] = fmt.Sprint(v) };
  r.Mapping = s }\<close>
\<close>

definition string_map_field ::
  "obj \<Rightarrow> string \<Rightarrow> ((string \<times> string) list \<Rightarrow> 'r \<Rightarrow> 'r) \<Rightarrow> 'r step" where
  "string_map_field obj k assign r =
     (case map_of obj k of
        None \<Rightarrow> Inr r
      | Some value \<Rightarrow>
          (case cleanupMapValue value of
             VMapS value \<Rightarrow>
               Inr (assign
                 (fold (\<lambda>k s. AList.update k (Sprint (the (map_of value k))) s) (map fst value) [])
                 r)
           | _ \<Rightarrow> Inr r))"

text \<open>
  The callback \<^verbatim>\<open>unmarshal(&obj)\<close> at a map of pointers to entities
  (\<^verbatim>\<open>map[string]*PathItem\<close>): the library decodes the value of every key of the
  map, by \<open>unmarshal\<close>, and the first value that cannot be decoded is the error of the
  callback.
\<close>

fun unmarshal_entries :: "(val \<Rightarrow> error + 'c) \<Rightarrow> obj \<Rightarrow> error + (string \<times> 'c) list" where
  "unmarshal_entries unmarshal [] = Inr []"
| "unmarshal_entries unmarshal ((k, value) # rest) =
     (case unmarshal value of
        Inl err \<Rightarrow> Inl err
      | Inr value \<Rightarrow>
          (case unmarshal_entries unmarshal rest of
             Inl err \<Rightarrow> Inl err
           | Inr rest \<Rightarrow> Inr ((k, value) # rest)))"

section \<open>The entities\<close>

text \<open>
  One record for each struct, the zero value \<^verbatim>\<open>T{}\<close>, and the two methods
  \<^verbatim>\<open>MarshalYAML\<close> and \<^verbatim>\<open>UnmarshalYAML\<close> as the sequences of their statements,
  in the order of the source.

  \<^item> A pointer is an \<open>option\<close>, \<open>None\<close> being \<^verbatim>\<open>nil\<close>. A slice or a map is a list;
    where the source tests one against \<^verbatim>\<open>nil\<close> (the callbacks and the servers of an
    operation) it is an \<open>option\<close> of a list, elsewhere the empty list stands for both the
    \<^verbatim>\<open>nil\<close> and the empty one, which \<^verbatim>\<open>len\<close> does not tell apart.
  \<^item> A child entity reaches the generic form of its parent only through the YAML library
    (the encoder stores the Go value of the field in the map, the decoder marshals the raw
    value and unmarshals it into a fresh child). Those crossings are the arguments
    \<open>marshal...\<close> and \<open>unmarshal...\<close> of each method, one for each type of field, so
    that what is proved of a method holds whatever the library and the children do.
    Where an entity refers to itself or to an entity that refers back to it, the type of
    the child is a type variable.
  \<^item> The tables \<open>..._string_fields\<close> and \<open>..._bool_fields\<close> list the scalar fields of a
    struct with their keys, as its tags give them.
\<close>

subsection \<open>Contact\<close>

record Contact =
  Name :: string
  URL :: string
  Email :: string
  Extensions :: Extensions

definition Contact_zero :: "Contact" where
  "Contact_zero =
     \<lparr>Contact.Name = '''',
       Contact.URL = '''',
       Contact.Email = '''',
       Contact.Extensions = []\<rparr>"

definition Contact_MarshalYAML ::
  "Contact \<Rightarrow> obj" where
  "Contact_MarshalYAML r =
     build [put_if (Contact.Name r \<noteq> '''') ''name'' (VString (Contact.Name r)),
            put_if (Contact.URL r \<noteq> '''') ''url'' (VString (Contact.URL r)),
            put_if (Contact.Email r \<noteq> '''') ''email'' (VString (Contact.Email r)),
            put_range (Contact.Extensions r)]"

definition Contact_UnmarshalYAML ::
  "Contact \<Rightarrow> obj \<Rightarrow> error + Contact" where
  "Contact_UnmarshalYAML r obj =
     run [string_field obj ''name'' (\<lambda>value r. r\<lparr>Contact.Name := value\<rparr>),
          string_field obj ''url'' (\<lambda>value r. r\<lparr>Contact.URL := value\<rparr>),
          string_field obj ''email''
              (\<lambda>value r. r\<lparr>Contact.Email := value\<rparr>),
          extensions_field obj (\<lambda>exts r. r\<lparr>Contact.Extensions := exts\<rparr>)]
              r"

definition Contact_string_fields :: "(string \<times> (Contact \<Rightarrow> string)) list"
    where
  "Contact_string_fields =
     [(''name'', Contact.Name),
      (''url'', Contact.URL),
      (''email'', Contact.Email)]"

subsection \<open>License\<close>

record License =
  Name :: string
  URL :: string
  Extensions :: Extensions

definition License_zero :: "License" where
  "License_zero =
     \<lparr>License.Name = '''',
       License.URL = '''',
       License.Extensions = []\<rparr>"

definition License_MarshalYAML ::
  "License \<Rightarrow> obj" where
  "License_MarshalYAML r =
     build [put ''name'' (VString (License.Name r)),
            put_if (License.URL r \<noteq> '''') ''url'' (VString (License.URL r)),
            put_range (License.Extensions r)]"

definition License_UnmarshalYAML ::
  "License \<Rightarrow> obj \<Rightarrow> error + License" where
  "License_UnmarshalYAML r obj =
     run [string_field obj ''name'' (\<lambda>value r. r\<lparr>License.Name := value\<rparr>),
          string_field obj ''url'' (\<lambda>value r. r\<lparr>License.URL := value\<rparr>),
          extensions_field obj (\<lambda>exts r. r\<lparr>License.Extensions := exts\<rparr>)]
              r"

definition License_string_fields :: "(string \<times> (License \<Rightarrow> string)) list"
    where
  "License_string_fields =
     [(''name'', License.Name),
      (''url'', License.URL)]"

subsection \<open>ExternalDocumentation\<close>

record ExternalDocumentation =
  Description :: string
  URL :: string
  Extensions :: Extensions

definition ExternalDocumentation_zero :: "ExternalDocumentation" where
  "ExternalDocumentation_zero =
     \<lparr>ExternalDocumentation.Description = '''',
       ExternalDocumentation.URL = '''',
       ExternalDocumentation.Extensions = []\<rparr>"

definition ExternalDocumentation_MarshalYAML ::
  "ExternalDocumentation \<Rightarrow> obj" where
  "ExternalDocumentation_MarshalYAML r =
     build
         [put_if (ExternalDocumentation.Description r \<noteq> '''') ''description''
             (VString (ExternalDocumentation.Description r)),
            put ''url'' (VString (ExternalDocumentation.URL r)),
            put_range (ExternalDocumentation.Extensions r)]"

definition ExternalDocumentation_UnmarshalYAML ::
  "ExternalDocumentation \<Rightarrow> obj \<Rightarrow> error + ExternalDocumentation" where
  "ExternalDocumentation_UnmarshalYAML r obj =
     run
         [string_field obj ''description''
             (\<lambda>value r. r\<lparr>ExternalDocumentation.Description := value\<rparr>),
          string_field obj ''url''
              (\<lambda>value r. r\<lparr>ExternalDocumentation.URL := value\<rparr>),
          extensions_field obj
              (\<lambda>exts r. r\<lparr>ExternalDocumentation.Extensions := exts\<rparr>)] r"

definition ExternalDocumentation_string_fields ::
    "(string \<times> (ExternalDocumentation \<Rightarrow> string)) list" where
  "ExternalDocumentation_string_fields =
     [(''description'', ExternalDocumentation.Description),
      (''url'', ExternalDocumentation.URL)]"

subsection \<open>ServerVariable\<close>

record ServerVariable =
  Enum :: "string list"
  Default :: string
  Description :: string
  Extensions :: Extensions

definition ServerVariable_zero :: "ServerVariable" where
  "ServerVariable_zero =
     \<lparr>ServerVariable.Enum = [],
       ServerVariable.Default = '''',
       ServerVariable.Description = '''',
       ServerVariable.Extensions = []\<rparr>"

definition ServerVariable_MarshalYAML ::
  "ServerVariable \<Rightarrow> obj" where
  "ServerVariable_MarshalYAML r =
     build
         [put_if (length (ServerVariable.Enum r) > 0) ''enum''
             (strings_val (ServerVariable.Enum r)),
            put ''default'' (VString (ServerVariable.Default r)),
            put_if (ServerVariable.Description r \<noteq> '''') ''description''
                (VString (ServerVariable.Description r)),
            put_range (ServerVariable.Extensions r)]"

definition ServerVariable_UnmarshalYAML ::
  "ServerVariable \<Rightarrow> obj \<Rightarrow> error + ServerVariable" where
  "ServerVariable_UnmarshalYAML r obj =
     run
         [strings_field obj ''enum''
             (\<lambda>value r. r\<lparr>ServerVariable.Enum := value\<rparr>),
          string_field obj ''default''
              (\<lambda>value r. r\<lparr>ServerVariable.Default := value\<rparr>),
          string_field obj ''description''
              (\<lambda>value r. r\<lparr>ServerVariable.Description := value\<rparr>),
          extensions_field obj
              (\<lambda>exts r. r\<lparr>ServerVariable.Extensions := exts\<rparr>)] r"

definition ServerVariable_string_fields ::
    "(string \<times> (ServerVariable \<Rightarrow> string)) list" where
  "ServerVariable_string_fields =
     [(''default'', ServerVariable.Default),
      (''description'', ServerVariable.Description)]"

subsection \<open>Server\<close>

record Server =
  URL :: string
  Description :: string
  Variables :: "(string \<times> ServerVariable option) list"
  Extensions :: Extensions

definition Server_zero :: "Server" where
  "Server_zero =
     \<lparr>Server.URL = '''',
       Server.Description = '''',
       Server.Variables = [],
       Server.Extensions = []\<rparr>"

definition Server_MarshalYAML ::
  "((string \<times> ServerVariable option) list \<Rightarrow> val) \<Rightarrow>
   Server \<Rightarrow> obj" where
  "Server_MarshalYAML marshalVariables r =
     build [put ''url'' (VString (Server.URL r)),
            put_if (Server.Description r \<noteq> '''') ''description''
                (VString (Server.Description r)),
            put_if (length (Server.Variables r) > 0) ''variables''
                (marshalVariables (Server.Variables r)),
            put_range (Server.Extensions r)]"

definition Server_UnmarshalYAML ::
  "(val \<Rightarrow> error + (string \<times> ServerVariable option) list) \<Rightarrow>
   Server \<Rightarrow> obj \<Rightarrow> error + Server" where
  "Server_UnmarshalYAML unmarshalVariables r obj =
     run [string_field obj ''url'' (\<lambda>value r. r\<lparr>Server.URL := value\<rparr>),
          string_field obj ''description''
              (\<lambda>value r. r\<lparr>Server.Description := value\<rparr>),
          child_field obj ''variables'' unmarshalVariables
              (\<lambda>value r. r\<lparr>Server.Variables := value\<rparr>),
          extensions_field obj (\<lambda>exts r. r\<lparr>Server.Extensions := exts\<rparr>)] r"

definition Server_string_fields :: "(string \<times> (Server \<Rightarrow> string)) list" where
  "Server_string_fields =
     [(''url'', Server.URL),
      (''description'', Server.Description)]"

subsection \<open>XML\<close>

record XML =
  Name :: string
  Namespace :: string
  Prefix :: string
  Attribute :: bool
  Wrapped :: bool
  Extensions :: Extensions

definition XML_zero :: "XML" where
  "XML_zero =
     \<lparr>XML.Name = '''',
       XML.Namespace = '''',
       XML.Prefix = '''',
       XML.Attribute = False,
       XML.Wrapped = False,
       XML.Extensions = []\<rparr>"

definition XML_MarshalYAML ::
  "XML \<Rightarrow> obj" where
  "XML_MarshalYAML r =
     build [put_if (XML.Name r \<noteq> '''') ''name'' (VString (XML.Name r)),
            put_if (XML.Namespace r \<noteq> '''') ''namespace'' (VString (XML.Namespace r)),
            put_if (XML.Prefix r \<noteq> '''') ''prefix'' (VString (XML.Prefix r)),
            put_if (XML.Attribute r) ''attribute'' (VBool (XML.Attribute r)),
            put_if (XML.Wrapped r) ''wrapped'' (VBool (XML.Wrapped r)),
            put_range (XML.Extensions r)]"

definition XML_UnmarshalYAML ::
  "XML \<Rightarrow> obj \<Rightarrow> error + XML" where
  "XML_UnmarshalYAML r obj =
     run [string_field obj ''name'' (\<lambda>value r. r\<lparr>XML.Name := value\<rparr>),
          string_field obj ''namespace''
              (\<lambda>value r. r\<lparr>XML.Namespace := value\<rparr>),
          string_field obj ''prefix'' (\<lambda>value r. r\<lparr>XML.Prefix := value\<rparr>),
          bool_field obj ''attribute''
              (\<lambda>value r. r\<lparr>XML.Attribute := value\<rparr>),
          bool_field obj ''wrapped'' (\<lambda>value r. r\<lparr>XML.Wrapped := value\<rparr>),
          extensions_field obj (\<lambda>exts r. r\<lparr>XML.Extensions := exts\<rparr>)] r"

definition XML_string_fields :: "(string \<times> (XML \<Rightarrow> string)) list" where
  "XML_string_fields =
     [(''name'', XML.Name),
      (''namespace'', XML.Namespace),
      (''prefix'', XML.Prefix)]"

definition XML_bool_fields :: "(string \<times> (XML \<Rightarrow> bool)) list" where
  "XML_bool_fields =
     [(''attribute'', XML.Attribute),
      (''wrapped'', XML.Wrapped)]"

subsection \<open>Discriminator\<close>

record Discriminator =
  PropertyName :: string
  Mapping :: "(string \<times> string) list"

definition Discriminator_zero :: "Discriminator" where
  "Discriminator_zero =
     \<lparr>Discriminator.PropertyName = '''',
       Discriminator.Mapping = []\<rparr>"

definition Discriminator_MarshalYAML ::
  "Discriminator \<Rightarrow> obj" where
  "Discriminator_MarshalYAML r =
     build [put ''propertyName'' (VString (Discriminator.PropertyName r)),
            put_if (length (Discriminator.Mapping r) > 0) ''mapping''
                (string_map_val (Discriminator.Mapping r))]"

definition Discriminator_UnmarshalYAML ::
  "Discriminator \<Rightarrow> obj \<Rightarrow> error + Discriminator" where
  "Discriminator_UnmarshalYAML r obj =
     run
         [string_field obj ''propertyName''
             (\<lambda>value r. r\<lparr>Discriminator.PropertyName := value\<rparr>),
          string_map_field obj ''mapping''
              (\<lambda>value r. r\<lparr>Discriminator.Mapping := value\<rparr>)] r"

definition Discriminator_string_fields ::
    "(string \<times> (Discriminator \<Rightarrow> string)) list" where
  "Discriminator_string_fields =
     [(''propertyName'', Discriminator.PropertyName)]"

subsection \<open>Tag\<close>

record Tag =
  Name :: string
  Description :: string
  ExternalDocs :: "ExternalDocumentation option"
  Extensions :: Extensions

definition Tag_zero :: "Tag" where
  "Tag_zero =
     \<lparr>Tag.Name = '''',
       Tag.Description = '''',
       Tag.ExternalDocs = None,
       Tag.Extensions = []\<rparr>"

definition Tag_MarshalYAML ::
  "Tag \<Rightarrow> obj" where
  "Tag_MarshalYAML r =
     build [put ''name'' (VString (Tag.Name r)),
            put_if (Tag.Description r \<noteq> '''') ''description''
                (VString (Tag.Description r)),
            put_ptr (Tag.ExternalDocs r) ''externalDocs''
                (\<lambda>value. VMapS (ExternalDocumentation_MarshalYAML value)),
            put_range (Tag.Extensions r)]"

definition Tag_UnmarshalYAML ::
  "(val \<Rightarrow> error + ExternalDocumentation) \<Rightarrow>
   Tag \<Rightarrow> obj \<Rightarrow> error + Tag" where
  "Tag_UnmarshalYAML unmarshalExternalDocs r obj =
     run [string_field obj ''name'' (\<lambda>value r. r\<lparr>Tag.Name := value\<rparr>),
          string_field obj ''description''
              (\<lambda>value r. r\<lparr>Tag.Description := value\<rparr>),
          child_field obj ''externalDocs'' unmarshalExternalDocs
              (\<lambda>value r. r\<lparr>Tag.ExternalDocs := Some value\<rparr>),
          extensions_field obj (\<lambda>exts r. r\<lparr>Tag.Extensions := exts\<rparr>)] r"

definition Tag_string_fields :: "(string \<times> (Tag \<Rightarrow> string)) list" where
  "Tag_string_fields =
     [(''name'', Tag.Name),
      (''description'', Tag.Description)]"

subsection \<open>Example\<close>

record Example =
  Ref :: string
  Summary :: string
  Description :: string
  Value :: val
  ExternalValue :: string
  Extensions :: Extensions

definition Example_zero :: "Example" where
  "Example_zero =
     \<lparr>Example.Ref = '''',
       Example.Summary = '''',
       Example.Description = '''',
       Example.Value = VNull,
       Example.ExternalValue = '''',
       Example.Extensions = []\<rparr>"

definition Example_MarshalYAML ::
  "Example \<Rightarrow> obj" where
  "Example_MarshalYAML r =
     build [put_if (Example.Ref r \<noteq> '''') ''$ref'' (VString (Example.Ref r)),
            put_if (Example.Summary r \<noteq> '''') ''summary'' (VString (Example.Summary r)),
            put_if (Example.Description r \<noteq> '''') ''description''
                (VString (Example.Description r)),
            put_if (Example.Value r \<noteq> VNull) ''value'' (Example.Value r),
            put_if (Example.ExternalValue r \<noteq> '''') ''externalValue''
                (VString (Example.ExternalValue r)),
            put_range (Example.Extensions r)]"

definition Example_UnmarshalYAML ::
  "Example \<Rightarrow> obj \<Rightarrow> error + Example" where
  "Example_UnmarshalYAML r obj =
     run [string_field obj ''$ref'' (\<lambda>value r. r\<lparr>Example.Ref := value\<rparr>),
          string_field obj ''summary''
              (\<lambda>value r. r\<lparr>Example.Summary := value\<rparr>),
          string_field obj ''description''
              (\<lambda>value r. r\<lparr>Example.Description := value\<rparr>),
          value_field obj ''value''
              (\<lambda>value r. r\<lparr>Example.Value := cleanupMapValue value\<rparr>),
          string_field obj ''externalValue''
              (\<lambda>value r. r\<lparr>Example.ExternalValue := value\<rparr>),
          extensions_field obj (\<lambda>exts r. r\<lparr>Example.Extensions := exts\<rparr>)]
              r"

definition Example_string_fields :: "(string \<times> (Example \<Rightarrow> string)) list"
    where
  "Example_string_fields =
     [(''$ref'', Example.Ref),
      (''summary'', Example.Summary),
      (''description'', Example.Description),
      (''externalValue'', Example.ExternalValue)]"

subsection \<open>OAuthFlow\<close>

record OAuthFlow =
  AuthorizationURL :: string
  TokenURL :: string
  RefreshURL :: string
  Scopes :: "(string \<times> string) list"
  Extensions :: Extensions

definition OAuthFlow_zero :: "OAuthFlow" where
  "OAuthFlow_zero =
     \<lparr>OAuthFlow.AuthorizationURL = '''',
       OAuthFlow.TokenURL = '''',
       OAuthFlow.RefreshURL = '''',
       OAuthFlow.Scopes = [],
       OAuthFlow.Extensions = []\<rparr>"

definition OAuthFlow_MarshalYAML ::
  "OAuthFlow \<Rightarrow> obj" where
  "OAuthFlow_MarshalYAML r =
     build [put ''authorizationUrl'' (VString (OAuthFlow.AuthorizationURL r)),
            put ''tokenUrl'' (VString (OAuthFlow.TokenURL r)),
            put_if (OAuthFlow.RefreshURL r \<noteq> '''') ''refreshUrl''
                (VString (OAuthFlow.RefreshURL r)),
            put ''scopes'' (string_map_val (OAuthFlow.Scopes r)),
            put_range (OAuthFlow.Extensions r)]"

definition OAuthFlow_UnmarshalYAML ::
  "(val \<Rightarrow> error + (string \<times> string) list) \<Rightarrow>
   OAuthFlow \<Rightarrow> obj \<Rightarrow> error + OAuthFlow" where
  "OAuthFlow_UnmarshalYAML unmarshalScopes r obj =
     run
         [string_field obj ''authorizationUrl''
             (\<lambda>value r. r\<lparr>OAuthFlow.AuthorizationURL := value\<rparr>),
          string_field obj ''tokenUrl''
              (\<lambda>value r. r\<lparr>OAuthFlow.TokenURL := value\<rparr>),
          string_field obj ''refreshUrl''
              (\<lambda>value r. r\<lparr>OAuthFlow.RefreshURL := value\<rparr>),
          child_field obj ''scopes'' unmarshalScopes
              (\<lambda>value r. r\<lparr>OAuthFlow.Scopes := value\<rparr>),
          extensions_field obj (\<lambda>exts r. r\<lparr>OAuthFlow.Extensions := exts\<rparr>)]
              r"

definition OAuthFlow_string_fields :: "(string \<times> (OAuthFlow \<Rightarrow> string)) list"
    where
  "OAuthFlow_string_fields =
     [(''authorizationUrl'', OAuthFlow.AuthorizationURL),
      (''tokenUrl'', OAuthFlow.TokenURL),
      (''refreshUrl'', OAuthFlow.RefreshURL)]"

subsection \<open>OAuthFlows\<close>

record OAuthFlows =
  Implicit :: "OAuthFlow option"
  Password :: "OAuthFlow option"
  ClientCredentials :: "OAuthFlow option"
  AuthorizationCode :: "OAuthFlow option"
  Extensions :: Extensions

definition OAuthFlows_zero :: "OAuthFlows" where
  "OAuthFlows_zero =
     \<lparr>OAuthFlows.Implicit = None,
       OAuthFlows.Password = None,
       OAuthFlows.ClientCredentials = None,
       OAuthFlows.AuthorizationCode = None,
       OAuthFlows.Extensions = []\<rparr>"

definition OAuthFlows_MarshalYAML ::
  "(OAuthFlow \<Rightarrow> val) \<Rightarrow>
   OAuthFlows \<Rightarrow> obj" where
  "OAuthFlows_MarshalYAML marshalOAuthFlow r =
     build [put_ptr (OAuthFlows.Implicit r) ''implicit'' marshalOAuthFlow,
            put_ptr (OAuthFlows.Password r) ''password'' marshalOAuthFlow,
            put_ptr (OAuthFlows.ClientCredentials r) ''clientCredentials'' marshalOAuthFlow,
            put_ptr (OAuthFlows.AuthorizationCode r) ''authorizationCode'' marshalOAuthFlow,
            put_range (OAuthFlows.Extensions r)]"

definition OAuthFlows_UnmarshalYAML ::
  "(val \<Rightarrow> error + OAuthFlow) \<Rightarrow>
   OAuthFlows \<Rightarrow> obj \<Rightarrow> error + OAuthFlows" where
  "OAuthFlows_UnmarshalYAML unmarshalOAuthFlow r obj =
     run
         [child_field obj ''implicit'' unmarshalOAuthFlow
             (\<lambda>value r. r\<lparr>OAuthFlows.Implicit := Some value\<rparr>),
          child_field obj ''password'' unmarshalOAuthFlow
              (\<lambda>value r. r\<lparr>OAuthFlows.Password := Some value\<rparr>),
          child_field obj ''clientCredentials'' unmarshalOAuthFlow
              (\<lambda>value r. r\<lparr>OAuthFlows.ClientCredentials := Some value\<rparr>),
          child_field obj ''authorizationCode'' unmarshalOAuthFlow
              (\<lambda>value r. r\<lparr>OAuthFlows.AuthorizationCode := Some value\<rparr>),
          extensions_field obj
              (\<lambda>exts r. r\<lparr>OAuthFlows.Extensions := exts\<rparr>)] r"

definition OAuthFlows_string_fields :: "(string \<times> (OAuthFlows \<Rightarrow> string))
    list" where
  "OAuthFlows_string_fields =
     []"

subsection \<open>Info\<close>

record Info =
  Title :: string
  Description :: string
  TermsOfService :: string
  Contact :: "Contact option"
  License :: "License option"
  Version :: string
  Extensions :: Extensions

definition Info_zero :: "Info" where
  "Info_zero =
     \<lparr>Info.Title = '''',
       Info.Description = '''',
       Info.TermsOfService = '''',
       Info.Contact = None,
       Info.License = None,
       Info.Version = '''',
       Info.Extensions = []\<rparr>"

definition Info_MarshalYAML ::
  "Info \<Rightarrow> obj" where
  "Info_MarshalYAML r =
     build [put ''title'' (VString (Info.Title r)),
            put_if (Info.Description r \<noteq> '''') ''description''
                (VString (Info.Description r)),
            put_if (Info.TermsOfService r \<noteq> '''') ''termsOfService''
                (VString (Info.TermsOfService r)),
            put_ptr (Info.Contact r) ''contact''
                (\<lambda>value. VMapS (Contact_MarshalYAML value)),
            put_ptr (Info.License r) ''license''
                (\<lambda>value. VMapS (License_MarshalYAML value)),
            put ''version'' (VString (Info.Version r)),
            put_range (Info.Extensions r)]"

definition Info_UnmarshalYAML ::
  "(val \<Rightarrow> error + Contact) \<Rightarrow>
   (val \<Rightarrow> error + License) \<Rightarrow>
   Info \<Rightarrow> obj \<Rightarrow> error + Info" where
  "Info_UnmarshalYAML unmarshalContact unmarshalLicense r obj =
     run [string_field obj ''title'' (\<lambda>value r. r\<lparr>Info.Title := value\<rparr>),
          string_field obj ''description''
              (\<lambda>value r. r\<lparr>Info.Description := value\<rparr>),
          string_field obj ''termsOfService''
              (\<lambda>value r. r\<lparr>Info.TermsOfService := value\<rparr>),
          child_field obj ''contact'' unmarshalContact
              (\<lambda>value r. r\<lparr>Info.Contact := Some value\<rparr>),
          child_field obj ''license'' unmarshalLicense
              (\<lambda>value r. r\<lparr>Info.License := Some value\<rparr>),
          string_field obj ''version''
              (\<lambda>value r. r\<lparr>Info.Version := value\<rparr>),
          extensions_field obj (\<lambda>exts r. r\<lparr>Info.Extensions := exts\<rparr>)] r"

definition Info_string_fields :: "(string \<times> (Info \<Rightarrow> string)) list" where
  "Info_string_fields =
     [(''title'', Info.Title),
      (''description'', Info.Description),
      (''termsOfService'', Info.TermsOfService),
      (''version'', Info.Version)]"

subsection \<open>Link\<close>

record Link =
  Ref :: string
  OperationRef :: string
  OperationID :: string
  Parameters :: "(string \<times> string) list"
  RequestBody :: string
  Description :: string
  Server :: "Server option"
  Extensions :: Extensions

definition Link_zero :: "Link" where
  "Link_zero =
     \<lparr>Link.Ref = '''',
       Link.OperationRef = '''',
       Link.OperationID = '''',
       Link.Parameters = [],
       Link.RequestBody = '''',
       Link.Description = '''',
       Link.Server = None,
       Link.Extensions = []\<rparr>"

definition Link_MarshalYAML ::
  "(Server \<Rightarrow> val) \<Rightarrow>
   Link \<Rightarrow> obj" where
  "Link_MarshalYAML marshalServer r =
     build [put_if (Link.Ref r \<noteq> '''') ''$ref'' (VString (Link.Ref r)),
            put_if (Link.OperationRef r \<noteq> '''') ''operationRef''
                (VString (Link.OperationRef r)),
            put_if (Link.OperationID r \<noteq> '''') ''operationId''
                (VString (Link.OperationID r)),
            put_if (length (Link.Parameters r) > 0) ''parameters''
                (string_map_val (Link.Parameters r)),
            put_if (Link.RequestBody r \<noteq> '''') ''requestBody''
                (VString (Link.RequestBody r)),
            put_if (Link.Description r \<noteq> '''') ''description''
                (VString (Link.Description r)),
            put_ptr (Link.Server r) ''server'' marshalServer,
            put_range (Link.Extensions r)]"

definition Link_UnmarshalYAML ::
  "(val \<Rightarrow> error + (string \<times> string) list) \<Rightarrow>
   (val \<Rightarrow> error + Server) \<Rightarrow>
   Link \<Rightarrow> obj \<Rightarrow> error + Link" where
  "Link_UnmarshalYAML unmarshalParameters unmarshalServer r obj =
     run [string_field obj ''$ref'' (\<lambda>value r. r\<lparr>Link.Ref := value\<rparr>),
          string_field obj ''operationRef''
              (\<lambda>value r. r\<lparr>Link.OperationRef := value\<rparr>),
          string_field obj ''operationId''
              (\<lambda>value r. r\<lparr>Link.OperationID := value\<rparr>),
          child_field obj ''parameters'' unmarshalParameters
              (\<lambda>value r. r\<lparr>Link.Parameters := value\<rparr>),
          string_field obj ''requestBody''
              (\<lambda>value r. r\<lparr>Link.RequestBody := value\<rparr>),
          string_field obj ''description''
              (\<lambda>value r. r\<lparr>Link.Description := value\<rparr>),
          child_field obj ''server'' unmarshalServer
              (\<lambda>value r. r\<lparr>Link.Server := Some value\<rparr>),
          extensions_field obj (\<lambda>exts r. r\<lparr>Link.Extensions := exts\<rparr>)] r"

definition Link_string_fields :: "(string \<times> (Link \<Rightarrow> string)) list" where
  "Link_string_fields =
     [(''$ref'', Link.Ref),
      (''operationRef'', Link.OperationRef),
      (''operationId'', Link.OperationID),
      (''requestBody'', Link.RequestBody),
      (''description'', Link.Description)]"

subsection \<open>Schema\<close>

record 's Schema =
  Ref :: string
  Nullable :: bool
  Discriminator :: "Discriminator option"
  ReadOnly :: bool
  WriteOnly :: bool
  XML :: "XML option"
  ExternalDocs :: "ExternalDocumentation option"
  Example :: val
  Deprecated :: bool
  Extensions :: Extensions
  MultipleOf :: val
  Maximum :: val
  ExclusiveMaximum :: bool
  Minimum :: val
  ExclusiveMinimum :: bool
  MaxLength :: val
  MinLength :: val
  Pattern :: string
  Items :: "'s option"
  MaxItems :: val
  MinItems :: val
  UniqueItems :: bool
  MaxProperties :: val
  MinProperties :: val
  Required :: "string list"
  Properties :: "(string \<times> 's option) list"
  AdditionalProperties :: "'s option"
  Enum :: "val list"
  Type :: string
  AllOf :: "'s option list"
  AnyOf :: "'s option list"
  OneOf :: "'s option list"
  Not :: "'s option"
  Title :: string
  Description :: string
  Default :: val
  Format :: string

definition Schema_zero :: "'s Schema" where
  "Schema_zero =
     \<lparr>Schema.Ref = '''',
       Schema.Nullable = False,
       Schema.Discriminator = None,
       Schema.ReadOnly = False,
       Schema.WriteOnly = False,
       Schema.XML = None,
       Schema.ExternalDocs = None,
       Schema.Example = VNull,
       Schema.Deprecated = False,
       Schema.Extensions = [],
       Schema.MultipleOf = VNull,
       Schema.Maximum = VNull,
       Schema.ExclusiveMaximum = False,
       Schema.Minimum = VNull,
       Schema.ExclusiveMinimum = False,
       Schema.MaxLength = VNull,
       Schema.MinLength = VNull,
       Schema.Pattern = '''',
       Schema.Items = None,
       Schema.MaxItems = VNull,
       Schema.MinItems = VNull,
       Schema.UniqueItems = False,
       Schema.MaxProperties = VNull,
       Schema.MinProperties = VNull,
       Schema.Required = [],
       Schema.Properties = [],
       Schema.AdditionalProperties = None,
       Schema.Enum = [],
       Schema.Type = '''',
       Schema.AllOf = [],
       Schema.AnyOf = [],
       Schema.OneOf = [],
       Schema.Not = None,
       Schema.Title = '''',
       Schema.Description = '''',
       Schema.Default = VNull,
       Schema.Format = ''''\<rparr>"

definition Schema_MarshalYAML ::
  "(Discriminator \<Rightarrow> val) \<Rightarrow>
   (XML \<Rightarrow> val) \<Rightarrow>
   (ExternalDocumentation \<Rightarrow> val) \<Rightarrow>
   ('s \<Rightarrow> val) \<Rightarrow>
   ((string \<times> 's option) list \<Rightarrow> val) \<Rightarrow>
   ('s option list \<Rightarrow> val) \<Rightarrow>
   's Schema \<Rightarrow> obj" where
  "Schema_MarshalYAML marshalDiscriminator marshalXML marshalExternalDocs marshalSchema
      marshalProperties marshalSchemas r =
     build [put_if (Schema.Ref r \<noteq> '''') ''$ref'' (VString (Schema.Ref r)),
            put_if (Schema.Nullable r) ''nullable'' (VBool (Schema.Nullable r)),
            put_ptr (Schema.Discriminator r) ''discriminator'' marshalDiscriminator,
            put_if (Schema.ReadOnly r) ''readOnly'' (VBool (Schema.ReadOnly r)),
            put_if (Schema.WriteOnly r) ''writeOnly'' (VBool (Schema.WriteOnly r)),
            put_ptr (Schema.XML r) ''xml'' marshalXML,
            put_ptr (Schema.ExternalDocs r) ''externalDocs'' marshalExternalDocs,
            put_if (Schema.Example r \<noteq> VNull) ''example'' (Schema.Example r),
            put_if (Schema.Deprecated r) ''deprecated'' (VBool (Schema.Deprecated r)),
            put_range (Schema.Extensions r),
            put_if (Schema.MultipleOf r \<noteq> VNull) ''multipleOf'' (Schema.MultipleOf r),
            put_if (Schema.Maximum r \<noteq> VNull) ''maximum'' (Schema.Maximum r),
            put_if (Schema.ExclusiveMaximum r) ''exclusiveMaximum''
                (VBool (Schema.ExclusiveMaximum r)),
            put_if (Schema.Minimum r \<noteq> VNull) ''minimum'' (Schema.Minimum r),
            put_if (Schema.ExclusiveMinimum r) ''exclusiveMinimum''
                (VBool (Schema.ExclusiveMinimum r)),
            put_if (Schema.MaxLength r \<noteq> VNull) ''maxLength'' (Schema.MaxLength r),
            put_if (Schema.MinLength r \<noteq> VNull) ''minLength'' (Schema.MinLength r),
            put_if (Schema.Pattern r \<noteq> '''') ''pattern'' (VString (Schema.Pattern r)),
            put_ptr (Schema.Items r) ''items'' marshalSchema,
            put_if (Schema.MaxItems r \<noteq> VNull) ''maxItems'' (Schema.MaxItems r),
            put_if (Schema.MinItems r \<noteq> VNull) ''minItems'' (Schema.MinItems r),
            put_if (Schema.UniqueItems r) ''uniqueItems'' (VBool (Schema.UniqueItems r)),
            put_if (Schema.MaxProperties r \<noteq> VNull) ''maxProperties''
                (Schema.MaxProperties r),
            put_if (Schema.MinProperties r \<noteq> VNull) ''minProperties''
                (Schema.MinProperties r),
            put_if (length (Schema.Required r) > 0) ''required''
                (strings_val (Schema.Required r)),
            put_if (length (Schema.Properties r) > 0) ''properties''
                (marshalProperties (Schema.Properties r)),
            put_ptr (Schema.AdditionalProperties r) ''additionalProperties'' marshalSchema,
            put_if (length (Schema.Enum r) > 0) ''enum'' (VSlice (Schema.Enum r)),
            put_if (Schema.Type r \<noteq> '''') ''type'' (VString (Schema.Type r)),
            put_if (length (Schema.AllOf r) > 0) ''allOf'' (marshalSchemas (Schema.AllOf r)),
            put_if (length (Schema.AnyOf r) > 0) ''anyOf'' (marshalSchemas (Schema.AnyOf r)),
            put_if (length (Schema.OneOf r) > 0) ''oneOf'' (marshalSchemas (Schema.OneOf r)),
            put_ptr (Schema.Not r) ''not'' marshalSchema,
            put_if (Schema.Title r \<noteq> '''') ''title'' (VString (Schema.Title r)),
            put_if (Schema.Description r \<noteq> '''') ''description''
                (VString (Schema.Description r)),
            put_if (Schema.Default r \<noteq> VNull) ''default'' (Schema.Default r),
            put_if (Schema.Format r \<noteq> '''') ''format'' (VString (Schema.Format r))]"

definition Schema_UnmarshalYAML ::
  "(val \<Rightarrow> error + Discriminator) \<Rightarrow>
   (val \<Rightarrow> error + XML) \<Rightarrow>
   (val \<Rightarrow> error + ExternalDocumentation) \<Rightarrow>
   (val \<Rightarrow> error + 's) \<Rightarrow>
   (val \<Rightarrow> error + (string \<times> 's option) list) \<Rightarrow>
   (val \<Rightarrow> error + 's option list) \<Rightarrow>
   's Schema \<Rightarrow> obj \<Rightarrow> error + 's Schema" where
  "Schema_UnmarshalYAML unmarshalDiscriminator unmarshalXML unmarshalExternalDocs
      unmarshalSchema unmarshalProperties unmarshalSchemas r obj =
     run [string_field obj ''$ref'' (\<lambda>value r. r\<lparr>Schema.Ref := value\<rparr>),
          bool_field obj ''nullable''
              (\<lambda>value r. r\<lparr>Schema.Nullable := value\<rparr>),
          child_field obj ''discriminator'' unmarshalDiscriminator
              (\<lambda>value r. r\<lparr>Schema.Discriminator := Some value\<rparr>),
          bool_field obj ''readOnly''
              (\<lambda>value r. r\<lparr>Schema.ReadOnly := value\<rparr>),
          bool_field obj ''writeOnly''
              (\<lambda>value r. r\<lparr>Schema.WriteOnly := value\<rparr>),
          child_field obj ''xml'' unmarshalXML
              (\<lambda>value r. r\<lparr>Schema.XML := Some value\<rparr>),
          child_field obj ''externalDocs'' unmarshalExternalDocs
              (\<lambda>value r. r\<lparr>Schema.ExternalDocs := Some value\<rparr>),
          value_field obj ''example''
              (\<lambda>value r. r\<lparr>Schema.Example := cleanupMapValue value\<rparr>),
          bool_field obj ''deprecated''
              (\<lambda>value r. r\<lparr>Schema.Deprecated := value\<rparr>),
          extensions_field obj (\<lambda>exts r. r\<lparr>Schema.Extensions := exts\<rparr>),
          value_field obj ''multipleOf''
              (\<lambda>value r. r\<lparr>Schema.MultipleOf := value\<rparr>),
          value_field obj ''maximum''
              (\<lambda>value r. r\<lparr>Schema.Maximum := value\<rparr>),
          bool_field obj ''exclusiveMaximum''
              (\<lambda>value r. r\<lparr>Schema.ExclusiveMaximum := value\<rparr>),
          value_field obj ''minimum''
              (\<lambda>value r. r\<lparr>Schema.Minimum := value\<rparr>),
          bool_field obj ''exclusiveMinimum''
              (\<lambda>value r. r\<lparr>Schema.ExclusiveMinimum := value\<rparr>),
          value_field obj ''maxLength''
              (\<lambda>value r. r\<lparr>Schema.MaxLength := value\<rparr>),
          value_field obj ''minLength''
              (\<lambda>value r. r\<lparr>Schema.MinLength := value\<rparr>),
          string_field obj ''pattern''
              (\<lambda>value r. r\<lparr>Schema.Pattern := value\<rparr>),
          child_field obj ''items'' unmarshalSchema
              (\<lambda>value r. r\<lparr>Schema.Items := Some value\<rparr>),
          value_field obj ''maxItems''
              (\<lambda>value r. r\<lparr>Schema.MaxItems := value\<rparr>),
          value_field obj ''minItems''
              (\<lambda>value r. r\<lparr>Schema.MinItems := value\<rparr>),
          bool_field obj ''uniqueItems''
              (\<lambda>value r. r\<lparr>Schema.UniqueItems := value\<rparr>),
          value_field obj ''maxProperties''
              (\<lambda>value r. r\<lparr>Schema.MaxProperties := value\<rparr>),
          value_field obj ''minProperties''
              (\<lambda>value r. r\<lparr>Schema.MinProperties := value\<rparr>),
          strings_field obj ''required''
              (\<lambda>value r. r\<lparr>Schema.Required := value\<rparr>),
          child_field obj ''properties'' unmarshalProperties
              (\<lambda>value r. r\<lparr>Schema.Properties := value\<rparr>),
          child_field obj ''additionalProperties'' unmarshalSchema
              (\<lambda>value r. r\<lparr>Schema.AdditionalProperties := Some value\<rparr>),
          slice_field obj ''enum'' (\<lambda>value r. r\<lparr>Schema.Enum := value\<rparr>),
          string_field obj ''type'' (\<lambda>value r. r\<lparr>Schema.Type := value\<rparr>),
          child_field obj ''allOf'' unmarshalSchemas
              (\<lambda>value r. r\<lparr>Schema.AllOf := value\<rparr>),
          child_field obj ''anyOf'' unmarshalSchemas
              (\<lambda>value r. r\<lparr>Schema.AnyOf := value\<rparr>),
          child_field obj ''oneOf'' unmarshalSchemas
              (\<lambda>value r. r\<lparr>Schema.OneOf := value\<rparr>),
          child_field obj ''not'' unmarshalSchema
              (\<lambda>value r. r\<lparr>Schema.Not := Some value\<rparr>),
          string_field obj ''title'' (\<lambda>value r. r\<lparr>Schema.Title := value\<rparr>),
          string_field obj ''description''
              (\<lambda>value r. r\<lparr>Schema.Description := value\<rparr>),
          value_field obj ''default''
              (\<lambda>value r. r\<lparr>Schema.Default := value\<rparr>),
          string_field obj ''format''
              (\<lambda>value r. r\<lparr>Schema.Format := value\<rparr>)] r"

definition Schema_string_fields :: "(string \<times> ('s Schema \<Rightarrow> string)) list"
    where
  "Schema_string_fields =
     [(''$ref'', Schema.Ref),
      (''pattern'', Schema.Pattern),
      (''type'', Schema.Type),
      (''title'', Schema.Title),
      (''description'', Schema.Description),
      (''format'', Schema.Format)]"

definition Schema_bool_fields :: "(string \<times> ('s Schema \<Rightarrow> bool)) list" where
  "Schema_bool_fields =
     [(''nullable'', Schema.Nullable),
      (''readOnly'', Schema.ReadOnly),
      (''writeOnly'', Schema.WriteOnly),
      (''deprecated'', Schema.Deprecated),
      (''exclusiveMaximum'', Schema.ExclusiveMaximum),
      (''exclusiveMinimum'', Schema.ExclusiveMinimum),
      (''uniqueItems'', Schema.UniqueItems)]"

text \<open>The keys that Schema.MarshalYAML stores after it has copied the bag.\<close>

definition Schema_keys_after_extensions :: "string list" where
  "Schema_keys_after_extensions =
     [''multipleOf'', ''maximum'', ''exclusiveMaximum'', ''minimum'', ''exclusiveMinimum'',
         ''maxLength'', ''minLength'', ''pattern'', ''items'', ''maxItems'', ''minItems'',
             ''uniqueItems'', ''maxProperties'', ''minProperties'', ''required'',
                 ''properties'', ''additionalProperties'', ''enum'', ''type'', ''allOf'',
                     ''anyOf'', ''oneOf'', ''not'', ''title'', ''description'', ''default'',
                         ''format'']"

subsection \<open>Header\<close>

record ('s, 'm) Header =
  Ref :: string
  Description :: string
  Required :: bool
  Deprecated :: bool
  AllowEmptyValue :: bool
  Style :: string
  Explode :: bool
  AllowReserved :: bool
  Schema :: "'s option"
  Example :: val
  Examples :: "(string \<times> Example option) list"
  Content :: "(string \<times> 'm option) list"
  Extensions :: Extensions

definition Header_zero :: "('s, 'm) Header" where
  "Header_zero =
     \<lparr>Header.Ref = '''',
       Header.Description = '''',
       Header.Required = False,
       Header.Deprecated = False,
       Header.AllowEmptyValue = False,
       Header.Style = '''',
       Header.Explode = False,
       Header.AllowReserved = False,
       Header.Schema = None,
       Header.Example = VNull,
       Header.Examples = [],
       Header.Content = [],
       Header.Extensions = []\<rparr>"

definition Header_MarshalYAML ::
  "('s \<Rightarrow> val) \<Rightarrow>
   ((string \<times> Example option) list \<Rightarrow> val) \<Rightarrow>
   ((string \<times> 'm option) list \<Rightarrow> val) \<Rightarrow>
   ('s, 'm) Header \<Rightarrow> obj" where
  "Header_MarshalYAML marshalSchema marshalExamples marshalContent r =
     build [put_if (Header.Ref r \<noteq> '''') ''$ref'' (VString (Header.Ref r)),
            put_if (Header.Description r \<noteq> '''') ''description''
                (VString (Header.Description r)),
            put_if (Header.Required r) ''required'' (VBool (Header.Required r)),
            put_if (Header.Deprecated r) ''deprecated'' (VBool (Header.Deprecated r)),
            put_if (Header.AllowEmptyValue r) ''allowEmptyValue''
                (VBool (Header.AllowEmptyValue r)),
            put_if (Header.Style r \<noteq> '''') ''style'' (VString (Header.Style r)),
            put_if (Header.Explode r) ''explode'' (VBool (Header.Explode r)),
            put_if (Header.AllowReserved r) ''allowReserved'' (VBool (Header.AllowReserved r)),
            put_ptr (Header.Schema r) ''schema'' marshalSchema,
            put_if (Header.Example r \<noteq> VNull) ''example'' (Header.Example r),
            put_if (length (Header.Examples r) > 0) ''examples''
                (marshalExamples (Header.Examples r)),
            put_if (length (Header.Content r) > 0) ''content''
                (marshalContent (Header.Content r)),
            put_range (Header.Extensions r)]"

definition Header_UnmarshalYAML ::
  "(val \<Rightarrow> error + 's) \<Rightarrow>
   (val \<Rightarrow> error + (string \<times> Example option) list) \<Rightarrow>
   (val \<Rightarrow> error + (string \<times> 'm option) list) \<Rightarrow>
   ('s, 'm) Header \<Rightarrow> obj \<Rightarrow> error + ('s, 'm) Header" where
  "Header_UnmarshalYAML unmarshalSchema unmarshalExamples unmarshalContent r obj =
     run [string_field obj ''$ref'' (\<lambda>value r. r\<lparr>Header.Ref := value\<rparr>),
          string_field obj ''description''
              (\<lambda>value r. r\<lparr>Header.Description := value\<rparr>),
          bool_field obj ''required''
              (\<lambda>value r. r\<lparr>Header.Required := value\<rparr>),
          bool_field obj ''deprecated''
              (\<lambda>value r. r\<lparr>Header.Deprecated := value\<rparr>),
          bool_field obj ''allowEmptyValue''
              (\<lambda>value r. r\<lparr>Header.AllowEmptyValue := value\<rparr>),
          string_field obj ''style'' (\<lambda>value r. r\<lparr>Header.Style := value\<rparr>),
          bool_field obj ''explode''
              (\<lambda>value r. r\<lparr>Header.Explode := value\<rparr>),
          bool_field obj ''allowReserved''
              (\<lambda>value r. r\<lparr>Header.AllowReserved := value\<rparr>),
          child_field obj ''schema'' unmarshalSchema
              (\<lambda>value r. r\<lparr>Header.Schema := Some value\<rparr>),
          value_field obj ''example''
              (\<lambda>value r. r\<lparr>Header.Example := value\<rparr>),
          child_field obj ''examples'' unmarshalExamples
              (\<lambda>value r. r\<lparr>Header.Examples := value\<rparr>),
          child_field obj ''content'' unmarshalContent
              (\<lambda>value r. r\<lparr>Header.Content := value\<rparr>),
          extensions_field obj (\<lambda>exts r. r\<lparr>Header.Extensions := exts\<rparr>)] r"

definition Header_string_fields :: "(string \<times> (('s, 'm) Header \<Rightarrow> string))
    list" where
  "Header_string_fields =
     [(''$ref'', Header.Ref),
      (''description'', Header.Description),
      (''style'', Header.Style)]"

definition Header_bool_fields :: "(string \<times> (('s, 'm) Header \<Rightarrow> bool)) list"
    where
  "Header_bool_fields =
     [(''required'', Header.Required),
      (''deprecated'', Header.Deprecated),
      (''allowEmptyValue'', Header.AllowEmptyValue),
      (''explode'', Header.Explode),
      (''allowReserved'', Header.AllowReserved)]"

subsection \<open>Parameter\<close>

record ('s, 'm) Parameter = "('s, 'm) Header" +
  Name :: string
  In :: string

definition Parameter_zero :: "('s, 'm) Parameter" where
  "Parameter_zero =
     \<lparr>Header.Ref = '''',
       Header.Description = '''',
       Header.Required = False,
       Header.Deprecated = False,
       Header.AllowEmptyValue = False,
       Header.Style = '''',
       Header.Explode = False,
       Header.AllowReserved = False,
       Header.Schema = None,
       Header.Example = VNull,
       Header.Examples = [],
       Header.Content = [],
       Header.Extensions = [],
       Parameter.Name = '''',
       Parameter.In = ''''\<rparr>"

definition Parameter_MarshalYAML ::
  "('s \<Rightarrow> val) \<Rightarrow>
   ((string \<times> Example option) list \<Rightarrow> val) \<Rightarrow>
   ((string \<times> 'm option) list \<Rightarrow> val) \<Rightarrow>
   ('s, 'm) Parameter \<Rightarrow> obj" where
  "Parameter_MarshalYAML marshalSchema marshalExamples marshalContent r =
     build [put_if (Header.Ref r \<noteq> '''') ''$ref'' (VString (Header.Ref r)),
            put ''name'' (VString (Parameter.Name r)),
            put ''in'' (VString (Parameter.In r)),
            put_if (Header.Description r \<noteq> '''') ''description''
                (VString (Header.Description r)),
            put_if (Header.Required r) ''required'' (VBool (Header.Required r)),
            put_if (Header.Deprecated r) ''deprecated'' (VBool (Header.Deprecated r)),
            put_if (Header.AllowEmptyValue r) ''allowEmptyValue''
                (VBool (Header.AllowEmptyValue r)),
            put_if (Header.Style r \<noteq> '''') ''style'' (VString (Header.Style r)),
            put_if (Header.Explode r) ''explode'' (VBool (Header.Explode r)),
            put_if (Header.AllowReserved r) ''allowReserved'' (VBool (Header.AllowReserved r)),
            put_ptr (Header.Schema r) ''schema'' marshalSchema,
            put_if (Header.Example r \<noteq> VNull) ''example'' (Header.Example r),
            put_if (length (Header.Examples r) > 0) ''examples''
                (marshalExamples (Header.Examples r)),
            put_if (length (Header.Content r) > 0) ''content''
                (marshalContent (Header.Content r)),
            put_range (Header.Extensions r)]"

definition Parameter_UnmarshalYAML ::
  "(val \<Rightarrow> error + 's) \<Rightarrow>
   (val \<Rightarrow> error + (string \<times> Example option) list) \<Rightarrow>
   (val \<Rightarrow> error + (string \<times> 'm option) list) \<Rightarrow>
   ('s, 'm) Parameter \<Rightarrow> obj \<Rightarrow> error + ('s, 'm) Parameter" where
  "Parameter_UnmarshalYAML unmarshalSchema unmarshalExamples unmarshalContent r obj =
     run [string_field obj ''$ref'' (\<lambda>value r. r\<lparr>Header.Ref := value\<rparr>),
          string_field obj ''name''
              (\<lambda>value r. r\<lparr>Parameter.Name := value\<rparr>),
          string_field obj ''in'' (\<lambda>value r. r\<lparr>Parameter.In := value\<rparr>),
          string_field obj ''description''
              (\<lambda>value r. r\<lparr>Header.Description := value\<rparr>),
          bool_field obj ''required''
              (\<lambda>value r. r\<lparr>Header.Required := value\<rparr>),
          bool_field obj ''deprecated''
              (\<lambda>value r. r\<lparr>Header.Deprecated := value\<rparr>),
          bool_field obj ''allowEmptyValue''
              (\<lambda>value r. r\<lparr>Header.AllowEmptyValue := value\<rparr>),
          string_field obj ''style'' (\<lambda>value r. r\<lparr>Header.Style := value\<rparr>),
          bool_field obj ''explode''
              (\<lambda>value r. r\<lparr>Header.Explode := value\<rparr>),
          bool_field obj ''allowReserved''
              (\<lambda>value r. r\<lparr>Header.AllowReserved := value\<rparr>),
          child_field obj ''schema'' unmarshalSchema
              (\<lambda>value r. r\<lparr>Header.Schema := Some value\<rparr>),
          value_field obj ''example''
              (\<lambda>value r. r\<lparr>Header.Example := value\<rparr>),
          child_field obj ''examples'' unmarshalExamples
              (\<lambda>value r. r\<lparr>Header.Examples := value\<rparr>),
          child_field obj ''content'' unmarshalContent
              (\<lambda>value r. r\<lparr>Header.Content := value\<rparr>),
          extensions_field obj (\<lambda>exts r. r\<lparr>Header.Extensions := exts\<rparr>)] r"

definition Parameter_string_fields ::
    "(string \<times> (('s, 'm) Parameter \<Rightarrow> string)) list" where
  "Parameter_string_fields =
     [(''$ref'', Header.Ref),
      (''name'', Parameter.Name),
      (''in'', Parameter.In),
      (''description'', Header.Description),
      (''style'', Header.Style)]"

definition Parameter_bool_fields :: "(string \<times> (('s, 'm) Parameter \<Rightarrow> bool))
    list" where
  "Parameter_bool_fields =
     [(''required'', Header.Required),
      (''deprecated'', Header.Deprecated),
      (''allowEmptyValue'', Header.AllowEmptyValue),
      (''explode'', Header.Explode),
      (''allowReserved'', Header.AllowReserved)]"

subsection \<open>Encoding\<close>

record 'h Encoding =
  ContentType :: string
  Headers :: "(string \<times> 'h option) list"
  Style :: string
  Explode :: bool
  AllowReserved :: bool
  Extensions :: Extensions

definition Encoding_zero :: "'h Encoding" where
  "Encoding_zero =
     \<lparr>Encoding.ContentType = '''',
       Encoding.Headers = [],
       Encoding.Style = '''',
       Encoding.Explode = False,
       Encoding.AllowReserved = False,
       Encoding.Extensions = []\<rparr>"

definition Encoding_MarshalYAML ::
  "((string \<times> 'h option) list \<Rightarrow> val) \<Rightarrow>
   'h Encoding \<Rightarrow> obj" where
  "Encoding_MarshalYAML marshalHeaders r =
     build
         [put_if (Encoding.ContentType r \<noteq> '''') ''contentType''
             (VString (Encoding.ContentType r)),
            put_if (length (Encoding.Headers r) > 0) ''headers''
                (marshalHeaders (Encoding.Headers r)),
            put_if (Encoding.Style r \<noteq> '''') ''style'' (VString (Encoding.Style r)),
            put_if (Encoding.Explode r) ''explode'' (VBool (Encoding.Explode r)),
            put_if (Encoding.AllowReserved r) ''allowReserved''
                (VBool (Encoding.AllowReserved r)),
            put_range (Encoding.Extensions r)]"

definition Encoding_UnmarshalYAML ::
  "(val \<Rightarrow> error + (string \<times> 'h option) list) \<Rightarrow>
   'h Encoding \<Rightarrow> obj \<Rightarrow> error + 'h Encoding" where
  "Encoding_UnmarshalYAML unmarshalHeaders r obj =
     run
         [string_field obj ''contentType''
             (\<lambda>value r. r\<lparr>Encoding.ContentType := value\<rparr>),
          child_field obj ''headers'' unmarshalHeaders
              (\<lambda>value r. r\<lparr>Encoding.Headers := value\<rparr>),
          string_field obj ''style''
              (\<lambda>value r. r\<lparr>Encoding.Style := value\<rparr>),
          bool_field obj ''explode''
              (\<lambda>value r. r\<lparr>Encoding.Explode := value\<rparr>),
          bool_field obj ''allowReserved''
              (\<lambda>value r. r\<lparr>Encoding.AllowReserved := value\<rparr>),
          extensions_field obj (\<lambda>exts r. r\<lparr>Encoding.Extensions := exts\<rparr>)]
              r"

definition Encoding_string_fields :: "(string \<times> ('h Encoding \<Rightarrow> string)) list"
    where
  "Encoding_string_fields =
     [(''contentType'', Encoding.ContentType),
      (''style'', Encoding.Style)]"

definition Encoding_bool_fields :: "(string \<times> ('h Encoding \<Rightarrow> bool)) list"
    where
  "Encoding_bool_fields =
     [(''explode'', Encoding.Explode),
      (''allowReserved'', Encoding.AllowReserved)]"

subsection \<open>MediaType\<close>

record ('s, 'e) MediaType =
  Schema :: "'s option"
  Example :: val
  Examples :: "(string \<times> Example option) list"
  Encoding :: "(string \<times> 'e option) list"
  Extensions :: Extensions

definition MediaType_zero :: "('s, 'e) MediaType" where
  "MediaType_zero =
     \<lparr>MediaType.Schema = None,
       MediaType.Example = VNull,
       MediaType.Examples = [],
       MediaType.Encoding = [],
       MediaType.Extensions = []\<rparr>"

definition MediaType_MarshalYAML ::
  "('s \<Rightarrow> val) \<Rightarrow>
   ((string \<times> Example option) list \<Rightarrow> val) \<Rightarrow>
   ((string \<times> 'e option) list \<Rightarrow> val) \<Rightarrow>
   ('s, 'e) MediaType \<Rightarrow> obj" where
  "MediaType_MarshalYAML marshalSchema marshalExamples marshalEncoding r =
     build [put_ptr (MediaType.Schema r) ''schema'' marshalSchema,
            put_if (MediaType.Example r \<noteq> VNull) ''example'' (MediaType.Example r),
            put_if (length (MediaType.Examples r) > 0) ''examples''
                (marshalExamples (MediaType.Examples r)),
            put_if (length (MediaType.Encoding r) > 0) ''encoding''
                (marshalEncoding (MediaType.Encoding r)),
            put_range (MediaType.Extensions r)]"

definition MediaType_UnmarshalYAML ::
  "(val \<Rightarrow> error + 's) \<Rightarrow>
   (val \<Rightarrow> error + (string \<times> Example option) list) \<Rightarrow>
   (val \<Rightarrow> error + (string \<times> 'e option) list) \<Rightarrow>
   ('s, 'e) MediaType \<Rightarrow> obj \<Rightarrow> error + ('s, 'e) MediaType" where
  "MediaType_UnmarshalYAML unmarshalSchema unmarshalExamples unmarshalEncoding r obj =
     run
         [child_field obj ''schema'' unmarshalSchema
             (\<lambda>value r. r\<lparr>MediaType.Schema := Some value\<rparr>),
          value_field obj ''example''
              (\<lambda>value r. r\<lparr>MediaType.Example := cleanupMapValue value\<rparr>),
          child_field obj ''examples'' unmarshalExamples
              (\<lambda>value r. r\<lparr>MediaType.Examples := value\<rparr>),
          child_field obj ''encoding'' unmarshalEncoding
              (\<lambda>value r. r\<lparr>MediaType.Encoding := value\<rparr>),
          extensions_field obj (\<lambda>exts r. r\<lparr>MediaType.Extensions := exts\<rparr>)]
              r"

definition MediaType_string_fields ::
    "(string \<times> (('s, 'e) MediaType \<Rightarrow> string)) list" where
  "MediaType_string_fields =
     []"

subsection \<open>RequestBody\<close>

record 'm RequestBody =
  Ref :: string
  Description :: string
  Content :: "(string \<times> 'm option) list"
  Required :: bool
  Extensions :: Extensions

definition RequestBody_zero :: "'m RequestBody" where
  "RequestBody_zero =
     \<lparr>RequestBody.Ref = '''',
       RequestBody.Description = '''',
       RequestBody.Content = [],
       RequestBody.Required = False,
       RequestBody.Extensions = []\<rparr>"

definition RequestBody_MarshalYAML ::
  "((string \<times> 'm option) list \<Rightarrow> val) \<Rightarrow>
   'm RequestBody \<Rightarrow> obj" where
  "RequestBody_MarshalYAML marshalContent r =
     build [put_if (RequestBody.Ref r \<noteq> '''') ''$ref'' (VString (RequestBody.Ref r)),
            put_if (RequestBody.Description r \<noteq> '''') ''description''
                (VString (RequestBody.Description r)),
            put ''content'' (marshalContent (RequestBody.Content r)),
            put_if (RequestBody.Required r) ''required'' (VBool (RequestBody.Required r)),
            put_range (RequestBody.Extensions r)]"

definition RequestBody_UnmarshalYAML ::
  "(val \<Rightarrow> error + (string \<times> 'm option) list) \<Rightarrow>
   'm RequestBody \<Rightarrow> obj \<Rightarrow> error + 'm RequestBody" where
  "RequestBody_UnmarshalYAML unmarshalContent r obj =
     run
         [string_field obj ''$ref''
             (\<lambda>value r. r\<lparr>RequestBody.Ref := value\<rparr>),
          string_field obj ''description''
              (\<lambda>value r. r\<lparr>RequestBody.Description := value\<rparr>),
          child_field obj ''content'' unmarshalContent
              (\<lambda>value r. r\<lparr>RequestBody.Content := value\<rparr>),
          bool_field obj ''required''
              (\<lambda>value r. r\<lparr>RequestBody.Required := value\<rparr>),
          extensions_field obj
              (\<lambda>exts r. r\<lparr>RequestBody.Extensions := exts\<rparr>)] r"

definition RequestBody_string_fields :: "(string \<times> ('m RequestBody \<Rightarrow> string))
    list" where
  "RequestBody_string_fields =
     [(''$ref'', RequestBody.Ref),
      (''description'', RequestBody.Description)]"

definition RequestBody_bool_fields :: "(string \<times> ('m RequestBody \<Rightarrow> bool))
    list" where
  "RequestBody_bool_fields =
     [(''required'', RequestBody.Required)]"

subsection \<open>Response\<close>

record ('h, 'm) Response =
  Ref :: string
  Description :: string
  Headers :: "(string \<times> 'h option) list"
  Content :: "(string \<times> 'm option) list"
  Links :: "(string \<times> Link option) list"
  Extensions :: Extensions

definition Response_zero :: "('h, 'm) Response" where
  "Response_zero =
     \<lparr>Response.Ref = '''',
       Response.Description = '''',
       Response.Headers = [],
       Response.Content = [],
       Response.Links = [],
       Response.Extensions = []\<rparr>"

definition Response_MarshalYAML ::
  "((string \<times> 'h option) list \<Rightarrow> val) \<Rightarrow>
   ((string \<times> 'm option) list \<Rightarrow> val) \<Rightarrow>
   ((string \<times> Link option) list \<Rightarrow> val) \<Rightarrow>
   ('h, 'm) Response \<Rightarrow> obj" where
  "Response_MarshalYAML marshalHeaders marshalContent marshalLinks r =
     build [put_if (Response.Ref r \<noteq> '''') ''$ref'' (VString (Response.Ref r)),
            put ''description'' (VString (Response.Description r)),
            put_if (length (Response.Headers r) > 0) ''headers''
                (marshalHeaders (Response.Headers r)),
            put_if (length (Response.Content r) > 0) ''content''
                (marshalContent (Response.Content r)),
            put_if (length (Response.Links r) > 0) ''links'' (marshalLinks (Response.Links r)),
            put_range (Response.Extensions r)]"

definition Response_UnmarshalYAML ::
  "(val \<Rightarrow> error + (string \<times> 'h option) list) \<Rightarrow>
   (val \<Rightarrow> error + (string \<times> 'm option) list) \<Rightarrow>
   (val \<Rightarrow> error + (string \<times> Link option) list) \<Rightarrow>
   ('h, 'm) Response \<Rightarrow> obj \<Rightarrow> error + ('h, 'm) Response" where
  "Response_UnmarshalYAML unmarshalHeaders unmarshalContent unmarshalLinks r obj =
     run [string_field obj ''$ref'' (\<lambda>value r. r\<lparr>Response.Ref := value\<rparr>),
          string_field obj ''description''
              (\<lambda>value r. r\<lparr>Response.Description := value\<rparr>),
          child_field obj ''headers'' unmarshalHeaders
              (\<lambda>value r. r\<lparr>Response.Headers := value\<rparr>),
          child_field obj ''content'' unmarshalContent
              (\<lambda>value r. r\<lparr>Response.Content := value\<rparr>),
          child_field obj ''links'' unmarshalLinks
              (\<lambda>value r. r\<lparr>Response.Links := value\<rparr>),
          extensions_field obj (\<lambda>exts r. r\<lparr>Response.Extensions := exts\<rparr>)]
              r"

definition Response_string_fields :: "(string \<times> (('h, 'm) Response \<Rightarrow> string))
    list" where
  "Response_string_fields =
     [(''$ref'', Response.Ref),
      (''description'', Response.Description)]"

subsection \<open>Operation\<close>

record ('par, 'rb, 'resp, 'cb, 'sec) Operation =
  Tags :: "string list"
  Summary :: string
  Description :: string
  ExternalDocs :: "ExternalDocumentation option"
  OperationID :: string
  Parameters :: "'par option list"
  RequestBody :: "'rb option"
  Responses :: "(string \<times> 'resp option) list"
  Callbacks :: "(string \<times> 'cb option) list option"
  Deprecated :: bool
  Security :: "'sec option list"
  Servers :: "Server option list option"
  Extensions :: Extensions

definition Operation_zero :: "('par, 'rb, 'resp, 'cb, 'sec) Operation" where
  "Operation_zero =
     \<lparr>Operation.Tags = [],
       Operation.Summary = '''',
       Operation.Description = '''',
       Operation.ExternalDocs = None,
       Operation.OperationID = '''',
       Operation.Parameters = [],
       Operation.RequestBody = None,
       Operation.Responses = [],
       Operation.Callbacks = None,
       Operation.Deprecated = False,
       Operation.Security = [],
       Operation.Servers = None,
       Operation.Extensions = []\<rparr>"

definition Operation_MarshalYAML ::
  "(ExternalDocumentation \<Rightarrow> val) \<Rightarrow>
   ('par option list \<Rightarrow> val) \<Rightarrow>
   ('rb \<Rightarrow> val) \<Rightarrow>
   ((string \<times> 'resp option) list \<Rightarrow> val) \<Rightarrow>
   ((string \<times> 'cb option) list \<Rightarrow> val) \<Rightarrow>
   ('sec option list \<Rightarrow> val) \<Rightarrow>
   (Server option list \<Rightarrow> val) \<Rightarrow>
   ('par, 'rb, 'resp, 'cb, 'sec) Operation \<Rightarrow> obj" where
  "Operation_MarshalYAML marshalExternalDocs marshalParameters marshalRequestBody
      marshalResponses marshalCallbacks marshalSecurity marshalServers r =
     build [put_if (length (Operation.Tags r) > 0) ''tags'' (strings_val (Operation.Tags r)),
            put_if (Operation.Summary r \<noteq> '''') ''summary''
                (VString (Operation.Summary r)),
            put_if (Operation.Description r \<noteq> '''') ''description''
                (VString (Operation.Description r)),
            put_ptr (Operation.ExternalDocs r) ''externalDocs'' marshalExternalDocs,
            put_if (Operation.OperationID r \<noteq> '''') ''operationId''
                (VString (Operation.OperationID r)),
            put_if (length (Operation.Parameters r) > 0) ''parameters''
                (marshalParameters (Operation.Parameters r)),
            put_ptr (Operation.RequestBody r) ''requestBody'' marshalRequestBody,
            put ''responses'' (marshalResponses (Operation.Responses r)),
            put_ptr (Operation.Callbacks r) ''callbacks'' marshalCallbacks,
            put_if (Operation.Deprecated r) ''deprecated'' (VBool (Operation.Deprecated r)),
            put_if (length (Operation.Security r) > 0) ''security''
                (marshalSecurity (Operation.Security r)),
            put_ptr (Operation.Servers r) ''servers'' marshalServers,
            put_range (Operation.Extensions r)]"

definition Operation_UnmarshalYAML ::
  "(val \<Rightarrow> error + ExternalDocumentation) \<Rightarrow>
   (val \<Rightarrow> error + 'par option list) \<Rightarrow>
   (val \<Rightarrow> error + 'rb) \<Rightarrow>
   (val \<Rightarrow> error + (string \<times> 'resp option) list) \<Rightarrow>
   (val \<Rightarrow> error + (string \<times> 'cb option) list option) \<Rightarrow>
   (val \<Rightarrow> error + 'sec option list) \<Rightarrow>
   (val \<Rightarrow> error + Server option list option) \<Rightarrow>
   ('par, 'rb, 'resp, 'cb, 'sec) Operation \<Rightarrow> obj \<Rightarrow> error +
       ('par, 'rb, 'resp, 'cb, 'sec) Operation" where
  "Operation_UnmarshalYAML unmarshalExternalDocs unmarshalParameters unmarshalRequestBody
      unmarshalResponses unmarshalCallbacks unmarshalSecurity unmarshalServers r obj =
     run
         [strings_field obj ''tags''
             (\<lambda>value r. r\<lparr>Operation.Tags := value\<rparr>),
          string_field obj ''summary''
              (\<lambda>value r. r\<lparr>Operation.Summary := value\<rparr>),
          string_field obj ''description''
              (\<lambda>value r. r\<lparr>Operation.Description := value\<rparr>),
          child_field obj ''externalDocs'' unmarshalExternalDocs
              (\<lambda>value r. r\<lparr>Operation.ExternalDocs := Some value\<rparr>),
          string_field obj ''operationId''
              (\<lambda>value r. r\<lparr>Operation.OperationID := value\<rparr>),
          child_field obj ''parameters'' unmarshalParameters
              (\<lambda>value r. r\<lparr>Operation.Parameters := value\<rparr>),
          child_field obj ''requestBody'' unmarshalRequestBody
              (\<lambda>value r. r\<lparr>Operation.RequestBody := Some value\<rparr>),
          child_field obj ''responses'' unmarshalResponses
              (\<lambda>value r. r\<lparr>Operation.Responses := value\<rparr>),
          child_field obj ''callbacks'' unmarshalCallbacks
              (\<lambda>value r. r\<lparr>Operation.Callbacks := value\<rparr>),
          bool_field obj ''deprecated''
              (\<lambda>value r. r\<lparr>Operation.Deprecated := value\<rparr>),
          child_field obj ''security'' unmarshalSecurity
              (\<lambda>value r. r\<lparr>Operation.Security := value\<rparr>),
          child_field obj ''servers'' unmarshalServers
              (\<lambda>value r. r\<lparr>Operation.Servers := value\<rparr>),
          extensions_unused obj] r"

definition Operation_string_fields ::
    "(string \<times> (('par, 'rb, 'resp, 'cb, 'sec) Operation \<Rightarrow> string)) list"
        where
  "Operation_string_fields =
     [(''summary'', Operation.Summary),
      (''description'', Operation.Description),
      (''operationId'', Operation.OperationID)]"

definition Operation_bool_fields ::
    "(string \<times> (('par, 'rb, 'resp, 'cb, 'sec) Operation \<Rightarrow> bool)) list" where
  "Operation_bool_fields =
     [(''deprecated'', Operation.Deprecated)]"

subsection \<open>PathItem\<close>

record ('op, 'par) PathItem =
  Ref :: string
  Summary :: string
  Description :: string
  Get :: "'op option"
  Put :: "'op option"
  Post :: "'op option"
  Delete :: "'op option"
  Options :: "'op option"
  Head :: "'op option"
  Patch :: "'op option"
  Trace :: "'op option"
  Servers :: "Server option list"
  Parameters :: "'par option list"
  Extensions :: Extensions

definition PathItem_zero :: "('op, 'par) PathItem" where
  "PathItem_zero =
     \<lparr>PathItem.Ref = '''',
       PathItem.Summary = '''',
       PathItem.Description = '''',
       PathItem.Get = None,
       PathItem.Put = None,
       PathItem.Post = None,
       PathItem.Delete = None,
       PathItem.Options = None,
       PathItem.Head = None,
       PathItem.Patch = None,
       PathItem.Trace = None,
       PathItem.Servers = [],
       PathItem.Parameters = [],
       PathItem.Extensions = []\<rparr>"

definition PathItem_MarshalYAML ::
  "('op \<Rightarrow> val) \<Rightarrow>
   (Server option list \<Rightarrow> val) \<Rightarrow>
   ('par option list \<Rightarrow> val) \<Rightarrow>
   ('op, 'par) PathItem \<Rightarrow> obj" where
  "PathItem_MarshalYAML marshalOperation marshalServers marshalParameters r =
     build [put_if (PathItem.Ref r \<noteq> '''') ''$ref'' (VString (PathItem.Ref r)),
            put_if (PathItem.Summary r \<noteq> '''') ''summary''
                (VString (PathItem.Summary r)),
            put_if (PathItem.Description r \<noteq> '''') ''description''
                (VString (PathItem.Description r)),
            put_ptr (PathItem.Get r) ''get'' marshalOperation,
            put_ptr (PathItem.Put r) ''put'' marshalOperation,
            put_ptr (PathItem.Post r) ''post'' marshalOperation,
            put_ptr (PathItem.Delete r) ''delete'' marshalOperation,
            put_ptr (PathItem.Options r) ''options'' marshalOperation,
            put_ptr (PathItem.Head r) ''head'' marshalOperation,
            put_ptr (PathItem.Patch r) ''patch'' marshalOperation,
            put_ptr (PathItem.Trace r) ''trace'' marshalOperation,
            put_if (length (PathItem.Servers r) > 0) ''servers''
                (marshalServers (PathItem.Servers r)),
            put_if (length (PathItem.Parameters r) > 0) ''parameters''
                (marshalParameters (PathItem.Parameters r)),
            put_range (PathItem.Extensions r)]"

definition PathItem_UnmarshalYAML ::
  "(val \<Rightarrow> error + 'op) \<Rightarrow>
   (val \<Rightarrow> error + Server option list) \<Rightarrow>
   (val \<Rightarrow> error + 'par option list) \<Rightarrow>
   ('op, 'par) PathItem \<Rightarrow> obj \<Rightarrow> error + ('op, 'par) PathItem" where
  "PathItem_UnmarshalYAML unmarshalOperation unmarshalServers unmarshalParameters r obj =
     run [string_field obj ''$ref'' (\<lambda>value r. r\<lparr>PathItem.Ref := value\<rparr>),
          string_field obj ''summary''
              (\<lambda>value r. r\<lparr>PathItem.Summary := value\<rparr>),
          string_field obj ''description''
              (\<lambda>value r. r\<lparr>PathItem.Description := value\<rparr>),
          child_field obj ''get'' unmarshalOperation
              (\<lambda>value r. r\<lparr>PathItem.Get := Some value\<rparr>),
          child_field obj ''put'' unmarshalOperation
              (\<lambda>value r. r\<lparr>PathItem.Put := Some value\<rparr>),
          child_field obj ''post'' unmarshalOperation
              (\<lambda>value r. r\<lparr>PathItem.Post := Some value\<rparr>),
          child_field obj ''delete'' unmarshalOperation
              (\<lambda>value r. r\<lparr>PathItem.Delete := Some value\<rparr>),
          child_field obj ''options'' unmarshalOperation
              (\<lambda>value r. r\<lparr>PathItem.Options := Some value\<rparr>),
          child_field obj ''head'' unmarshalOperation
              (\<lambda>value r. r\<lparr>PathItem.Head := Some value\<rparr>),
          child_field obj ''patch'' unmarshalOperation
              (\<lambda>value r. r\<lparr>PathItem.Patch := Some value\<rparr>),
          child_field obj ''trace'' unmarshalOperation
              (\<lambda>value r. r\<lparr>PathItem.Trace := Some value\<rparr>),
          child_field obj ''servers'' unmarshalServers
              (\<lambda>value r. r\<lparr>PathItem.Servers := value\<rparr>),
          child_field obj ''parameters'' unmarshalParameters
              (\<lambda>value r. r\<lparr>PathItem.Parameters := value\<rparr>),
          extensions_field obj (\<lambda>exts r. r\<lparr>PathItem.Extensions := exts\<rparr>)]
              r"

definition PathItem_string_fields ::
    "(string \<times> (('op, 'par) PathItem \<Rightarrow> string)) list" where
  "PathItem_string_fields =
     [(''$ref'', PathItem.Ref),
      (''summary'', PathItem.Summary),
      (''description'', PathItem.Description)]"

subsection \<open>PathItems and Paths\<close>

type_synonym 'pi PathItems = "(string \<times> 'pi option) list"

text \<open>
  \<^verbatim>\<open>PathItems.MarshalYAML\<close> copies the keys without the prefix;
  \<^verbatim>\<open>PathItems.UnmarshalYAML\<close> lets the library decode the whole map into a
  \<^verbatim>\<open>map[string]*PathItem\<close> and then keeps the keys without the prefix.
\<close>

definition PathItems_MarshalYAML :: "('pi option \<Rightarrow> val) \<Rightarrow> 'pi PathItems \<Rightarrow> obj" where
  "PathItems_MarshalYAML marshalPathItem r =
     fold (\<lambda>k obj. if \<not> HasPrefix (ToLower k) ''x-''
                    then AList.update k (marshalPathItem (the (map_of r k))) obj else obj)
       (map fst r) []"

definition PathItems_UnmarshalYAML ::
  "(val \<Rightarrow> error + 'pi option) \<Rightarrow> 'pi PathItems \<Rightarrow> obj \<Rightarrow> error + 'pi PathItems" where
  "PathItems_UnmarshalYAML unmarshalPathItem r obj =
     (case unmarshal_entries unmarshalPathItem obj of
        Inl err \<Rightarrow> Inl err
      | Inr obj \<Rightarrow>
          Inr (fold (\<lambda>k r. if \<not> HasPrefix (ToLower k) ''x-''
                            then AList.update k (the (map_of obj k)) r else r)
                 (map fst obj) r))"

record 'pi Paths =
  PathItems :: "'pi PathItems"
  Extensions :: Extensions

definition Paths_zero :: "'pi Paths" where
  "Paths_zero = \<lparr>Paths.PathItems = [], Paths.Extensions = []\<rparr>"

definition Paths_MarshalYAML :: "('pi option \<Rightarrow> val) \<Rightarrow> 'pi Paths \<Rightarrow> obj" where
  "Paths_MarshalYAML marshalPathItem r =
     build [put_range (map (\<lambda>(key, val). (key, marshalPathItem val)) (Paths.PathItems r)),
            put_range (Paths.Extensions r)]"

definition Paths_UnmarshalYAML ::
  "(val \<Rightarrow> error + 'pi option) \<Rightarrow> 'pi Paths \<Rightarrow> obj \<Rightarrow> error + 'pi Paths" where
  "Paths_UnmarshalYAML unmarshalPathItem r obj =
     run [items_field (PathItems_UnmarshalYAML unmarshalPathItem [] obj)
            (\<lambda>paths r. r\<lparr>Paths.PathItems := paths\<rparr>),
          extensions_field obj (\<lambda>exts r. r\<lparr>Paths.Extensions := exts\<rparr>)] r"

subsection \<open>CallbackItems and Callback\<close>

type_synonym 'pi CallbackItems = "(string \<times> 'pi option) list"

text \<open>
  Modelled from the spec: the type \<^verbatim>\<open>CallbackItems\<close> and its two methods, which
  \<^verbatim>\<open>Callback\<close> uses and the sources do not contain. The specification describes
  one mechanism for \<^verbatim>\<open>Paths.PathItems\<close> and \<^verbatim>\<open>Callback.CallbackItems\<close>: the
  entire map is decoded into the specialized map-of-entity type, which keeps the keys
  not matching the \<^verbatim>\<open>x-\<close> prefix; the values of a callback are path items.
\<close>

definition CallbackItems_MarshalYAML :: "('pi option \<Rightarrow> val) \<Rightarrow> 'pi CallbackItems \<Rightarrow> obj" where
  "CallbackItems_MarshalYAML marshalPathItem r =
     fold (\<lambda>k obj. if \<not> HasPrefix (ToLower k) ''x-''
                    then AList.update k (marshalPathItem (the (map_of r k))) obj else obj)
       (map fst r) []"

definition CallbackItems_UnmarshalYAML ::
  "(val \<Rightarrow> error + 'pi option) \<Rightarrow> 'pi CallbackItems \<Rightarrow> obj \<Rightarrow> error + 'pi CallbackItems" where
  "CallbackItems_UnmarshalYAML unmarshalPathItem r obj =
     (case unmarshal_entries unmarshalPathItem obj of
        Inl err \<Rightarrow> Inl err
      | Inr obj \<Rightarrow>
          Inr (fold (\<lambda>k r. if \<not> HasPrefix (ToLower k) ''x-''
                            then AList.update k (the (map_of obj k)) r else r)
                 (map fst obj) r))"

record 'pi Callback =
  Ref :: string
  CallbackItems :: "'pi CallbackItems"
  Extensions :: Extensions

definition Callback_zero :: "'pi Callback" where
  "Callback_zero = \<lparr>Callback.Ref = '''', Callback.CallbackItems = [], Callback.Extensions = []\<rparr>"

definition Callback_MarshalYAML :: "('pi option \<Rightarrow> val) \<Rightarrow> 'pi Callback \<Rightarrow> obj" where
  "Callback_MarshalYAML marshalPathItem r =
     build [put_if (Callback.Ref r \<noteq> '''') ''$ref'' (VString (Callback.Ref r)),
            put_range (map (\<lambda>(key, val). (key, marshalPathItem val)) (Callback.CallbackItems r)),
            put_range (Callback.Extensions r)]"

definition Callback_UnmarshalYAML ::
  "(val \<Rightarrow> error + 'pi option) \<Rightarrow> 'pi Callback \<Rightarrow> obj \<Rightarrow> error + 'pi Callback" where
  "Callback_UnmarshalYAML unmarshalPathItem r obj =
     run [string_field obj ''$ref'' (\<lambda>value r. r\<lparr>Callback.Ref := value\<rparr>),
          items_field (CallbackItems_UnmarshalYAML unmarshalPathItem [] obj)
            (\<lambda>callbacks r. r\<lparr>Callback.CallbackItems := callbacks\<rparr>),
          extensions_field obj (\<lambda>exts r. r\<lparr>Callback.Extensions := exts\<rparr>)] r"

definition Callback_string_fields :: "(string \<times> ('pi Callback \<Rightarrow> string)) list" where
  "Callback_string_fields = [(''$ref'', Callback.Ref)]"

subsection \<open>Components\<close>

record ('s, 'resp, 'par, 'rb, 'h, 'ss, 'cb) Components =
  Schemas :: "(string \<times> 's option) list"
  Responses :: "(string \<times> 'resp option) list"
  Parameters :: "(string \<times> 'par option) list"
  Examples :: "(string \<times> Example option) list"
  RequestBodies :: "(string \<times> 'rb option) list"
  Headers :: "(string \<times> 'h option) list"
  SecuritySchemes :: "(string \<times> 'ss option) list"
  Links :: "(string \<times> Link option) list"
  Callbacks :: "(string \<times> 'cb option) list"
  Extensions :: Extensions

definition Components_zero :: "('s, 'resp, 'par, 'rb, 'h, 'ss, 'cb) Components" where
  "Components_zero =
     \<lparr>Components.Schemas = [],
       Components.Responses = [],
       Components.Parameters = [],
       Components.Examples = [],
       Components.RequestBodies = [],
       Components.Headers = [],
       Components.SecuritySchemes = [],
       Components.Links = [],
       Components.Callbacks = [],
       Components.Extensions = []\<rparr>"

definition Components_MarshalYAML ::
  "((string \<times> 's option) list \<Rightarrow> val) \<Rightarrow>
   ((string \<times> 'resp option) list \<Rightarrow> val) \<Rightarrow>
   ((string \<times> 'par option) list \<Rightarrow> val) \<Rightarrow>
   ((string \<times> Example option) list \<Rightarrow> val) \<Rightarrow>
   ((string \<times> 'rb option) list \<Rightarrow> val) \<Rightarrow>
   ((string \<times> 'h option) list \<Rightarrow> val) \<Rightarrow>
   ((string \<times> 'ss option) list \<Rightarrow> val) \<Rightarrow>
   ((string \<times> Link option) list \<Rightarrow> val) \<Rightarrow>
   ((string \<times> 'cb option) list \<Rightarrow> val) \<Rightarrow>
   ('s, 'resp, 'par, 'rb, 'h, 'ss, 'cb) Components \<Rightarrow> obj" where
  "Components_MarshalYAML marshalSchemas marshalResponses marshalParameters marshalExamples
      marshalRequestBodies marshalHeaders marshalSecuritySchemes marshalLinks marshalCallbacks r
          =
     build
         [put_if (length (Components.Schemas r) > 0) ''schemas''
             (marshalSchemas (Components.Schemas r)),
            put_if (length (Components.Responses r) > 0) ''responses''
                (marshalResponses (Components.Responses r)),
            put_if (length (Components.Parameters r) > 0) ''parameters''
                (marshalParameters (Components.Parameters r)),
            put_if (length (Components.Examples r) > 0) ''examples''
                (marshalExamples (Components.Examples r)),
            put_if (length (Components.RequestBodies r) > 0) ''requestBodies''
                (marshalRequestBodies (Components.RequestBodies r)),
            put_if (length (Components.Headers r) > 0) ''headers''
                (marshalHeaders (Components.Headers r)),
            put_if (length (Components.SecuritySchemes r) > 0) ''securitySchemes''
                (marshalSecuritySchemes (Components.SecuritySchemes r)),
            put_if (length (Components.Links r) > 0) ''links''
                (marshalLinks (Components.Links r)),
            put_if (length (Components.Callbacks r) > 0) ''callbacks''
                (marshalCallbacks (Components.Callbacks r)),
            put_range (Components.Extensions r)]"

definition Components_UnmarshalYAML ::
  "(val \<Rightarrow> error + (string \<times> 's option) list) \<Rightarrow>
   (val \<Rightarrow> error + (string \<times> 'resp option) list) \<Rightarrow>
   (val \<Rightarrow> error + (string \<times> 'par option) list) \<Rightarrow>
   (val \<Rightarrow> error + (string \<times> Example option) list) \<Rightarrow>
   (val \<Rightarrow> error + (string \<times> 'rb option) list) \<Rightarrow>
   (val \<Rightarrow> error + (string \<times> 'h option) list) \<Rightarrow>
   (val \<Rightarrow> error + (string \<times> 'ss option) list) \<Rightarrow>
   (val \<Rightarrow> error + (string \<times> Link option) list) \<Rightarrow>
   (val \<Rightarrow> error + (string \<times> 'cb option) list) \<Rightarrow>
   ('s, 'resp, 'par, 'rb, 'h, 'ss, 'cb) Components \<Rightarrow> obj \<Rightarrow> error +
       ('s, 'resp, 'par, 'rb, 'h, 'ss, 'cb) Components" where
  "Components_UnmarshalYAML unmarshalSchemas unmarshalResponses unmarshalParameters
      unmarshalExamples unmarshalRequestBodies unmarshalHeaders unmarshalSecuritySchemes
          unmarshalLinks unmarshalCallbacks r obj =
     run
         [child_field obj ''schemas'' unmarshalSchemas
             (\<lambda>value r. r\<lparr>Components.Schemas := value\<rparr>),
          child_field obj ''responses'' unmarshalResponses
              (\<lambda>value r. r\<lparr>Components.Responses := value\<rparr>),
          child_field obj ''parameters'' unmarshalParameters
              (\<lambda>value r. r\<lparr>Components.Parameters := value\<rparr>),
          child_field obj ''examples'' unmarshalExamples
              (\<lambda>value r. r\<lparr>Components.Examples := value\<rparr>),
          child_field obj ''requestBodies'' unmarshalRequestBodies
              (\<lambda>value r. r\<lparr>Components.RequestBodies := value\<rparr>),
          child_field obj ''headers'' unmarshalHeaders
              (\<lambda>value r. r\<lparr>Components.Headers := value\<rparr>),
          child_field obj ''securitySchemes'' unmarshalSecuritySchemes
              (\<lambda>value r. r\<lparr>Components.SecuritySchemes := value\<rparr>),
          child_field obj ''links'' unmarshalLinks
              (\<lambda>value r. r\<lparr>Components.Links := value\<rparr>),
          child_field obj ''callbacks'' unmarshalCallbacks
              (\<lambda>value r. r\<lparr>Components.Callbacks := value\<rparr>),
          extensions_field obj
              (\<lambda>exts r. r\<lparr>Components.Extensions := exts\<rparr>)] r"

definition Components_string_fields ::
    "(string \<times> (('s, 'resp, 'par, 'rb, 'h, 'ss, 'cb) Components \<Rightarrow> string))
        list" where
  "Components_string_fields =
     []"

subsection \<open>OpenAPI\<close>

record ('paths, 'comp, 'sec) OpenAPI =
  OpenAPI :: string
  Info :: Info
  Servers :: "Server option list"
  Paths :: "'paths"
  Components :: "'comp option"
  Security :: "(string \<times> 'sec option) list list"
  Tags :: "Tag option list"
  ExternalDocs :: "ExternalDocumentation option"
  Extensions :: Extensions

definition OpenAPI_zero :: "'paths \<Rightarrow> ('paths, 'comp, 'sec) OpenAPI" where
  "OpenAPI_zero zeroPaths =
     \<lparr>OpenAPI.OpenAPI = '''',
       OpenAPI.Info = Info_zero,
       OpenAPI.Servers = [],
       OpenAPI.Paths = zeroPaths,
       OpenAPI.Components = None,
       OpenAPI.Security = [],
       OpenAPI.Tags = [],
       OpenAPI.ExternalDocs = None,
       OpenAPI.Extensions = []\<rparr>"

definition OpenAPI_MarshalYAML ::
  "(Info \<Rightarrow> val) \<Rightarrow>
   (Server option list \<Rightarrow> val) \<Rightarrow>
   ('paths \<Rightarrow> val) \<Rightarrow>
   ('comp \<Rightarrow> val) \<Rightarrow>
   ((string \<times> 'sec option) list list \<Rightarrow> val) \<Rightarrow>
   (Tag option list \<Rightarrow> val) \<Rightarrow>
   (ExternalDocumentation \<Rightarrow> val) \<Rightarrow>
   ('paths, 'comp, 'sec) OpenAPI \<Rightarrow> obj" where
  "OpenAPI_MarshalYAML marshalInfo marshalServers marshalPaths marshalComponents marshalSecurity
      marshalTags marshalExternalDocs r =
     build [put ''openapi'' (VString (OpenAPI.OpenAPI r)),
            put ''info'' (marshalInfo (OpenAPI.Info r)),
            put_if (length (OpenAPI.Servers r) > 0) ''servers''
                (marshalServers (OpenAPI.Servers r)),
            put ''paths'' (marshalPaths (OpenAPI.Paths r)),
            put_ptr (OpenAPI.Components r) ''components'' marshalComponents,
            put_if (length (OpenAPI.Security r) > 0) ''security''
                (marshalSecurity (OpenAPI.Security r)),
            put_if (length (OpenAPI.Tags r) > 0) ''tags'' (marshalTags (OpenAPI.Tags r)),
            put_ptr (OpenAPI.ExternalDocs r) ''externalDocs'' marshalExternalDocs,
            put_range (OpenAPI.Extensions r)]"

definition OpenAPI_UnmarshalYAML ::
  "(val \<Rightarrow> error + Info) \<Rightarrow>
   (val \<Rightarrow> error + Server option list) \<Rightarrow>
   (val \<Rightarrow> error + 'paths) \<Rightarrow>
   (val \<Rightarrow> error + 'comp) \<Rightarrow>
   (val \<Rightarrow> error + (string \<times> 'sec option) list list) \<Rightarrow>
   (val \<Rightarrow> error + Tag option list) \<Rightarrow>
   (val \<Rightarrow> error + ExternalDocumentation) \<Rightarrow>
   ('paths, 'comp, 'sec) OpenAPI \<Rightarrow> obj \<Rightarrow> error + ('paths, 'comp, 'sec)
       OpenAPI" where
  "OpenAPI_UnmarshalYAML unmarshalInfo unmarshalServers unmarshalPaths unmarshalComponents
      unmarshalSecurity unmarshalTags unmarshalExternalDocs r obj =
     run
         [string_field obj ''openapi''
             (\<lambda>value r. r\<lparr>OpenAPI.OpenAPI := value\<rparr>),
          child_field obj ''info'' unmarshalInfo
              (\<lambda>value r. r\<lparr>OpenAPI.Info := value\<rparr>),
          child_field obj ''servers'' unmarshalServers
              (\<lambda>value r. r\<lparr>OpenAPI.Servers := value\<rparr>),
          child_field obj ''paths'' unmarshalPaths
              (\<lambda>value r. r\<lparr>OpenAPI.Paths := value\<rparr>),
          child_field obj ''components'' unmarshalComponents
              (\<lambda>value r. r\<lparr>OpenAPI.Components := Some value\<rparr>),
          child_field obj ''security'' unmarshalSecurity
              (\<lambda>value r. r\<lparr>OpenAPI.Security := value\<rparr>),
          child_field obj ''tags'' unmarshalTags
              (\<lambda>value r. r\<lparr>OpenAPI.Tags := value\<rparr>),
          child_field obj ''externalDocs'' unmarshalExternalDocs
              (\<lambda>value r. r\<lparr>OpenAPI.ExternalDocs := Some value\<rparr>),
          extensions_field obj (\<lambda>exts r. r\<lparr>OpenAPI.Extensions := exts\<rparr>)]
              r"

definition OpenAPI_string_fields ::
    "(string \<times> (('paths, 'comp, 'sec) OpenAPI \<Rightarrow> string)) list" where
  "OpenAPI_string_fields =
     [(''openapi'', OpenAPI.OpenAPI)]"

section \<open>Through the YAML text and back\<close>

text \<open>
  \<^verbatim>\<open>gopkg.in/yaml.v2\<close> is not part of the package. What the package relies on is
  recorded here and used only where a value crosses the text: in \<^verbatim>\<open>Clone\<close> and in
  the round trips of the tests.

  \<open>reload\<close> is \<^verbatim>\<open>yaml.Marshal\<close> followed by \<^verbatim>\<open>yaml.Unmarshal\<close> into
  \<^verbatim>\<open>interface{}\<close>: scalars and sequences come back as they were, and every map comes
  back as a \<^verbatim>\<open>map[interface{}]interface{}\<close>, a string key as a string.
\<close>

fun reload :: "val \<Rightarrow> val" where
  "reload VNull = VNull"
| "reload (VBool b) = VBool b"
| "reload (VInt i) = VInt i"
| "reload (VFloat s) = VFloat s"
| "reload (VString s) = VString s"
| "reload (VSlice xs) = VSlice (map reload xs)"
| "reload (VMapI kvs) = VMapI (map (\<lambda>(k, v). (reload k, reload v)) kvs)"
| "reload (VMapS kvs) = VMapI (map (\<lambda>(k, v). (VString k, reload v)) kvs)"

text \<open>
  The callback \<^verbatim>\<open>unmarshal(&obj)\<close> of a decoder whose input is the text of the map
  \<open>obj\<close>: the keys are strings again and the values are reloaded.
\<close>

definition reload_obj :: "obj \<Rightarrow> obj" where
  "reload_obj obj = map (\<lambda>(k, v). (k, reload v)) obj"

text \<open>
  The callback \<^verbatim>\<open>unmarshal(&obj)\<close> at \<^verbatim>\<open>map[string]interface{}\<close> for a value
  that was decoded before and marshalled again: a map is delivered, a scalar key as its
  text, and of two keys with the same text the one stored later stays; anything else is
  a type error of the library.
\<close>

fun yaml_key :: "val \<Rightarrow> string option" where
  "yaml_key (VString k) = Some k"
| "yaml_key (VInt i) = Some (string_of_int i)"
| "yaml_key (VBool b) = Some (if b then ''true'' else ''false'')"
| "yaml_key (VFloat s) = Some s"
| "yaml_key VNull = Some []"
| "yaml_key _ = None"

definition unmarshal_obj :: "val \<Rightarrow> error + obj" where
  "unmarshal_obj value =
     (case value of
        VMapS m \<Rightarrow> Inr m
      | VMapI kvs \<Rightarrow>
          (if list_all (\<lambda>(k, v). yaml_key k \<noteq> None) kvs
           then Inr (fold (\<lambda>(k, v) obj. AList.update (the (yaml_key k)) v obj) kvs [])
           else Inl TypeError)
      | _ \<Rightarrow> Inl TypeError)"

text \<open>
  \<^verbatim>\<open>rbytes, _ := yaml.Marshal(value); value := T{}; yaml.Unmarshal(rbytes, &value)\<close>
  for an entity \<^verbatim>\<open>T\<close> with the decoder \<open>unmarshalYAML\<close>: a null leaves the fresh
  value as it is, without a call of the decoder.
\<close>

definition yaml_into :: "('r \<Rightarrow> obj \<Rightarrow> error + 'r) \<Rightarrow> 'r \<Rightarrow> val \<Rightarrow> error + 'r" where
  "yaml_into unmarshalYAML zero value =
     (case value of
        VNull \<Rightarrow> Inr zero
      | _ \<Rightarrow> (case unmarshal_obj value of
                Inl err \<Rightarrow> Inl err
              | Inr obj \<Rightarrow> unmarshalYAML zero obj))"

text \<open>
  The same for an element of type \<^verbatim>\<open>*T\<close>, as in \<^verbatim>\<open>map[string]*PathItem\<close>: a
  null gives the nil pointer, and any other value a pointer to a fresh \<^verbatim>\<open>T\<close> that
  the decoder has filled.
\<close>

definition yaml_into_ptr ::
  "('r \<Rightarrow> obj \<Rightarrow> error + 'r) \<Rightarrow> 'r \<Rightarrow> val \<Rightarrow> error + 'r option" where
  "yaml_into_ptr unmarshalYAML zero value =
     (case value of
        VNull \<Rightarrow> Inr None
      | _ \<Rightarrow> (case yaml_into unmarshalYAML zero value of
                Inl err \<Rightarrow> Inl err
              | Inr r \<Rightarrow> Inr (Some r)))"

text \<open>
  \<^verbatim>\<open>Clone\<close>, the same text for every entity that has it:
  \<^verbatim>\<open>rbytes, err := yaml.Marshal(r); ...; value := T{};
  if err := yaml.Unmarshal(rbytes, &value); err != nil { return nil, err }; return &value, nil\<close>.
  The library calls \<^verbatim>\<open>r.MarshalYAML()\<close> on the way out and
  \<^verbatim>\<open>value.UnmarshalYAML\<close> on the way in.
\<close>

definition Clone :: "('r \<Rightarrow> obj) \<Rightarrow> ('r \<Rightarrow> obj \<Rightarrow> error + 'r) \<Rightarrow> 'r \<Rightarrow> 'r \<Rightarrow> error + 'r" where
  "Clone marshalYAML unmarshalYAML zero r = unmarshalYAML zero (reload_obj (marshalYAML r))"

definition License_Clone ::
  "License \<Rightarrow> error + License" where
  "License_Clone r =
     Clone License_MarshalYAML License_UnmarshalYAML License_zero r"

definition ServerVariable_Clone ::
  "ServerVariable \<Rightarrow> error + ServerVariable" where
  "ServerVariable_Clone r =
     Clone ServerVariable_MarshalYAML ServerVariable_UnmarshalYAML ServerVariable_zero r"

definition Server_Clone ::
  "((string \<times> ServerVariable option) list \<Rightarrow> val) \<Rightarrow>
   (val \<Rightarrow> error + (string \<times> ServerVariable option) list) \<Rightarrow>
   Server \<Rightarrow> error + Server" where
  "Server_Clone marshalVariables unmarshalVariables r =
     Clone (Server_MarshalYAML marshalVariables) (Server_UnmarshalYAML unmarshalVariables)
         Server_zero r"

definition Discriminator_Clone ::
  "Discriminator \<Rightarrow> error + Discriminator" where
  "Discriminator_Clone r =
     Clone Discriminator_MarshalYAML Discriminator_UnmarshalYAML Discriminator_zero r"

definition Example_Clone ::
  "Example \<Rightarrow> error + Example" where
  "Example_Clone r =
     Clone Example_MarshalYAML Example_UnmarshalYAML Example_zero r"

definition OAuthFlow_Clone ::
  "(val \<Rightarrow> error + (string \<times> string) list) \<Rightarrow>
   OAuthFlow \<Rightarrow> error + OAuthFlow" where
  "OAuthFlow_Clone unmarshalScopes r =
     Clone OAuthFlow_MarshalYAML (OAuthFlow_UnmarshalYAML unmarshalScopes) OAuthFlow_zero r"

definition OAuthFlows_Clone ::
  "(OAuthFlow \<Rightarrow> val) \<Rightarrow>
   (val \<Rightarrow> error + OAuthFlow) \<Rightarrow>
   OAuthFlows \<Rightarrow> error + OAuthFlows" where
  "OAuthFlows_Clone marshalOAuthFlow unmarshalOAuthFlow r =
     Clone (OAuthFlows_MarshalYAML marshalOAuthFlow)
         (OAuthFlows_UnmarshalYAML unmarshalOAuthFlow) OAuthFlows_zero r"

definition Link_Clone ::
  "(Server \<Rightarrow> val) \<Rightarrow>
   (val \<Rightarrow> error + (string \<times> string) list) \<Rightarrow>
   (val \<Rightarrow> error + Server) \<Rightarrow>
   Link \<Rightarrow> error + Link" where
  "Link_Clone marshalServer unmarshalParameters unmarshalServer r =
     Clone (Link_MarshalYAML marshalServer)
         (Link_UnmarshalYAML unmarshalParameters unmarshalServer) Link_zero r"

definition RequestBody_Clone ::
  "((string \<times> 'm option) list \<Rightarrow> val) \<Rightarrow>
   (val \<Rightarrow> error + (string \<times> 'm option) list) \<Rightarrow>
   'm RequestBody \<Rightarrow> error + 'm RequestBody" where
  "RequestBody_Clone marshalContent unmarshalContent r =
     Clone (RequestBody_MarshalYAML marshalContent) (RequestBody_UnmarshalYAML unmarshalContent)
         RequestBody_zero r"

definition Operation_Clone ::
  "(ExternalDocumentation \<Rightarrow> val) \<Rightarrow>
   ('par option list \<Rightarrow> val) \<Rightarrow>
   ('rb \<Rightarrow> val) \<Rightarrow>
   ((string \<times> 'resp option) list \<Rightarrow> val) \<Rightarrow>
   ((string \<times> 'cb option) list \<Rightarrow> val) \<Rightarrow>
   ('sec option list \<Rightarrow> val) \<Rightarrow>
   (Server option list \<Rightarrow> val) \<Rightarrow>
   (val \<Rightarrow> error + ExternalDocumentation) \<Rightarrow>
   (val \<Rightarrow> error + 'par option list) \<Rightarrow>
   (val \<Rightarrow> error + 'rb) \<Rightarrow>
   (val \<Rightarrow> error + (string \<times> 'resp option) list) \<Rightarrow>
   (val \<Rightarrow> error + (string \<times> 'cb option) list option) \<Rightarrow>
   (val \<Rightarrow> error + 'sec option list) \<Rightarrow>
   (val \<Rightarrow> error + Server option list option) \<Rightarrow>
   ('par, 'rb, 'resp, 'cb, 'sec) Operation \<Rightarrow> error + ('par, 'rb, 'resp, 'cb, 'sec) Operation" where
  "Operation_Clone marshalExternalDocs marshalParameters marshalRequestBody marshalResponses
      marshalCallbacks marshalSecurity marshalServers unmarshalExternalDocs unmarshalParameters
          unmarshalRequestBody unmarshalResponses unmarshalCallbacks unmarshalSecurity
              unmarshalServers r =
     Clone
         (Operation_MarshalYAML marshalExternalDocs marshalParameters marshalRequestBody
             marshalResponses marshalCallbacks marshalSecurity marshalServers)
                 (Operation_UnmarshalYAML unmarshalExternalDocs unmarshalParameters
                     unmarshalRequestBody unmarshalResponses unmarshalCallbacks
                         unmarshalSecurity unmarshalServers) Operation_zero r"

definition PathItem_Clone ::
  "('op \<Rightarrow> val) \<Rightarrow>
   (Server option list \<Rightarrow> val) \<Rightarrow>
   ('par option list \<Rightarrow> val) \<Rightarrow>
   (val \<Rightarrow> error + 'op) \<Rightarrow>
   (val \<Rightarrow> error + Server option list) \<Rightarrow>
   (val \<Rightarrow> error + 'par option list) \<Rightarrow>
   ('op, 'par) PathItem \<Rightarrow> error + ('op, 'par) PathItem" where
  "PathItem_Clone marshalOperation marshalServers marshalParameters unmarshalOperation
      unmarshalServers unmarshalParameters r =
     Clone (PathItem_MarshalYAML marshalOperation marshalServers marshalParameters)
         (PathItem_UnmarshalYAML unmarshalOperation unmarshalServers unmarshalParameters)
             PathItem_zero r"

section \<open>The properties that the statements below use\<close>

text \<open>
  A statement of a decoder \<open>preserves\<close> a component of the receiver when every
  successful run leaves it as it was; a sequence of statements \<open>establishes\<close> a
  function \<open>g\<close> for a component when every successful run takes the component from
  \<open>x\<close> to \<open>g x\<close>.
\<close>

definition preserves :: "('r \<Rightarrow> 'a) \<Rightarrow> 'r step \<Rightarrow> bool" where
  "preserves f st \<longleftrightarrow> (\<forall>r r'. st r = Inr r' \<longrightarrow> f r' = f r)"

definition establishes :: "('r \<Rightarrow> 'a) \<Rightarrow> 'r step list \<Rightarrow> ('a \<Rightarrow> 'a) \<Rightarrow> bool" where
  "establishes f sts g \<longleftrightarrow> (\<forall>r r'. run sts r = Inr r' \<longrightarrow> f r' = g (f r))"

text \<open>
  What the end of a decoder does to the bag \<open>bag\<close> of the receiver: the bag decoded from
  \<open>obj\<close> replaces it when that bag is not empty.
\<close>

definition attach :: "obj \<Rightarrow> Extensions \<Rightarrow> Extensions" where
  "attach obj bag =
     (let exts = Extensions_UnmarshalYAML [] obj in if length exts > 0 then exts else bag)"

definition attaches_extensions ::
  "('r \<Rightarrow> obj \<Rightarrow> error + 'r) \<Rightarrow> ('r \<Rightarrow> Extensions) \<Rightarrow> bool" where
  "attaches_extensions unmarshalYAML bag \<longleftrightarrow>
     (\<forall>r obj r'. unmarshalYAML r obj = Inr r' \<longrightarrow> bag r' = attach obj (bag r))"

text \<open>
  Leniency on a scalar field, for a decoder and the table of its string (or bool) fields:
  when the key of a field holds a value of another type, a successful run leaves the
  field as it was (\<open>keeps\<close>), and the run is the run on the map without the key
  (\<open>ignores\<close>), so that the value causes no error.
\<close>

definition keeps_mismatched_strings ::
  "('r \<Rightarrow> obj \<Rightarrow> error + 'r) \<Rightarrow> (string \<times> ('r \<Rightarrow> string)) list \<Rightarrow> bool" where
  "keeps_mismatched_strings unmarshalYAML table \<longleftrightarrow>
     (\<forall>r obj v. \<forall>(k, field) \<in> set table.
        map_of obj k = Some v \<longrightarrow> (\<forall>s. v \<noteq> VString s) \<longrightarrow>
        (\<forall>r'. unmarshalYAML r obj = Inr r' \<longrightarrow> field r' = field r))"

definition keeps_mismatched_bools ::
  "('r \<Rightarrow> obj \<Rightarrow> error + 'r) \<Rightarrow> (string \<times> ('r \<Rightarrow> bool)) list \<Rightarrow> bool" where
  "keeps_mismatched_bools unmarshalYAML table \<longleftrightarrow>
     (\<forall>r obj v. \<forall>(k, field) \<in> set table.
        map_of obj k = Some v \<longrightarrow> (\<forall>b. v \<noteq> VBool b) \<longrightarrow>
        (\<forall>r'. unmarshalYAML r obj = Inr r' \<longrightarrow> field r' = field r))"

definition ignores_mismatched_strings ::
  "('r \<Rightarrow> obj \<Rightarrow> error + 'r) \<Rightarrow> (string \<times> ('r \<Rightarrow> string)) list \<Rightarrow> bool" where
  "ignores_mismatched_strings unmarshalYAML table \<longleftrightarrow>
     (\<forall>r obj v. \<forall>(k, field) \<in> set table.
        map_of obj k = Some v \<longrightarrow> (\<forall>s. v \<noteq> VString s) \<longrightarrow>
        unmarshalYAML r obj = unmarshalYAML r (AList.delete k obj))"

definition ignores_mismatched_bools ::
  "('r \<Rightarrow> obj \<Rightarrow> error + 'r) \<Rightarrow> (string \<times> ('r \<Rightarrow> bool)) list \<Rightarrow> bool" where
  "ignores_mismatched_bools unmarshalYAML table \<longleftrightarrow>
     (\<forall>r obj v. \<forall>(k, field) \<in> set table.
        map_of obj k = Some v \<longrightarrow> (\<forall>b. v \<noteq> VBool b) \<longrightarrow>
        unmarshalYAML r obj = unmarshalYAML r (AList.delete k obj))"

definition always_returns :: "('r \<Rightarrow> obj \<Rightarrow> error + 'r) \<Rightarrow> bool" where
  "always_returns unmarshalYAML \<longleftrightarrow> (\<forall>r obj. \<exists>r'. unmarshalYAML r obj = Inr r')"

text \<open>
  The split of one flat map \<open>obj\<close> into the entries \<open>items\<close> of a map of entities and
  the bag \<open>exts\<close>: the keys without the prefix are the keys of \<open>items\<close>, each with its
  value as \<open>unmarshalPathItem\<close> decodes it; the keys with the prefix are the keys of
  \<open>exts\<close>, each with its normalized value; no key is in both.
\<close>

definition splits_map ::
  "(val \<Rightarrow> error + 'pi option) \<Rightarrow> obj \<Rightarrow> (string \<times> 'pi option) list \<Rightarrow> Extensions \<Rightarrow> bool" where
  "splits_map unmarshalPathItem obj items exts \<longleftrightarrow>
     fst ` set items = {k \<in> fst ` set obj. \<not> HasPrefix (ToLower k) ''x-''}
     \<and> fst ` set exts = {k \<in> fst ` set obj. HasPrefix (ToLower k) ''x-''}
     \<and> fst ` set items \<inter> fst ` set exts = {}
     \<and> (\<forall>k c. map_of items k = Some c \<longleftrightarrow>
           \<not> HasPrefix (ToLower k) ''x-'' \<and>
           (\<exists>v. map_of obj k = Some v \<and> unmarshalPathItem v = Inr c))
     \<and> (\<forall>k w. map_of exts k = Some w \<longleftrightarrow>
           HasPrefix (ToLower k) ''x-'' \<and> (\<exists>v. map_of obj k = Some v \<and> w = cleanupMapValue v))"

section \<open>Lemmas\<close>

subsection \<open>Association lists built by loops\<close>

lemma map_of_fold_update_if:
  "map_of (fold (\<lambda>k r. if P k then AList.update k (g k) r else r) ks r) k =
     (if P k \<and> k \<in> set ks then Some (g k) else map_of r k)"
  by (induction ks arbitrary: r) (auto simp: update_conv')

lemma keys_fold_update_if:
  "fst ` set (fold (\<lambda>k r. if P k then AList.update k (g k) r else r) ks r) =
     {k \<in> set ks. P k} \<union> fst ` set r"
  by (induction ks arbitrary: r) (auto simp: dom_update)

lemma distinct_fold_update_if:
  "distinct (map fst r) \<Longrightarrow>
   distinct (map fst (fold (\<lambda>k r. if P k then AList.update k (g k) r else r) ks r))"
  by (induction ks arbitrary: r) (auto simp: distinct_update)

lemma map_of_fold_update_pairs:
  "map_of (fold (\<lambda>(k, v) res. AList.update (f k) (g v) res) xs acc) =
     map_of acc ++ map_of (rev (map (\<lambda>(k, v). (f k, g v)) xs))"
proof (induction xs arbitrary: acc)
  case Nil
  then show ?case by simp
next
  case (Cons x xs)
  obtain k v where x: "x = (k, v)" by (cases x)
  show ?case
    by (simp add: x Cons.IH update_conv' map_add_upd_left fun_eq_iff map_add_def split: option.splits)
qed

lemma distinct_fold_update_pairs:
  "distinct (map fst acc) \<Longrightarrow>
   distinct (map fst (fold (\<lambda>(k, v) res. AList.update (f k) (g v) res) xs acc))"
  by (induction xs arbitrary: acc) (auto simp: distinct_update)

subsection \<open>The normalizer\<close>

lemma cleanupMapValue_VSlice [simp]:
  "cleanupMapValue (VSlice xs) = VSlice (map cleanupMapValue xs)"
  by (simp add: cleanupMapValue.simps)

lemma cleanupMapValue_VMapI [simp]:
  "cleanupMapValue (VMapI kvs) = VMapS (cleanupInterfaceMap kvs)"
  by (simp add: cleanupMapValue.simps)

lemma cleanupMapValue_other [simp]:
  "cleanupMapValue VNull = VNull"
  "cleanupMapValue (VBool b) = VBool b"
  "cleanupMapValue (VInt i) = VInt i"
  "cleanupMapValue (VFloat f) = VFloat f"
  "cleanupMapValue (VString s) = VString s"
  "cleanupMapValue (VMapS m) = VMapS m"
  by (simp_all add: cleanupMapValue.simps)

lemma cleanupInterfaceMap_map_of:
  "map_of (cleanupInterfaceMap kvs) =
     map_of (rev (map (\<lambda>(k, v). (Sprint k, cleanupMapValue v)) kvs))"
  by (simp add: cleanupInterfaceMap.simps map_of_fold_update_pairs)

lemma cleanupInterfaceMap_distinct: "distinct (map fst (cleanupInterfaceMap kvs))"
  by (simp add: cleanupInterfaceMap.simps distinct_fold_update_pairs)

lemma cleanupInterfaceMap_keys: "fst ` set (cleanupInterfaceMap kvs) = (\<lambda>(k, v). Sprint k) ` set kvs"
proof -
  have "fst ` set (cleanupInterfaceMap kvs) = dom (map_of (cleanupInterfaceMap kvs))"
    by (simp add: dom_map_of_conv_image_fst)
  also have "\<dots> = fst ` set (rev (map (\<lambda>(k, v). (Sprint k, cleanupMapValue v)) kvs))"
    by (simp only: cleanupInterfaceMap_map_of dom_map_of_conv_image_fst)
  also have "\<dots> = (\<lambda>(k, v). Sprint k) ` set kvs"
    by (force simp: image_iff)
  finally show ?thesis .
qed

subsection \<open>The statements of the encoders\<close>

lemma keys_put [simp]: "fst ` set (put k v obj) = insert k (fst ` set obj)"
  by (simp add: put_def dom_update)

lemma keys_put_if [simp]:
  "fst ` set (put_if c k v obj) = (if c then insert k (fst ` set obj) else fst ` set obj)"
  by (simp add: put_if_def dom_update)

lemma keys_put_ptr [simp]:
  "fst ` set (put_ptr p k enc obj) =
     (case p of None \<Rightarrow> fst ` set obj | Some x \<Rightarrow> insert k (fst ` set obj))"
  by (simp add: put_ptr_def dom_update split: option.splits)

lemma keys_put_range [simp]: "fst ` set (put_range m obj) = fst ` set m \<union> fst ` set obj"
  using keys_fold_update_if [of "\<lambda>_. True" "\<lambda>k. the (map_of m k)" "map fst m" obj]
  by (auto simp: put_range_def)

lemma map_of_put [simp]: "map_of (put k v obj) k' = (if k' = k then Some v else map_of obj k')"
  by (simp add: put_def update_conv')

lemma map_of_put_if [simp]:
  "map_of (put_if c k v obj) k' = (if c \<and> k' = k then Some v else map_of obj k')"
  by (simp add: put_if_def update_conv')

lemma map_of_put_ptr [simp]:
  "map_of (put_ptr p k enc obj) k' =
     (case p of None \<Rightarrow> map_of obj k' | Some x \<Rightarrow> if k' = k then Some (enc x) else map_of obj k')"
  by (simp add: put_ptr_def update_conv' split: option.splits)

lemma map_of_put_range [simp]:
  "map_of (put_range m obj) k = (case map_of m k of Some v \<Rightarrow> Some v | None \<Rightarrow> map_of obj k)"
proof -
  have "map_of (put_range m obj) k =
      (if k \<in> set (map fst m) then Some (the (map_of m k)) else map_of obj k)"
    using map_of_fold_update_if [of "\<lambda>_. True" "\<lambda>k. the (map_of m k)" "map fst m" obj k]
    by (simp add: put_range_def)
  moreover have "k \<in> fst ` set m" if "map_of m k = Some v" for v
    using map_of_SomeD [OF that] by (force simp: image_iff)
  ultimately show ?thesis
    by (auto simp: map_of_eq_None_iff split: option.splits)
qed

lemma map_of_put_range_add: "map_of (put_range m obj) = map_of obj ++ map_of m"
  by (rule ext) (simp add: map_add_def)

lemma put_range_Nil [simp]: "put_range [] obj = obj"
  by (simp add: put_range_def)

lemma build_Nil [simp]: "build [] = []"
  by (simp add: build_def)

lemma build_snoc: "build (ps @ [p]) = p (build ps)"
  by (simp add: build_def)

subsection \<open>The statements of the decoders\<close>

lemma run_append: "run (ss @ ts) r = (case run ss r of Inl e \<Rightarrow> Inl e | Inr m \<Rightarrow> run ts m)"
  by (induction ss arbitrary: r) (auto split: sum.splits)

lemma run_cong: "list_all2 (\<lambda>s t. \<forall>r. s r = t r) ss ts \<Longrightarrow> run ss r = run ts r"
  by (induction ss ts arbitrary: r rule: list_all2_induct) (auto split: sum.splits)

lemma establishes_Nil: "establishes f [] (\<lambda>x. x)"
  by (simp add: establishes_def)

lemma establishes_preserved:
  "preserves f st \<Longrightarrow> establishes f sts g \<Longrightarrow> establishes f (st # sts) g"
  by (auto simp: establishes_def preserves_def split: sum.splits)

lemma establishes_extensions:
  "(\<And>e r. f (assign e r) = e) \<Longrightarrow> establishes f sts (\<lambda>x. x) \<Longrightarrow>
   establishes f (extensions_field obj assign # sts) (attach obj)"
  by (auto simp: establishes_def extensions_field_def attach_def Let_def split: sum.splits if_splits)

lemma establishesD: "establishes f sts g \<Longrightarrow> run sts r = Inr r' \<Longrightarrow> f r' = g (f r)"
  by (simp add: establishes_def)

lemma preserves_string_field:
  "(\<And>v r. f (assign v r) = f r) \<Longrightarrow> preserves f (string_field obj k assign)"
  by (auto simp: preserves_def string_field_def split: option.splits val.splits)

lemma preserves_bool_field:
  "(\<And>v r. f (assign v r) = f r) \<Longrightarrow> preserves f (bool_field obj k assign)"
  by (auto simp: preserves_def bool_field_def split: option.splits val.splits)

lemma preserves_value_field:
  "(\<And>v r. f (assign v r) = f r) \<Longrightarrow> preserves f (value_field obj k assign)"
  by (auto simp: preserves_def value_field_def split: option.splits)

lemma preserves_slice_field:
  "(\<And>v r. f (assign v r) = f r) \<Longrightarrow> preserves f (slice_field obj k assign)"
  by (auto simp: preserves_def slice_field_def split: option.splits val.splits)

lemma preserves_strings_field:
  "(\<And>v r. f (assign v r) = f r) \<Longrightarrow> preserves f (strings_field obj k assign)"
  by (auto simp: preserves_def strings_field_def slice_field_def split: option.splits val.splits)

lemma preserves_string_map_field:
  "(\<And>v r. f (assign v r) = f r) \<Longrightarrow> preserves f (string_map_field obj k assign)"
  by (auto simp: preserves_def string_map_field_def split: option.splits val.splits)

lemma preserves_child_field:
  "(\<And>v r. f (assign v r) = f r) \<Longrightarrow> preserves f (child_field obj k unmarshal assign)"
  by (auto simp: preserves_def child_field_def split: option.splits sum.splits)

lemma preserves_items_field:
  "(\<And>v r. f (assign v r) = f r) \<Longrightarrow> preserves f (items_field items assign)"
  by (auto simp: preserves_def items_field_def split: sum.splits if_splits)

lemma preserves_extensions_field:
  "(\<And>v r. f (assign v r) = f r) \<Longrightarrow> preserves f (extensions_field obj assign)"
  by (auto simp: preserves_def extensions_field_def Let_def split: if_splits)

lemma preserves_extensions_unused: "preserves f (extensions_unused obj)"
  by (auto simp: preserves_def extensions_unused_def)

lemmas preserves_intros =
  preserves_string_field preserves_bool_field preserves_value_field preserves_slice_field
  preserves_strings_field preserves_string_map_field preserves_child_field
  preserves_items_field preserves_extensions_field preserves_extensions_unused

text \<open>A scalar field whose key holds a value of another type.\<close>

lemma string_field_mismatch:
  "map_of obj k = Some v \<Longrightarrow> (\<forall>s. v \<noteq> VString s) \<Longrightarrow> string_field obj k assign r = Inr r"
  by (cases v) (auto simp: string_field_def)

lemma bool_field_mismatch:
  "map_of obj k = Some v \<Longrightarrow> (\<forall>b. v \<noteq> VBool b) \<Longrightarrow> bool_field obj k assign r = Inr r"
  by (cases v) (auto simp: bool_field_def)

lemma preserves_string_field_mismatch:
  "map_of obj k = Some v \<Longrightarrow> (\<forall>s. v \<noteq> VString s) \<Longrightarrow> preserves f (string_field obj k assign)"
  by (simp add: preserves_def string_field_mismatch)

lemma preserves_bool_field_mismatch:
  "map_of obj k = Some v \<Longrightarrow> (\<forall>b. v \<noteq> VBool b) \<Longrightarrow> preserves f (bool_field obj k assign)"
  by (simp add: preserves_def bool_field_mismatch)

text \<open>A decoder on a map from which a key was removed.\<close>

lemma map_fst_delete: "map fst (AList.delete k al) = filter (\<lambda>x. x \<noteq> k) (map fst al)"
  by (induction al) (auto simp: AList.delete_eq)

lemma fold_update_if_filter:
  "\<not> P k \<Longrightarrow> (\<And>k'. k' \<noteq> k \<Longrightarrow> g k' = g' k') \<Longrightarrow>
   fold (\<lambda>k r. if P k then AList.update k (g k) r else r) (filter (\<lambda>x. x \<noteq> k) ks) r =
   fold (\<lambda>k r. if P k then AList.update k (g' k) r else r) ks r"
  by (induction ks arbitrary: r) auto

lemma Extensions_UnmarshalYAML_delete:
  "\<not> HasPrefix (ToLower k) ''x-'' \<Longrightarrow>
   Extensions_UnmarshalYAML r (AList.delete k obj) = Extensions_UnmarshalYAML r obj"
  unfolding Extensions_UnmarshalYAML_def map_fst_delete
  by (rule fold_update_if_filter) (auto simp: delete_conv')

lemma string_field_delete:
  "k' \<noteq> k \<Longrightarrow> string_field (AList.delete k obj) k' a r = string_field obj k' a r"
  by (simp add: string_field_def delete_conv')
lemma bool_field_delete:
  "k' \<noteq> k \<Longrightarrow> bool_field (AList.delete k obj) k' a r = bool_field obj k' a r"
  by (simp add: bool_field_def delete_conv')
lemma value_field_delete:
  "k' \<noteq> k \<Longrightarrow> value_field (AList.delete k obj) k' a r = value_field obj k' a r"
  by (simp add: value_field_def delete_conv')
lemma slice_field_delete:
  "k' \<noteq> k \<Longrightarrow> slice_field (AList.delete k obj) k' a r = slice_field obj k' a r"
  by (simp add: slice_field_def delete_conv')
lemma strings_field_delete:
  "k' \<noteq> k \<Longrightarrow> strings_field (AList.delete k obj) k' a r = strings_field obj k' a r"
  by (simp add: strings_field_def slice_field_def delete_conv')
lemma string_map_field_delete:
  "k' \<noteq> k \<Longrightarrow> string_map_field (AList.delete k obj) k' a r = string_map_field obj k' a r"
  by (simp add: string_map_field_def delete_conv')
lemma child_field_delete:
  "k' \<noteq> k \<Longrightarrow> child_field (AList.delete k obj) k' u a r = child_field obj k' u a r"
  by (simp add: child_field_def delete_conv')
lemma extensions_field_delete:
  "\<not> HasPrefix (ToLower k) ''x-'' \<Longrightarrow>
   extensions_field (AList.delete k obj) a r = extensions_field obj a r"
  by (simp add: extensions_field_def Extensions_UnmarshalYAML_delete)
lemma extensions_unused_delete:
  "extensions_unused (AList.delete k obj) r = extensions_unused obj r"
  by (simp add: extensions_unused_def)
lemma string_field_deleted: "string_field (AList.delete k obj) k a r = Inr r"
  by (simp add: string_field_def delete_conv')
lemma bool_field_deleted: "bool_field (AList.delete k obj) k a r = Inr r"
  by (simp add: bool_field_def delete_conv')

lemmas field_delete =
  string_field_delete bool_field_delete value_field_delete slice_field_delete
  strings_field_delete string_map_field_delete child_field_delete extensions_field_delete
  extensions_unused_delete string_field_deleted bool_field_deleted

lemma HasPrefix_ToLower_Cons:
  "HasPrefix (ToLower (c # cs)) ''x-'' \<longleftrightarrow>
     to_lower c = CHR ''x'' \<and> (case cs of [] \<Rightarrow> False | d # _ \<Rightarrow> to_lower d = CHR ''-'')"
  by (cases cs) (auto simp: HasPrefix_def ToLower_def)

text \<open>Statements that cannot fail.\<close>

lemma run_returns: "list_all (\<lambda>st. \<forall>r. \<exists>r'. st r = Inr r') sts \<Longrightarrow> \<exists>r'. run sts r = Inr r'"
proof (induction sts arbitrary: r)
  case Nil
  then show ?case by simp
next
  case (Cons st sts)
  then obtain m where "st r = Inr m" by auto
  with Cons show ?case by simp
qed

lemma string_field_returns: "\<exists>r'. string_field obj k a r = Inr r'"
  by (simp add: string_field_def split: option.splits val.splits)

lemma bool_field_returns: "\<exists>r'. bool_field obj k a r = Inr r'"
  by (simp add: bool_field_def split: option.splits val.splits)

lemma value_field_returns: "\<exists>r'. value_field obj k a r = Inr r'"
  by (simp add: value_field_def split: option.splits)

lemma strings_field_returns: "\<exists>r'. strings_field obj k a r = Inr r'"
  by (simp add: strings_field_def slice_field_def split: option.splits val.splits)

lemma string_map_field_returns: "\<exists>r'. string_map_field obj k a r = Inr r'"
  by (simp add: string_map_field_def split: option.splits val.splits)

lemma extensions_field_returns: "\<exists>r'. extensions_field obj a r = Inr r'"
  by (simp add: extensions_field_def Let_def)

lemmas field_returns =
  string_field_returns bool_field_returns value_field_returns strings_field_returns
  string_map_field_returns extensions_field_returns



section \<open>The codecs, entity by entity\<close>

subsection \<open>Contact\<close>

lemma Contact_attaches: "attaches_extensions Contact_UnmarshalYAML Contact.Extensions"
  unfolding attaches_extensions_def Contact_UnmarshalYAML_def
  by (intro allI impI, erule establishesD [rotated])
     ((rule establishes_extensions | rule establishes_preserved | rule establishes_Nil
       | rule preserves_intros | (simp; fail))+)

lemma Contact_keeps_strings: "keeps_mismatched_strings Contact_UnmarshalYAML Contact_string_fields"
  unfolding keeps_mismatched_strings_def Contact_string_fields_def Contact_UnmarshalYAML_def
  apply (intro allI)
  apply (simp only: list.set ball_simps prod.case simp_thms)
  apply (intro conjI impI allI)
  apply (erule establishesD [rotated],
         ((rule preserves_string_field_mismatch, assumption, assumption)
          | rule establishes_preserved | rule establishes_Nil
          | rule preserves_intros | (simp; fail))+)+
  done

lemma Contact_ignores_strings: "ignores_mismatched_strings Contact_UnmarshalYAML Contact_string_fields"
  unfolding ignores_mismatched_strings_def Contact_string_fields_def Contact_UnmarshalYAML_def
  apply (intro allI)
  apply (simp only: list.set ball_simps prod.case simp_thms)
  apply (intro conjI impI allI)
  apply (rule run_cong,
         (simp add: field_delete string_field_mismatch HasPrefix_ToLower_Cons to_lower_def; fail))+
  done

lemma Contact_returns: "always_returns Contact_UnmarshalYAML"
  unfolding always_returns_def Contact_UnmarshalYAML_def
  by (intro allI run_returns) (simp add: field_returns)

lemma Contact_omission:
  "fst ` set (Contact_MarshalYAML
      \<lparr>Contact.Name = '''', Contact.URL = '''', Contact.Email = '''',
       Contact.Extensions = exts\<rparr>) =
     fst ` set exts"
  by (auto simp: Contact_MarshalYAML_def build_def)

lemma Contact_copies_bag:
  "map_of (Contact_MarshalYAML r) =
     map_of (Contact_MarshalYAML (r\<lparr>Contact.Extensions := []\<rparr>)) ++
     map_of (Contact.Extensions r)"
  by (simp add: Contact_MarshalYAML_def build_def map_of_put_range_add)

subsection \<open>License\<close>

lemma License_attaches: "attaches_extensions License_UnmarshalYAML License.Extensions"
  unfolding attaches_extensions_def License_UnmarshalYAML_def
  by (intro allI impI, erule establishesD [rotated])
     ((rule establishes_extensions | rule establishes_preserved | rule establishes_Nil
       | rule preserves_intros | (simp; fail))+)

lemma License_keeps_strings: "keeps_mismatched_strings License_UnmarshalYAML License_string_fields"
  unfolding keeps_mismatched_strings_def License_string_fields_def License_UnmarshalYAML_def
  apply (intro allI)
  apply (simp only: list.set ball_simps prod.case simp_thms)
  apply (intro conjI impI allI)
  apply (erule establishesD [rotated],
         ((rule preserves_string_field_mismatch, assumption, assumption)
          | rule establishes_preserved | rule establishes_Nil
          | rule preserves_intros | (simp; fail))+)+
  done

lemma License_ignores_strings: "ignores_mismatched_strings License_UnmarshalYAML License_string_fields"
  unfolding ignores_mismatched_strings_def License_string_fields_def License_UnmarshalYAML_def
  apply (intro allI)
  apply (simp only: list.set ball_simps prod.case simp_thms)
  apply (intro conjI impI allI)
  apply (rule run_cong,
         (simp add: field_delete string_field_mismatch HasPrefix_ToLower_Cons to_lower_def; fail))+
  done

lemma License_returns: "always_returns License_UnmarshalYAML"
  unfolding always_returns_def License_UnmarshalYAML_def
  by (intro allI run_returns) (simp add: field_returns)

lemma License_omission:
  "fst ` set (License_MarshalYAML
      \<lparr>License.Name = name', License.URL = '''', License.Extensions = exts\<rparr>) =
     {''name''} \<union> fst ` set exts"
  by (auto simp: License_MarshalYAML_def build_def)

lemma License_copies_bag:
  "map_of (License_MarshalYAML r) =
     map_of (License_MarshalYAML (r\<lparr>License.Extensions := []\<rparr>)) ++
     map_of (License.Extensions r)"
  by (simp add: License_MarshalYAML_def build_def map_of_put_range_add)

subsection \<open>ExternalDocumentation\<close>

lemma ExternalDocumentation_attaches: "attaches_extensions ExternalDocumentation_UnmarshalYAML ExternalDocumentation.Extensions"
  unfolding attaches_extensions_def ExternalDocumentation_UnmarshalYAML_def
  by (intro allI impI, erule establishesD [rotated])
     ((rule establishes_extensions | rule establishes_preserved | rule establishes_Nil
       | rule preserves_intros | (simp; fail))+)

lemma ExternalDocumentation_keeps_strings: "keeps_mismatched_strings ExternalDocumentation_UnmarshalYAML ExternalDocumentation_string_fields"
  unfolding keeps_mismatched_strings_def ExternalDocumentation_string_fields_def ExternalDocumentation_UnmarshalYAML_def
  apply (intro allI)
  apply (simp only: list.set ball_simps prod.case simp_thms)
  apply (intro conjI impI allI)
  apply (erule establishesD [rotated],
         ((rule preserves_string_field_mismatch, assumption, assumption)
          | rule establishes_preserved | rule establishes_Nil
          | rule preserves_intros | (simp; fail))+)+
  done

lemma ExternalDocumentation_ignores_strings: "ignores_mismatched_strings ExternalDocumentation_UnmarshalYAML ExternalDocumentation_string_fields"
  unfolding ignores_mismatched_strings_def ExternalDocumentation_string_fields_def ExternalDocumentation_UnmarshalYAML_def
  apply (intro allI)
  apply (simp only: list.set ball_simps prod.case simp_thms)
  apply (intro conjI impI allI)
  apply (rule run_cong,
         (simp add: field_delete string_field_mismatch HasPrefix_ToLower_Cons to_lower_def; fail))+
  done

lemma ExternalDocumentation_returns: "always_returns ExternalDocumentation_UnmarshalYAML"
  unfolding always_returns_def ExternalDocumentation_UnmarshalYAML_def
  by (intro allI run_returns) (simp add: field_returns)

lemma ExternalDocumentation_omission:
  "fst ` set (ExternalDocumentation_MarshalYAML
      \<lparr>ExternalDocumentation.Description = '''', ExternalDocumentation.URL = uRL,
       ExternalDocumentation.Extensions = exts\<rparr>) =
     {''url''} \<union> fst ` set exts"
  by (auto simp: ExternalDocumentation_MarshalYAML_def build_def)

lemma ExternalDocumentation_copies_bag:
  "map_of (ExternalDocumentation_MarshalYAML r) =
     map_of (ExternalDocumentation_MarshalYAML (r\<lparr>ExternalDocumentation.Extensions := []\<rparr>)) ++
     map_of (ExternalDocumentation.Extensions r)"
  by (simp add: ExternalDocumentation_MarshalYAML_def build_def map_of_put_range_add)

subsection \<open>ServerVariable\<close>

lemma ServerVariable_attaches: "attaches_extensions ServerVariable_UnmarshalYAML ServerVariable.Extensions"
  unfolding attaches_extensions_def ServerVariable_UnmarshalYAML_def
  by (intro allI impI, erule establishesD [rotated])
     ((rule establishes_extensions | rule establishes_preserved | rule establishes_Nil
       | rule preserves_intros | (simp; fail))+)

lemma ServerVariable_keeps_strings: "keeps_mismatched_strings ServerVariable_UnmarshalYAML ServerVariable_string_fields"
  unfolding keeps_mismatched_strings_def ServerVariable_string_fields_def ServerVariable_UnmarshalYAML_def
  apply (intro allI)
  apply (simp only: list.set ball_simps prod.case simp_thms)
  apply (intro conjI impI allI)
  apply (erule establishesD [rotated],
         ((rule preserves_string_field_mismatch, assumption, assumption)
          | rule establishes_preserved | rule establishes_Nil
          | rule preserves_intros | (simp; fail))+)+
  done

lemma ServerVariable_ignores_strings: "ignores_mismatched_strings ServerVariable_UnmarshalYAML ServerVariable_string_fields"
  unfolding ignores_mismatched_strings_def ServerVariable_string_fields_def ServerVariable_UnmarshalYAML_def
  apply (intro allI)
  apply (simp only: list.set ball_simps prod.case simp_thms)
  apply (intro conjI impI allI)
  apply (rule run_cong,
         (simp add: field_delete string_field_mismatch HasPrefix_ToLower_Cons to_lower_def; fail))+
  done

lemma ServerVariable_returns: "always_returns ServerVariable_UnmarshalYAML"
  unfolding always_returns_def ServerVariable_UnmarshalYAML_def
  by (intro allI run_returns) (simp add: field_returns)

lemma ServerVariable_omission:
  "fst ` set (ServerVariable_MarshalYAML
      \<lparr>ServerVariable.Enum = [], ServerVariable.Default = default',
       ServerVariable.Description = '''', ServerVariable.Extensions = exts\<rparr>) =
     {''default''} \<union> fst ` set exts"
  by (auto simp: ServerVariable_MarshalYAML_def build_def)

lemma ServerVariable_copies_bag:
  "map_of (ServerVariable_MarshalYAML r) =
     map_of (ServerVariable_MarshalYAML (r\<lparr>ServerVariable.Extensions := []\<rparr>)) ++
     map_of (ServerVariable.Extensions r)"
  by (simp add: ServerVariable_MarshalYAML_def build_def map_of_put_range_add)

subsection \<open>Server\<close>

lemma Server_attaches: "attaches_extensions (Server_UnmarshalYAML unmarshalVariables) Server.Extensions"
  unfolding attaches_extensions_def Server_UnmarshalYAML_def
  by (intro allI impI, erule establishesD [rotated])
     ((rule establishes_extensions | rule establishes_preserved | rule establishes_Nil
       | rule preserves_intros | (simp; fail))+)

lemma Server_keeps_strings: "keeps_mismatched_strings (Server_UnmarshalYAML unmarshalVariables) Server_string_fields"
  unfolding keeps_mismatched_strings_def Server_string_fields_def Server_UnmarshalYAML_def
  apply (intro allI)
  apply (simp only: list.set ball_simps prod.case simp_thms)
  apply (intro conjI impI allI)
  apply (erule establishesD [rotated],
         ((rule preserves_string_field_mismatch, assumption, assumption)
          | rule establishes_preserved | rule establishes_Nil
          | rule preserves_intros | (simp; fail))+)+
  done

lemma Server_ignores_strings: "ignores_mismatched_strings (Server_UnmarshalYAML unmarshalVariables) Server_string_fields"
  unfolding ignores_mismatched_strings_def Server_string_fields_def Server_UnmarshalYAML_def
  apply (intro allI)
  apply (simp only: list.set ball_simps prod.case simp_thms)
  apply (intro conjI impI allI)
  apply (rule run_cong,
         (simp add: field_delete string_field_mismatch HasPrefix_ToLower_Cons to_lower_def; fail))+
  done

lemma Server_omission:
  "fst ` set (Server_MarshalYAML marshalVariables
      \<lparr>Server.URL = uRL, Server.Description = '''', Server.Variables = [],
       Server.Extensions = exts\<rparr>) =
     {''url''} \<union> fst ` set exts"
  by (auto simp: Server_MarshalYAML_def build_def)

lemma Server_copies_bag:
  "map_of (Server_MarshalYAML marshalVariables r) =
     map_of (Server_MarshalYAML marshalVariables (r\<lparr>Server.Extensions := []\<rparr>)) ++
     map_of (Server.Extensions r)"
  by (simp add: Server_MarshalYAML_def build_def map_of_put_range_add)

subsection \<open>XML\<close>

lemma XML_attaches: "attaches_extensions XML_UnmarshalYAML XML.Extensions"
  unfolding attaches_extensions_def XML_UnmarshalYAML_def
  by (intro allI impI, erule establishesD [rotated])
     ((rule establishes_extensions | rule establishes_preserved | rule establishes_Nil
       | rule preserves_intros | (simp; fail))+)

lemma XML_keeps_strings: "keeps_mismatched_strings XML_UnmarshalYAML XML_string_fields"
  unfolding keeps_mismatched_strings_def XML_string_fields_def XML_UnmarshalYAML_def
  apply (intro allI)
  apply (simp only: list.set ball_simps prod.case simp_thms)
  apply (intro conjI impI allI)
  apply (erule establishesD [rotated],
         ((rule preserves_string_field_mismatch, assumption, assumption)
          | rule establishes_preserved | rule establishes_Nil
          | rule preserves_intros | (simp; fail))+)+
  done

lemma XML_ignores_strings: "ignores_mismatched_strings XML_UnmarshalYAML XML_string_fields"
  unfolding ignores_mismatched_strings_def XML_string_fields_def XML_UnmarshalYAML_def
  apply (intro allI)
  apply (simp only: list.set ball_simps prod.case simp_thms)
  apply (intro conjI impI allI)
  apply (rule run_cong,
         (simp add: field_delete string_field_mismatch HasPrefix_ToLower_Cons to_lower_def; fail))+
  done

lemma XML_keeps_bools: "keeps_mismatched_bools XML_UnmarshalYAML XML_bool_fields"
  unfolding keeps_mismatched_bools_def XML_bool_fields_def XML_UnmarshalYAML_def
  apply (intro allI)
  apply (simp only: list.set ball_simps prod.case simp_thms)
  apply (intro conjI impI allI)
  apply (erule establishesD [rotated],
         ((rule preserves_bool_field_mismatch, assumption, assumption)
          | rule establishes_preserved | rule establishes_Nil
          | rule preserves_intros | (simp; fail))+)+
  done

lemma XML_ignores_bools: "ignores_mismatched_bools XML_UnmarshalYAML XML_bool_fields"
  unfolding ignores_mismatched_bools_def XML_bool_fields_def XML_UnmarshalYAML_def
  apply (intro allI)
  apply (simp only: list.set ball_simps prod.case simp_thms)
  apply (intro conjI impI allI)
  apply (rule run_cong,
         (simp add: field_delete bool_field_mismatch HasPrefix_ToLower_Cons to_lower_def; fail))+
  done

lemma XML_returns: "always_returns XML_UnmarshalYAML"
  unfolding always_returns_def XML_UnmarshalYAML_def
  by (intro allI run_returns) (simp add: field_returns)

lemma XML_omission:
  "fst ` set (XML_MarshalYAML
      \<lparr>XML.Name = '''', XML.Namespace = '''', XML.Prefix = '''', XML.Attribute = False,
       XML.Wrapped = False, XML.Extensions = exts\<rparr>) =
     fst ` set exts"
  by (auto simp: XML_MarshalYAML_def build_def)

lemma XML_copies_bag:
  "map_of (XML_MarshalYAML r) =
     map_of (XML_MarshalYAML (r\<lparr>XML.Extensions := []\<rparr>)) ++
     map_of (XML.Extensions r)"
  by (simp add: XML_MarshalYAML_def build_def map_of_put_range_add)

subsection \<open>Discriminator\<close>

lemma Discriminator_keeps_strings: "keeps_mismatched_strings Discriminator_UnmarshalYAML Discriminator_string_fields"
  unfolding keeps_mismatched_strings_def Discriminator_string_fields_def Discriminator_UnmarshalYAML_def
  apply (intro allI)
  apply (simp only: list.set ball_simps prod.case simp_thms)
  apply (intro conjI impI allI)
  apply (erule establishesD [rotated],
         ((rule preserves_string_field_mismatch, assumption, assumption)
          | rule establishes_preserved | rule establishes_Nil
          | rule preserves_intros | (simp; fail))+)+
  done

lemma Discriminator_ignores_strings: "ignores_mismatched_strings Discriminator_UnmarshalYAML Discriminator_string_fields"
  unfolding ignores_mismatched_strings_def Discriminator_string_fields_def Discriminator_UnmarshalYAML_def
  apply (intro allI)
  apply (simp only: list.set ball_simps prod.case simp_thms)
  apply (intro conjI impI allI)
  apply (rule run_cong,
         (simp add: field_delete string_field_mismatch HasPrefix_ToLower_Cons to_lower_def; fail))+
  done

lemma Discriminator_returns: "always_returns Discriminator_UnmarshalYAML"
  unfolding always_returns_def Discriminator_UnmarshalYAML_def
  by (intro allI run_returns) (simp add: field_returns)

lemma Discriminator_omission:
  "fst ` set (Discriminator_MarshalYAML
      \<lparr>Discriminator.PropertyName = propertyName, Discriminator.Mapping = []\<rparr>) =
     {''propertyName''}"
  by (auto simp: Discriminator_MarshalYAML_def build_def)

subsection \<open>Tag\<close>

lemma Tag_attaches: "attaches_extensions (Tag_UnmarshalYAML unmarshalExternalDocs) Tag.Extensions"
  unfolding attaches_extensions_def Tag_UnmarshalYAML_def
  by (intro allI impI, erule establishesD [rotated])
     ((rule establishes_extensions | rule establishes_preserved | rule establishes_Nil
       | rule preserves_intros | (simp; fail))+)

lemma Tag_keeps_strings: "keeps_mismatched_strings (Tag_UnmarshalYAML unmarshalExternalDocs) Tag_string_fields"
  unfolding keeps_mismatched_strings_def Tag_string_fields_def Tag_UnmarshalYAML_def
  apply (intro allI)
  apply (simp only: list.set ball_simps prod.case simp_thms)
  apply (intro conjI impI allI)
  apply (erule establishesD [rotated],
         ((rule preserves_string_field_mismatch, assumption, assumption)
          | rule establishes_preserved | rule establishes_Nil
          | rule preserves_intros | (simp; fail))+)+
  done

lemma Tag_ignores_strings: "ignores_mismatched_strings (Tag_UnmarshalYAML unmarshalExternalDocs) Tag_string_fields"
  unfolding ignores_mismatched_strings_def Tag_string_fields_def Tag_UnmarshalYAML_def
  apply (intro allI)
  apply (simp only: list.set ball_simps prod.case simp_thms)
  apply (intro conjI impI allI)
  apply (rule run_cong,
         (simp add: field_delete string_field_mismatch HasPrefix_ToLower_Cons to_lower_def; fail))+
  done

lemma Tag_omission:
  "fst ` set (Tag_MarshalYAML
      \<lparr>Tag.Name = name', Tag.Description = '''', Tag.ExternalDocs = None,
       Tag.Extensions = exts\<rparr>) =
     {''name''} \<union> fst ` set exts"
  by (auto simp: Tag_MarshalYAML_def build_def)

lemma Tag_copies_bag:
  "map_of (Tag_MarshalYAML r) =
     map_of (Tag_MarshalYAML (r\<lparr>Tag.Extensions := []\<rparr>)) ++
     map_of (Tag.Extensions r)"
  by (simp add: Tag_MarshalYAML_def build_def map_of_put_range_add)

subsection \<open>Example\<close>

lemma Example_attaches: "attaches_extensions Example_UnmarshalYAML Example.Extensions"
  unfolding attaches_extensions_def Example_UnmarshalYAML_def
  by (intro allI impI, erule establishesD [rotated])
     ((rule establishes_extensions | rule establishes_preserved | rule establishes_Nil
       | rule preserves_intros | (simp; fail))+)

lemma Example_keeps_strings: "keeps_mismatched_strings Example_UnmarshalYAML Example_string_fields"
  unfolding keeps_mismatched_strings_def Example_string_fields_def Example_UnmarshalYAML_def
  apply (intro allI)
  apply (simp only: list.set ball_simps prod.case simp_thms)
  apply (intro conjI impI allI)
  apply (erule establishesD [rotated],
         ((rule preserves_string_field_mismatch, assumption, assumption)
          | rule establishes_preserved | rule establishes_Nil
          | rule preserves_intros | (simp; fail))+)+
  done

lemma Example_ignores_strings: "ignores_mismatched_strings Example_UnmarshalYAML Example_string_fields"
  unfolding ignores_mismatched_strings_def Example_string_fields_def Example_UnmarshalYAML_def
  apply (intro allI)
  apply (simp only: list.set ball_simps prod.case simp_thms)
  apply (intro conjI impI allI)
  apply (rule run_cong,
         (simp add: field_delete string_field_mismatch HasPrefix_ToLower_Cons to_lower_def; fail))+
  done

lemma Example_returns: "always_returns Example_UnmarshalYAML"
  unfolding always_returns_def Example_UnmarshalYAML_def
  by (intro allI run_returns) (simp add: field_returns)

lemma Example_omission:
  "fst ` set (Example_MarshalYAML
      \<lparr>Example.Ref = '''', Example.Summary = '''', Example.Description = '''',
       Example.Value = VNull, Example.ExternalValue = '''', Example.Extensions = exts\<rparr>) =
     fst ` set exts"
  by (auto simp: Example_MarshalYAML_def build_def)

lemma Example_copies_bag:
  "map_of (Example_MarshalYAML r) =
     map_of (Example_MarshalYAML (r\<lparr>Example.Extensions := []\<rparr>)) ++
     map_of (Example.Extensions r)"
  by (simp add: Example_MarshalYAML_def build_def map_of_put_range_add)

subsection \<open>OAuthFlow\<close>

lemma OAuthFlow_attaches: "attaches_extensions (OAuthFlow_UnmarshalYAML unmarshalScopes) OAuthFlow.Extensions"
  unfolding attaches_extensions_def OAuthFlow_UnmarshalYAML_def
  by (intro allI impI, erule establishesD [rotated])
     ((rule establishes_extensions | rule establishes_preserved | rule establishes_Nil
       | rule preserves_intros | (simp; fail))+)

lemma OAuthFlow_keeps_strings: "keeps_mismatched_strings (OAuthFlow_UnmarshalYAML unmarshalScopes) OAuthFlow_string_fields"
  unfolding keeps_mismatched_strings_def OAuthFlow_string_fields_def OAuthFlow_UnmarshalYAML_def
  apply (intro allI)
  apply (simp only: list.set ball_simps prod.case simp_thms)
  apply (intro conjI impI allI)
  apply (erule establishesD [rotated],
         ((rule preserves_string_field_mismatch, assumption, assumption)
          | rule establishes_preserved | rule establishes_Nil
          | rule preserves_intros | (simp; fail))+)+
  done

lemma OAuthFlow_ignores_strings: "ignores_mismatched_strings (OAuthFlow_UnmarshalYAML unmarshalScopes) OAuthFlow_string_fields"
  unfolding ignores_mismatched_strings_def OAuthFlow_string_fields_def OAuthFlow_UnmarshalYAML_def
  apply (intro allI)
  apply (simp only: list.set ball_simps prod.case simp_thms)
  apply (intro conjI impI allI)
  apply (rule run_cong,
         (simp add: field_delete string_field_mismatch HasPrefix_ToLower_Cons to_lower_def; fail))+
  done

lemma OAuthFlow_omission:
  "fst ` set (OAuthFlow_MarshalYAML
      \<lparr>OAuthFlow.AuthorizationURL = authorizationURL, OAuthFlow.TokenURL = tokenURL,
       OAuthFlow.RefreshURL = '''', OAuthFlow.Scopes = scopes,
       OAuthFlow.Extensions = exts\<rparr>) =
     {''authorizationUrl'', ''tokenUrl'', ''scopes''} \<union> fst ` set exts"
  by (auto simp: OAuthFlow_MarshalYAML_def build_def)

lemma OAuthFlow_copies_bag:
  "map_of (OAuthFlow_MarshalYAML r) =
     map_of (OAuthFlow_MarshalYAML (r\<lparr>OAuthFlow.Extensions := []\<rparr>)) ++
     map_of (OAuthFlow.Extensions r)"
  by (simp add: OAuthFlow_MarshalYAML_def build_def map_of_put_range_add)

subsection \<open>OAuthFlows\<close>

lemma OAuthFlows_attaches: "attaches_extensions (OAuthFlows_UnmarshalYAML unmarshalOAuthFlow) OAuthFlows.Extensions"
  unfolding attaches_extensions_def OAuthFlows_UnmarshalYAML_def
  by (intro allI impI, erule establishesD [rotated])
     ((rule establishes_extensions | rule establishes_preserved | rule establishes_Nil
       | rule preserves_intros | (simp; fail))+)

lemma OAuthFlows_omission:
  "fst ` set (OAuthFlows_MarshalYAML marshalOAuthFlow
      \<lparr>OAuthFlows.Implicit = None, OAuthFlows.Password = None,
       OAuthFlows.ClientCredentials = None, OAuthFlows.AuthorizationCode = None,
       OAuthFlows.Extensions = exts\<rparr>) =
     fst ` set exts"
  by (auto simp: OAuthFlows_MarshalYAML_def build_def)

lemma OAuthFlows_copies_bag:
  "map_of (OAuthFlows_MarshalYAML marshalOAuthFlow r) =
     map_of (OAuthFlows_MarshalYAML marshalOAuthFlow (r\<lparr>OAuthFlows.Extensions := []\<rparr>)) ++
     map_of (OAuthFlows.Extensions r)"
  by (simp add: OAuthFlows_MarshalYAML_def build_def map_of_put_range_add)

subsection \<open>Info\<close>

lemma Info_attaches: "attaches_extensions (Info_UnmarshalYAML unmarshalContact unmarshalLicense) Info.Extensions"
  unfolding attaches_extensions_def Info_UnmarshalYAML_def
  by (intro allI impI, erule establishesD [rotated])
     ((rule establishes_extensions | rule establishes_preserved | rule establishes_Nil
       | rule preserves_intros | (simp; fail))+)

lemma Info_keeps_strings: "keeps_mismatched_strings (Info_UnmarshalYAML unmarshalContact unmarshalLicense) Info_string_fields"
  unfolding keeps_mismatched_strings_def Info_string_fields_def Info_UnmarshalYAML_def
  apply (intro allI)
  apply (simp only: list.set ball_simps prod.case simp_thms)
  apply (intro conjI impI allI)
  apply (erule establishesD [rotated],
         ((rule preserves_string_field_mismatch, assumption, assumption)
          | rule establishes_preserved | rule establishes_Nil
          | rule preserves_intros | (simp; fail))+)+
  done

lemma Info_ignores_strings: "ignores_mismatched_strings (Info_UnmarshalYAML unmarshalContact unmarshalLicense) Info_string_fields"
  unfolding ignores_mismatched_strings_def Info_string_fields_def Info_UnmarshalYAML_def
  apply (intro allI)
  apply (simp only: list.set ball_simps prod.case simp_thms)
  apply (intro conjI impI allI)
  apply (rule run_cong,
         (simp add: field_delete string_field_mismatch HasPrefix_ToLower_Cons to_lower_def; fail))+
  done

lemma Info_omission:
  "fst ` set (Info_MarshalYAML
      \<lparr>Info.Title = title, Info.Description = '''', Info.TermsOfService = '''',
       Info.Contact = None, Info.License = None, Info.Version = version,
       Info.Extensions = exts\<rparr>) =
     {''title'', ''version''} \<union> fst ` set exts"
  by (auto simp: Info_MarshalYAML_def build_def)

lemma Info_copies_bag:
  "map_of (Info_MarshalYAML r) =
     map_of (Info_MarshalYAML (r\<lparr>Info.Extensions := []\<rparr>)) ++
     map_of (Info.Extensions r)"
  by (simp add: Info_MarshalYAML_def build_def map_of_put_range_add)

subsection \<open>Link\<close>

lemma Link_attaches: "attaches_extensions (Link_UnmarshalYAML unmarshalParameters unmarshalServer) Link.Extensions"
  unfolding attaches_extensions_def Link_UnmarshalYAML_def
  by (intro allI impI, erule establishesD [rotated])
     ((rule establishes_extensions | rule establishes_preserved | rule establishes_Nil
       | rule preserves_intros | (simp; fail))+)

lemma Link_keeps_strings: "keeps_mismatched_strings (Link_UnmarshalYAML unmarshalParameters unmarshalServer) Link_string_fields"
  unfolding keeps_mismatched_strings_def Link_string_fields_def Link_UnmarshalYAML_def
  apply (intro allI)
  apply (simp only: list.set ball_simps prod.case simp_thms)
  apply (intro conjI impI allI)
  apply (erule establishesD [rotated],
         ((rule preserves_string_field_mismatch, assumption, assumption)
          | rule establishes_preserved | rule establishes_Nil
          | rule preserves_intros | (simp; fail))+)+
  done

lemma Link_ignores_strings: "ignores_mismatched_strings (Link_UnmarshalYAML unmarshalParameters unmarshalServer) Link_string_fields"
  unfolding ignores_mismatched_strings_def Link_string_fields_def Link_UnmarshalYAML_def
  apply (intro allI)
  apply (simp only: list.set ball_simps prod.case simp_thms)
  apply (intro conjI impI allI)
  apply (rule run_cong,
         (simp add: field_delete string_field_mismatch HasPrefix_ToLower_Cons to_lower_def; fail))+
  done

lemma Link_omission:
  "fst ` set (Link_MarshalYAML marshalServer
      \<lparr>Link.Ref = '''', Link.OperationRef = '''', Link.OperationID = '''',
       Link.Parameters = [], Link.RequestBody = '''', Link.Description = '''',
       Link.Server = None, Link.Extensions = exts\<rparr>) =
     fst ` set exts"
  by (auto simp: Link_MarshalYAML_def build_def)

lemma Link_copies_bag:
  "map_of (Link_MarshalYAML marshalServer r) =
     map_of (Link_MarshalYAML marshalServer (r\<lparr>Link.Extensions := []\<rparr>)) ++
     map_of (Link.Extensions r)"
  by (simp add: Link_MarshalYAML_def build_def map_of_put_range_add)

subsection \<open>Schema\<close>

lemma Schema_attaches: "attaches_extensions (Schema_UnmarshalYAML unmarshalDiscriminator unmarshalXML unmarshalExternalDocs unmarshalSchema unmarshalProperties unmarshalSchemas) Schema.Extensions"
  unfolding attaches_extensions_def Schema_UnmarshalYAML_def
  by (intro allI impI, erule establishesD [rotated])
     ((rule establishes_extensions | rule establishes_preserved | rule establishes_Nil
       | rule preserves_intros | (simp; fail))+)

lemma Schema_keeps_strings: "keeps_mismatched_strings (Schema_UnmarshalYAML unmarshalDiscriminator unmarshalXML unmarshalExternalDocs unmarshalSchema unmarshalProperties unmarshalSchemas) Schema_string_fields"
  unfolding keeps_mismatched_strings_def Schema_string_fields_def Schema_UnmarshalYAML_def
  apply (intro allI)
  apply (simp only: list.set ball_simps prod.case simp_thms)
  apply (intro conjI impI allI)
  apply (erule establishesD [rotated],
         ((rule preserves_string_field_mismatch, assumption, assumption)
          | rule establishes_preserved | rule establishes_Nil
          | rule preserves_intros | (simp; fail))+)+
  done

lemma Schema_ignores_strings: "ignores_mismatched_strings (Schema_UnmarshalYAML unmarshalDiscriminator unmarshalXML unmarshalExternalDocs unmarshalSchema unmarshalProperties unmarshalSchemas) Schema_string_fields"
  unfolding ignores_mismatched_strings_def Schema_string_fields_def Schema_UnmarshalYAML_def
  apply (intro allI)
  apply (simp only: list.set ball_simps prod.case simp_thms)
  apply (intro conjI impI allI)
  apply (rule run_cong,
         (simp add: field_delete string_field_mismatch HasPrefix_ToLower_Cons to_lower_def; fail))+
  done

lemma Schema_keeps_bools: "keeps_mismatched_bools (Schema_UnmarshalYAML unmarshalDiscriminator unmarshalXML unmarshalExternalDocs unmarshalSchema unmarshalProperties unmarshalSchemas) Schema_bool_fields"
  unfolding keeps_mismatched_bools_def Schema_bool_fields_def Schema_UnmarshalYAML_def
  apply (intro allI)
  apply (simp only: list.set ball_simps prod.case simp_thms)
  apply (intro conjI impI allI)
  apply (erule establishesD [rotated],
         ((rule preserves_bool_field_mismatch, assumption, assumption)
          | rule establishes_preserved | rule establishes_Nil
          | rule preserves_intros | (simp; fail))+)+
  done

lemma Schema_ignores_bools: "ignores_mismatched_bools (Schema_UnmarshalYAML unmarshalDiscriminator unmarshalXML unmarshalExternalDocs unmarshalSchema unmarshalProperties unmarshalSchemas) Schema_bool_fields"
  unfolding ignores_mismatched_bools_def Schema_bool_fields_def Schema_UnmarshalYAML_def
  apply (intro allI)
  apply (simp only: list.set ball_simps prod.case simp_thms)
  apply (intro conjI impI allI)
  apply (rule run_cong,
         (simp add: field_delete bool_field_mismatch HasPrefix_ToLower_Cons to_lower_def; fail))+
  done

lemma Schema_omission:
  "fst ` set (Schema_MarshalYAML marshalDiscriminator marshalXML marshalExternalDocs marshalSchema marshalProperties marshalSchemas
      \<lparr>Schema.Ref = '''', Schema.Nullable = False, Schema.Discriminator = None,
       Schema.ReadOnly = False, Schema.WriteOnly = False, Schema.XML = None,
       Schema.ExternalDocs = None, Schema.Example = VNull, Schema.Deprecated = False,
       Schema.Extensions = exts, Schema.MultipleOf = VNull, Schema.Maximum = VNull,
       Schema.ExclusiveMaximum = False, Schema.Minimum = VNull, Schema.ExclusiveMinimum = False,
       Schema.MaxLength = VNull, Schema.MinLength = VNull, Schema.Pattern = '''',
       Schema.Items = None, Schema.MaxItems = VNull, Schema.MinItems = VNull,
       Schema.UniqueItems = False, Schema.MaxProperties = VNull, Schema.MinProperties = VNull,
       Schema.Required = [], Schema.Properties = [], Schema.AdditionalProperties = None,
       Schema.Enum = [], Schema.Type = '''', Schema.AllOf = [], Schema.AnyOf = [],
       Schema.OneOf = [], Schema.Not = None, Schema.Title = '''', Schema.Description = '''',
       Schema.Default = VNull, Schema.Format = ''''\<rparr>) =
     fst ` set exts"
  by (auto simp: Schema_MarshalYAML_def build_def)

lemma Schema_copies_bag:
  "k \<notin> set Schema_keys_after_extensions \<Longrightarrow>
   map_of (Schema_MarshalYAML marshalDiscriminator marshalXML marshalExternalDocs marshalSchema marshalProperties marshalSchemas r) k =
     (map_of (Schema_MarshalYAML marshalDiscriminator marshalXML marshalExternalDocs marshalSchema marshalProperties marshalSchemas (r\<lparr>Schema.Extensions := []\<rparr>)) ++
      map_of (Schema.Extensions r)) k"
  by (simp add: Schema_MarshalYAML_def Schema_keys_after_extensions_def build_def map_add_def
      split: option.splits)

subsection \<open>Header\<close>

lemma Header_attaches: "attaches_extensions (Header_UnmarshalYAML unmarshalSchema unmarshalExamples unmarshalContent) Header.Extensions"
  unfolding attaches_extensions_def Header_UnmarshalYAML_def
  by (intro allI impI, erule establishesD [rotated])
     ((rule establishes_extensions | rule establishes_preserved | rule establishes_Nil
       | rule preserves_intros | (simp; fail))+)

lemma Header_keeps_strings: "keeps_mismatched_strings (Header_UnmarshalYAML unmarshalSchema unmarshalExamples unmarshalContent) Header_string_fields"
  unfolding keeps_mismatched_strings_def Header_string_fields_def Header_UnmarshalYAML_def
  apply (intro allI)
  apply (simp only: list.set ball_simps prod.case simp_thms)
  apply (intro conjI impI allI)
  apply (erule establishesD [rotated],
         ((rule preserves_string_field_mismatch, assumption, assumption)
          | rule establishes_preserved | rule establishes_Nil
          | rule preserves_intros | (simp; fail))+)+
  done

lemma Header_ignores_strings: "ignores_mismatched_strings (Header_UnmarshalYAML unmarshalSchema unmarshalExamples unmarshalContent) Header_string_fields"
  unfolding ignores_mismatched_strings_def Header_string_fields_def Header_UnmarshalYAML_def
  apply (intro allI)
  apply (simp only: list.set ball_simps prod.case simp_thms)
  apply (intro conjI impI allI)
  apply (rule run_cong,
         (simp add: field_delete string_field_mismatch HasPrefix_ToLower_Cons to_lower_def; fail))+
  done

lemma Header_keeps_bools: "keeps_mismatched_bools (Header_UnmarshalYAML unmarshalSchema unmarshalExamples unmarshalContent) Header_bool_fields"
  unfolding keeps_mismatched_bools_def Header_bool_fields_def Header_UnmarshalYAML_def
  apply (intro allI)
  apply (simp only: list.set ball_simps prod.case simp_thms)
  apply (intro conjI impI allI)
  apply (erule establishesD [rotated],
         ((rule preserves_bool_field_mismatch, assumption, assumption)
          | rule establishes_preserved | rule establishes_Nil
          | rule preserves_intros | (simp; fail))+)+
  done

lemma Header_ignores_bools: "ignores_mismatched_bools (Header_UnmarshalYAML unmarshalSchema unmarshalExamples unmarshalContent) Header_bool_fields"
  unfolding ignores_mismatched_bools_def Header_bool_fields_def Header_UnmarshalYAML_def
  apply (intro allI)
  apply (simp only: list.set ball_simps prod.case simp_thms)
  apply (intro conjI impI allI)
  apply (rule run_cong,
         (simp add: field_delete bool_field_mismatch HasPrefix_ToLower_Cons to_lower_def; fail))+
  done

lemma Header_omission:
  "fst ` set (Header_MarshalYAML marshalSchema marshalExamples marshalContent
      \<lparr>Header.Ref = '''', Header.Description = '''', Header.Required = False,
       Header.Deprecated = False, Header.AllowEmptyValue = False, Header.Style = '''',
       Header.Explode = False, Header.AllowReserved = False, Header.Schema = None,
       Header.Example = VNull, Header.Examples = [], Header.Content = [],
       Header.Extensions = exts\<rparr>) =
     fst ` set exts"
  by (auto simp: Header_MarshalYAML_def build_def)

lemma Header_copies_bag:
  "map_of (Header_MarshalYAML marshalSchema marshalExamples marshalContent r) =
     map_of (Header_MarshalYAML marshalSchema marshalExamples marshalContent (r\<lparr>Header.Extensions := []\<rparr>)) ++
     map_of (Header.Extensions r)"
  by (simp add: Header_MarshalYAML_def build_def map_of_put_range_add)

subsection \<open>Parameter\<close>

lemma Parameter_attaches: "attaches_extensions (Parameter_UnmarshalYAML unmarshalSchema unmarshalExamples unmarshalContent) Header.Extensions"
  unfolding attaches_extensions_def Parameter_UnmarshalYAML_def
  by (intro allI impI, erule establishesD [rotated])
     ((rule establishes_extensions | rule establishes_preserved | rule establishes_Nil
       | rule preserves_intros | (simp; fail))+)

lemma Parameter_keeps_strings: "keeps_mismatched_strings (Parameter_UnmarshalYAML unmarshalSchema unmarshalExamples unmarshalContent) Parameter_string_fields"
  unfolding keeps_mismatched_strings_def Parameter_string_fields_def Parameter_UnmarshalYAML_def
  apply (intro allI)
  apply (simp only: list.set ball_simps prod.case simp_thms)
  apply (intro conjI impI allI)
  apply (erule establishesD [rotated],
         ((rule preserves_string_field_mismatch, assumption, assumption)
          | rule establishes_preserved | rule establishes_Nil
          | rule preserves_intros | (simp; fail))+)+
  done

lemma Parameter_ignores_strings: "ignores_mismatched_strings (Parameter_UnmarshalYAML unmarshalSchema unmarshalExamples unmarshalContent) Parameter_string_fields"
  unfolding ignores_mismatched_strings_def Parameter_string_fields_def Parameter_UnmarshalYAML_def
  apply (intro allI)
  apply (simp only: list.set ball_simps prod.case simp_thms)
  apply (intro conjI impI allI)
  apply (rule run_cong,
         (simp add: field_delete string_field_mismatch HasPrefix_ToLower_Cons to_lower_def; fail))+
  done

lemma Parameter_keeps_bools: "keeps_mismatched_bools (Parameter_UnmarshalYAML unmarshalSchema unmarshalExamples unmarshalContent) Parameter_bool_fields"
  unfolding keeps_mismatched_bools_def Parameter_bool_fields_def Parameter_UnmarshalYAML_def
  apply (intro allI)
  apply (simp only: list.set ball_simps prod.case simp_thms)
  apply (intro conjI impI allI)
  apply (erule establishesD [rotated],
         ((rule preserves_bool_field_mismatch, assumption, assumption)
          | rule establishes_preserved | rule establishes_Nil
          | rule preserves_intros | (simp; fail))+)+
  done

lemma Parameter_ignores_bools: "ignores_mismatched_bools (Parameter_UnmarshalYAML unmarshalSchema unmarshalExamples unmarshalContent) Parameter_bool_fields"
  unfolding ignores_mismatched_bools_def Parameter_bool_fields_def Parameter_UnmarshalYAML_def
  apply (intro allI)
  apply (simp only: list.set ball_simps prod.case simp_thms)
  apply (intro conjI impI allI)
  apply (rule run_cong,
         (simp add: field_delete bool_field_mismatch HasPrefix_ToLower_Cons to_lower_def; fail))+
  done

lemma Parameter_omission:
  "fst ` set (Parameter_MarshalYAML marshalSchema marshalExamples marshalContent
      \<lparr>Header.Ref = '''', Header.Description = '''', Header.Required = False,
       Header.Deprecated = False, Header.AllowEmptyValue = False, Header.Style = '''',
       Header.Explode = False, Header.AllowReserved = False, Header.Schema = None,
       Header.Example = VNull, Header.Examples = [], Header.Content = [],
       Header.Extensions = exts, Parameter.Name = name', Parameter.In = in'\<rparr>) =
     {''name'', ''in''} \<union> fst ` set exts"
  by (auto simp: Parameter_MarshalYAML_def build_def)

lemma Parameter_copies_bag:
  "map_of (Parameter_MarshalYAML marshalSchema marshalExamples marshalContent r) =
     map_of (Parameter_MarshalYAML marshalSchema marshalExamples marshalContent (r\<lparr>Header.Extensions := []\<rparr>)) ++
     map_of (Header.Extensions r)"
  by (simp add: Parameter_MarshalYAML_def build_def map_of_put_range_add)

subsection \<open>Encoding\<close>

lemma Encoding_attaches: "attaches_extensions (Encoding_UnmarshalYAML unmarshalHeaders) Encoding.Extensions"
  unfolding attaches_extensions_def Encoding_UnmarshalYAML_def
  by (intro allI impI, erule establishesD [rotated])
     ((rule establishes_extensions | rule establishes_preserved | rule establishes_Nil
       | rule preserves_intros | (simp; fail))+)

lemma Encoding_keeps_strings: "keeps_mismatched_strings (Encoding_UnmarshalYAML unmarshalHeaders) Encoding_string_fields"
  unfolding keeps_mismatched_strings_def Encoding_string_fields_def Encoding_UnmarshalYAML_def
  apply (intro allI)
  apply (simp only: list.set ball_simps prod.case simp_thms)
  apply (intro conjI impI allI)
  apply (erule establishesD [rotated],
         ((rule preserves_string_field_mismatch, assumption, assumption)
          | rule establishes_preserved | rule establishes_Nil
          | rule preserves_intros | (simp; fail))+)+
  done

lemma Encoding_ignores_strings: "ignores_mismatched_strings (Encoding_UnmarshalYAML unmarshalHeaders) Encoding_string_fields"
  unfolding ignores_mismatched_strings_def Encoding_string_fields_def Encoding_UnmarshalYAML_def
  apply (intro allI)
  apply (simp only: list.set ball_simps prod.case simp_thms)
  apply (intro conjI impI allI)
  apply (rule run_cong,
         (simp add: field_delete string_field_mismatch HasPrefix_ToLower_Cons to_lower_def; fail))+
  done

lemma Encoding_keeps_bools: "keeps_mismatched_bools (Encoding_UnmarshalYAML unmarshalHeaders) Encoding_bool_fields"
  unfolding keeps_mismatched_bools_def Encoding_bool_fields_def Encoding_UnmarshalYAML_def
  apply (intro allI)
  apply (simp only: list.set ball_simps prod.case simp_thms)
  apply (intro conjI impI allI)
  apply (erule establishesD [rotated],
         ((rule preserves_bool_field_mismatch, assumption, assumption)
          | rule establishes_preserved | rule establishes_Nil
          | rule preserves_intros | (simp; fail))+)+
  done

lemma Encoding_ignores_bools: "ignores_mismatched_bools (Encoding_UnmarshalYAML unmarshalHeaders) Encoding_bool_fields"
  unfolding ignores_mismatched_bools_def Encoding_bool_fields_def Encoding_UnmarshalYAML_def
  apply (intro allI)
  apply (simp only: list.set ball_simps prod.case simp_thms)
  apply (intro conjI impI allI)
  apply (rule run_cong,
         (simp add: field_delete bool_field_mismatch HasPrefix_ToLower_Cons to_lower_def; fail))+
  done

lemma Encoding_omission:
  "fst ` set (Encoding_MarshalYAML marshalHeaders
      \<lparr>Encoding.ContentType = '''', Encoding.Headers = [], Encoding.Style = '''',
       Encoding.Explode = False, Encoding.AllowReserved = False,
       Encoding.Extensions = exts\<rparr>) =
     fst ` set exts"
  by (auto simp: Encoding_MarshalYAML_def build_def)

lemma Encoding_copies_bag:
  "map_of (Encoding_MarshalYAML marshalHeaders r) =
     map_of (Encoding_MarshalYAML marshalHeaders (r\<lparr>Encoding.Extensions := []\<rparr>)) ++
     map_of (Encoding.Extensions r)"
  by (simp add: Encoding_MarshalYAML_def build_def map_of_put_range_add)

subsection \<open>MediaType\<close>

lemma MediaType_attaches: "attaches_extensions (MediaType_UnmarshalYAML unmarshalSchema unmarshalExamples unmarshalEncoding) MediaType.Extensions"
  unfolding attaches_extensions_def MediaType_UnmarshalYAML_def
  by (intro allI impI, erule establishesD [rotated])
     ((rule establishes_extensions | rule establishes_preserved | rule establishes_Nil
       | rule preserves_intros | (simp; fail))+)

lemma MediaType_omission:
  "fst ` set (MediaType_MarshalYAML marshalSchema marshalExamples marshalEncoding
      \<lparr>MediaType.Schema = None, MediaType.Example = VNull, MediaType.Examples = [],
       MediaType.Encoding = [], MediaType.Extensions = exts\<rparr>) =
     fst ` set exts"
  by (auto simp: MediaType_MarshalYAML_def build_def)

lemma MediaType_copies_bag:
  "map_of (MediaType_MarshalYAML marshalSchema marshalExamples marshalEncoding r) =
     map_of (MediaType_MarshalYAML marshalSchema marshalExamples marshalEncoding (r\<lparr>MediaType.Extensions := []\<rparr>)) ++
     map_of (MediaType.Extensions r)"
  by (simp add: MediaType_MarshalYAML_def build_def map_of_put_range_add)

subsection \<open>RequestBody\<close>

lemma RequestBody_attaches: "attaches_extensions (RequestBody_UnmarshalYAML unmarshalContent) RequestBody.Extensions"
  unfolding attaches_extensions_def RequestBody_UnmarshalYAML_def
  by (intro allI impI, erule establishesD [rotated])
     ((rule establishes_extensions | rule establishes_preserved | rule establishes_Nil
       | rule preserves_intros | (simp; fail))+)

lemma RequestBody_keeps_strings: "keeps_mismatched_strings (RequestBody_UnmarshalYAML unmarshalContent) RequestBody_string_fields"
  unfolding keeps_mismatched_strings_def RequestBody_string_fields_def RequestBody_UnmarshalYAML_def
  apply (intro allI)
  apply (simp only: list.set ball_simps prod.case simp_thms)
  apply (intro conjI impI allI)
  apply (erule establishesD [rotated],
         ((rule preserves_string_field_mismatch, assumption, assumption)
          | rule establishes_preserved | rule establishes_Nil
          | rule preserves_intros | (simp; fail))+)+
  done

lemma RequestBody_ignores_strings: "ignores_mismatched_strings (RequestBody_UnmarshalYAML unmarshalContent) RequestBody_string_fields"
  unfolding ignores_mismatched_strings_def RequestBody_string_fields_def RequestBody_UnmarshalYAML_def
  apply (intro allI)
  apply (simp only: list.set ball_simps prod.case simp_thms)
  apply (intro conjI impI allI)
  apply (rule run_cong,
         (simp add: field_delete string_field_mismatch HasPrefix_ToLower_Cons to_lower_def; fail))+
  done

lemma RequestBody_keeps_bools: "keeps_mismatched_bools (RequestBody_UnmarshalYAML unmarshalContent) RequestBody_bool_fields"
  unfolding keeps_mismatched_bools_def RequestBody_bool_fields_def RequestBody_UnmarshalYAML_def
  apply (intro allI)
  apply (simp only: list.set ball_simps prod.case simp_thms)
  apply (intro conjI impI allI)
  apply (erule establishesD [rotated],
         ((rule preserves_bool_field_mismatch, assumption, assumption)
          | rule establishes_preserved | rule establishes_Nil
          | rule preserves_intros | (simp; fail))+)+
  done

lemma RequestBody_ignores_bools: "ignores_mismatched_bools (RequestBody_UnmarshalYAML unmarshalContent) RequestBody_bool_fields"
  unfolding ignores_mismatched_bools_def RequestBody_bool_fields_def RequestBody_UnmarshalYAML_def
  apply (intro allI)
  apply (simp only: list.set ball_simps prod.case simp_thms)
  apply (intro conjI impI allI)
  apply (rule run_cong,
         (simp add: field_delete bool_field_mismatch HasPrefix_ToLower_Cons to_lower_def; fail))+
  done

lemma RequestBody_omission:
  "fst ` set (RequestBody_MarshalYAML marshalContent
      \<lparr>RequestBody.Ref = '''', RequestBody.Description = '''',
       RequestBody.Content = content', RequestBody.Required = False,
       RequestBody.Extensions = exts\<rparr>) =
     {''content''} \<union> fst ` set exts"
  by (auto simp: RequestBody_MarshalYAML_def build_def)

lemma RequestBody_copies_bag:
  "map_of (RequestBody_MarshalYAML marshalContent r) =
     map_of (RequestBody_MarshalYAML marshalContent (r\<lparr>RequestBody.Extensions := []\<rparr>)) ++
     map_of (RequestBody.Extensions r)"
  by (simp add: RequestBody_MarshalYAML_def build_def map_of_put_range_add)

subsection \<open>Response\<close>

lemma Response_attaches: "attaches_extensions (Response_UnmarshalYAML unmarshalHeaders unmarshalContent unmarshalLinks) Response.Extensions"
  unfolding attaches_extensions_def Response_UnmarshalYAML_def
  by (intro allI impI, erule establishesD [rotated])
     ((rule establishes_extensions | rule establishes_preserved | rule establishes_Nil
       | rule preserves_intros | (simp; fail))+)

lemma Response_keeps_strings: "keeps_mismatched_strings (Response_UnmarshalYAML unmarshalHeaders unmarshalContent unmarshalLinks) Response_string_fields"
  unfolding keeps_mismatched_strings_def Response_string_fields_def Response_UnmarshalYAML_def
  apply (intro allI)
  apply (simp only: list.set ball_simps prod.case simp_thms)
  apply (intro conjI impI allI)
  apply (erule establishesD [rotated],
         ((rule preserves_string_field_mismatch, assumption, assumption)
          | rule establishes_preserved | rule establishes_Nil
          | rule preserves_intros | (simp; fail))+)+
  done

lemma Response_ignores_strings: "ignores_mismatched_strings (Response_UnmarshalYAML unmarshalHeaders unmarshalContent unmarshalLinks) Response_string_fields"
  unfolding ignores_mismatched_strings_def Response_string_fields_def Response_UnmarshalYAML_def
  apply (intro allI)
  apply (simp only: list.set ball_simps prod.case simp_thms)
  apply (intro conjI impI allI)
  apply (rule run_cong,
         (simp add: field_delete string_field_mismatch HasPrefix_ToLower_Cons to_lower_def; fail))+
  done

lemma Response_omission:
  "fst ` set (Response_MarshalYAML marshalHeaders marshalContent marshalLinks
      \<lparr>Response.Ref = '''', Response.Description = description, Response.Headers = [],
       Response.Content = [], Response.Links = [], Response.Extensions = exts\<rparr>) =
     {''description''} \<union> fst ` set exts"
  by (auto simp: Response_MarshalYAML_def build_def)

lemma Response_copies_bag:
  "map_of (Response_MarshalYAML marshalHeaders marshalContent marshalLinks r) =
     map_of (Response_MarshalYAML marshalHeaders marshalContent marshalLinks (r\<lparr>Response.Extensions := []\<rparr>)) ++
     map_of (Response.Extensions r)"
  by (simp add: Response_MarshalYAML_def build_def map_of_put_range_add)

subsection \<open>Operation\<close>

lemma Operation_keeps_strings: "keeps_mismatched_strings (Operation_UnmarshalYAML unmarshalExternalDocs unmarshalParameters unmarshalRequestBody unmarshalResponses unmarshalCallbacks unmarshalSecurity unmarshalServers) Operation_string_fields"
  unfolding keeps_mismatched_strings_def Operation_string_fields_def Operation_UnmarshalYAML_def
  apply (intro allI)
  apply (simp only: list.set ball_simps prod.case simp_thms)
  apply (intro conjI impI allI)
  apply (erule establishesD [rotated],
         ((rule preserves_string_field_mismatch, assumption, assumption)
          | rule establishes_preserved | rule establishes_Nil
          | rule preserves_intros | (simp; fail))+)+
  done

lemma Operation_ignores_strings: "ignores_mismatched_strings (Operation_UnmarshalYAML unmarshalExternalDocs unmarshalParameters unmarshalRequestBody unmarshalResponses unmarshalCallbacks unmarshalSecurity unmarshalServers) Operation_string_fields"
  unfolding ignores_mismatched_strings_def Operation_string_fields_def Operation_UnmarshalYAML_def
  apply (intro allI)
  apply (simp only: list.set ball_simps prod.case simp_thms)
  apply (intro conjI impI allI)
  apply (rule run_cong,
         (simp add: field_delete string_field_mismatch HasPrefix_ToLower_Cons to_lower_def; fail))+
  done

lemma Operation_keeps_bools: "keeps_mismatched_bools (Operation_UnmarshalYAML unmarshalExternalDocs unmarshalParameters unmarshalRequestBody unmarshalResponses unmarshalCallbacks unmarshalSecurity unmarshalServers) Operation_bool_fields"
  unfolding keeps_mismatched_bools_def Operation_bool_fields_def Operation_UnmarshalYAML_def
  apply (intro allI)
  apply (simp only: list.set ball_simps prod.case simp_thms)
  apply (intro conjI impI allI)
  apply (erule establishesD [rotated],
         ((rule preserves_bool_field_mismatch, assumption, assumption)
          | rule establishes_preserved | rule establishes_Nil
          | rule preserves_intros | (simp; fail))+)+
  done

lemma Operation_ignores_bools: "ignores_mismatched_bools (Operation_UnmarshalYAML unmarshalExternalDocs unmarshalParameters unmarshalRequestBody unmarshalResponses unmarshalCallbacks unmarshalSecurity unmarshalServers) Operation_bool_fields"
  unfolding ignores_mismatched_bools_def Operation_bool_fields_def Operation_UnmarshalYAML_def
  apply (intro allI)
  apply (simp only: list.set ball_simps prod.case simp_thms)
  apply (intro conjI impI allI)
  apply (rule run_cong,
         (simp add: field_delete bool_field_mismatch HasPrefix_ToLower_Cons to_lower_def; fail))+
  done

lemma Operation_omission:
  "fst ` set (Operation_MarshalYAML marshalExternalDocs marshalParameters marshalRequestBody marshalResponses marshalCallbacks marshalSecurity marshalServers
      \<lparr>Operation.Tags = [], Operation.Summary = '''', Operation.Description = '''',
       Operation.ExternalDocs = None, Operation.OperationID = '''', Operation.Parameters = [],
       Operation.RequestBody = None, Operation.Responses = responses, Operation.Callbacks = None,
       Operation.Deprecated = False, Operation.Security = [], Operation.Servers = None,
       Operation.Extensions = exts\<rparr>) =
     {''responses''} \<union> fst ` set exts"
  by (auto simp: Operation_MarshalYAML_def build_def)

lemma Operation_copies_bag:
  "map_of (Operation_MarshalYAML marshalExternalDocs marshalParameters marshalRequestBody marshalResponses marshalCallbacks marshalSecurity marshalServers r) =
     map_of (Operation_MarshalYAML marshalExternalDocs marshalParameters marshalRequestBody marshalResponses marshalCallbacks marshalSecurity marshalServers (r\<lparr>Operation.Extensions := []\<rparr>)) ++
     map_of (Operation.Extensions r)"
  by (simp add: Operation_MarshalYAML_def build_def map_of_put_range_add)

subsection \<open>PathItem\<close>

lemma PathItem_attaches: "attaches_extensions (PathItem_UnmarshalYAML unmarshalOperation unmarshalServers unmarshalParameters) PathItem.Extensions"
  unfolding attaches_extensions_def PathItem_UnmarshalYAML_def
  by (intro allI impI, erule establishesD [rotated])
     ((rule establishes_extensions | rule establishes_preserved | rule establishes_Nil
       | rule preserves_intros | (simp; fail))+)

lemma PathItem_keeps_strings: "keeps_mismatched_strings (PathItem_UnmarshalYAML unmarshalOperation unmarshalServers unmarshalParameters) PathItem_string_fields"
  unfolding keeps_mismatched_strings_def PathItem_string_fields_def PathItem_UnmarshalYAML_def
  apply (intro allI)
  apply (simp only: list.set ball_simps prod.case simp_thms)
  apply (intro conjI impI allI)
  apply (erule establishesD [rotated],
         ((rule preserves_string_field_mismatch, assumption, assumption)
          | rule establishes_preserved | rule establishes_Nil
          | rule preserves_intros | (simp; fail))+)+
  done

lemma PathItem_ignores_strings: "ignores_mismatched_strings (PathItem_UnmarshalYAML unmarshalOperation unmarshalServers unmarshalParameters) PathItem_string_fields"
  unfolding ignores_mismatched_strings_def PathItem_string_fields_def PathItem_UnmarshalYAML_def
  apply (intro allI)
  apply (simp only: list.set ball_simps prod.case simp_thms)
  apply (intro conjI impI allI)
  apply (rule run_cong,
         (simp add: field_delete string_field_mismatch HasPrefix_ToLower_Cons to_lower_def; fail))+
  done

lemma PathItem_omission:
  "fst ` set (PathItem_MarshalYAML marshalOperation marshalServers marshalParameters
      \<lparr>PathItem.Ref = '''', PathItem.Summary = '''', PathItem.Description = '''',
       PathItem.Get = None, PathItem.Put = None, PathItem.Post = None, PathItem.Delete = None,
       PathItem.Options = None, PathItem.Head = None, PathItem.Patch = None,
       PathItem.Trace = None, PathItem.Servers = [], PathItem.Parameters = [],
       PathItem.Extensions = exts\<rparr>) =
     fst ` set exts"
  by (auto simp: PathItem_MarshalYAML_def build_def)

lemma PathItem_copies_bag:
  "map_of (PathItem_MarshalYAML marshalOperation marshalServers marshalParameters r) =
     map_of (PathItem_MarshalYAML marshalOperation marshalServers marshalParameters (r\<lparr>PathItem.Extensions := []\<rparr>)) ++
     map_of (PathItem.Extensions r)"
  by (simp add: PathItem_MarshalYAML_def build_def map_of_put_range_add)

subsection \<open>Paths\<close>

lemma Paths_attaches: "attaches_extensions (Paths_UnmarshalYAML unmarshalPathItem) Paths.Extensions"
  unfolding attaches_extensions_def Paths_UnmarshalYAML_def
  by (intro allI impI, erule establishesD [rotated])
     ((rule establishes_extensions | rule establishes_preserved | rule establishes_Nil
       | rule preserves_intros | (simp; fail))+)

lemma Paths_omission:
  "fst ` set (Paths_MarshalYAML marshalPathItem
      \<lparr>Paths.PathItems = [], Paths.Extensions = exts\<rparr>) =
     fst ` set exts"
  by (auto simp: Paths_MarshalYAML_def build_def)

lemma Paths_copies_bag:
  "map_of (Paths_MarshalYAML marshalPathItem r) =
     map_of (Paths_MarshalYAML marshalPathItem (r\<lparr>Paths.Extensions := []\<rparr>)) ++
     map_of (Paths.Extensions r)"
  by (simp add: Paths_MarshalYAML_def build_def map_of_put_range_add)

subsection \<open>Callback\<close>

lemma Callback_attaches: "attaches_extensions (Callback_UnmarshalYAML unmarshalPathItem) Callback.Extensions"
  unfolding attaches_extensions_def Callback_UnmarshalYAML_def
  by (intro allI impI, erule establishesD [rotated])
     ((rule establishes_extensions | rule establishes_preserved | rule establishes_Nil
       | rule preserves_intros | (simp; fail))+)

lemma Callback_keeps_strings: "keeps_mismatched_strings (Callback_UnmarshalYAML unmarshalPathItem) Callback_string_fields"
  unfolding keeps_mismatched_strings_def Callback_string_fields_def Callback_UnmarshalYAML_def
  apply (intro allI)
  apply (simp only: list.set ball_simps prod.case simp_thms)
  apply (intro conjI impI allI)
  apply (erule establishesD [rotated],
         ((rule preserves_string_field_mismatch, assumption, assumption)
          | rule establishes_preserved | rule establishes_Nil
          | rule preserves_intros | (simp; fail))+)+
  done

lemma Callback_omission:
  "fst ` set (Callback_MarshalYAML marshalPathItem
      \<lparr>Callback.Ref = '''', Callback.CallbackItems = [],
       Callback.Extensions = exts\<rparr>) =
     fst ` set exts"
  by (auto simp: Callback_MarshalYAML_def build_def)

lemma Callback_copies_bag:
  "map_of (Callback_MarshalYAML marshalPathItem r) =
     map_of (Callback_MarshalYAML marshalPathItem (r\<lparr>Callback.Extensions := []\<rparr>)) ++
     map_of (Callback.Extensions r)"
  by (simp add: Callback_MarshalYAML_def build_def map_of_put_range_add)

subsection \<open>Components\<close>

lemma Components_attaches: "attaches_extensions (Components_UnmarshalYAML unmarshalSchemas unmarshalResponses unmarshalParameters unmarshalExamples unmarshalRequestBodies unmarshalHeaders unmarshalSecuritySchemes unmarshalLinks unmarshalCallbacks) Components.Extensions"
  unfolding attaches_extensions_def Components_UnmarshalYAML_def
  by (intro allI impI, erule establishesD [rotated])
     ((rule establishes_extensions | rule establishes_preserved | rule establishes_Nil
       | rule preserves_intros | (simp; fail))+)

lemma Components_omission:
  "fst ` set (Components_MarshalYAML marshalSchemas marshalResponses marshalParameters marshalExamples marshalRequestBodies marshalHeaders marshalSecuritySchemes marshalLinks marshalCallbacks
      \<lparr>Components.Schemas = [], Components.Responses = [], Components.Parameters = [],
       Components.Examples = [], Components.RequestBodies = [], Components.Headers = [],
       Components.SecuritySchemes = [], Components.Links = [], Components.Callbacks = [],
       Components.Extensions = exts\<rparr>) =
     fst ` set exts"
  by (auto simp: Components_MarshalYAML_def build_def)

lemma Components_copies_bag:
  "map_of (Components_MarshalYAML marshalSchemas marshalResponses marshalParameters marshalExamples marshalRequestBodies marshalHeaders marshalSecuritySchemes marshalLinks marshalCallbacks r) =
     map_of (Components_MarshalYAML marshalSchemas marshalResponses marshalParameters marshalExamples marshalRequestBodies marshalHeaders marshalSecuritySchemes marshalLinks marshalCallbacks (r\<lparr>Components.Extensions := []\<rparr>)) ++
     map_of (Components.Extensions r)"
  by (simp add: Components_MarshalYAML_def build_def map_of_put_range_add)

subsection \<open>OpenAPI\<close>

lemma OpenAPI_attaches: "attaches_extensions (OpenAPI_UnmarshalYAML unmarshalInfo unmarshalServers unmarshalPaths unmarshalComponents unmarshalSecurity unmarshalTags unmarshalExternalDocs) OpenAPI.Extensions"
  unfolding attaches_extensions_def OpenAPI_UnmarshalYAML_def
  by (intro allI impI, erule establishesD [rotated])
     ((rule establishes_extensions | rule establishes_preserved | rule establishes_Nil
       | rule preserves_intros | (simp; fail))+)

lemma OpenAPI_keeps_strings: "keeps_mismatched_strings (OpenAPI_UnmarshalYAML unmarshalInfo unmarshalServers unmarshalPaths unmarshalComponents unmarshalSecurity unmarshalTags unmarshalExternalDocs) OpenAPI_string_fields"
  unfolding keeps_mismatched_strings_def OpenAPI_string_fields_def OpenAPI_UnmarshalYAML_def
  apply (intro allI)
  apply (simp only: list.set ball_simps prod.case simp_thms)
  apply (intro conjI impI allI)
  apply (erule establishesD [rotated],
         ((rule preserves_string_field_mismatch, assumption, assumption)
          | rule establishes_preserved | rule establishes_Nil
          | rule preserves_intros | (simp; fail))+)+
  done

lemma OpenAPI_ignores_strings: "ignores_mismatched_strings (OpenAPI_UnmarshalYAML unmarshalInfo unmarshalServers unmarshalPaths unmarshalComponents unmarshalSecurity unmarshalTags unmarshalExternalDocs) OpenAPI_string_fields"
  unfolding ignores_mismatched_strings_def OpenAPI_string_fields_def OpenAPI_UnmarshalYAML_def
  apply (intro allI)
  apply (simp only: list.set ball_simps prod.case simp_thms)
  apply (intro conjI impI allI)
  apply (rule run_cong,
         (simp add: field_delete string_field_mismatch HasPrefix_ToLower_Cons to_lower_def; fail))+
  done

lemma OpenAPI_omission:
  "fst ` set (OpenAPI_MarshalYAML marshalInfo marshalServers marshalPaths marshalComponents marshalSecurity marshalTags marshalExternalDocs
      \<lparr>OpenAPI.OpenAPI = openAPI, OpenAPI.Info = info', OpenAPI.Servers = [],
       OpenAPI.Paths = paths', OpenAPI.Components = None, OpenAPI.Security = [],
       OpenAPI.Tags = [], OpenAPI.ExternalDocs = None, OpenAPI.Extensions = exts\<rparr>) =
     {''openapi'', ''info'', ''paths''} \<union> fst ` set exts"
  by (auto simp: OpenAPI_MarshalYAML_def build_def)

lemma OpenAPI_copies_bag:
  "map_of (OpenAPI_MarshalYAML marshalInfo marshalServers marshalPaths marshalComponents marshalSecurity marshalTags marshalExternalDocs r) =
     map_of (OpenAPI_MarshalYAML marshalInfo marshalServers marshalPaths marshalComponents marshalSecurity marshalTags marshalExternalDocs (r\<lparr>OpenAPI.Extensions := []\<rparr>)) ++
     map_of (OpenAPI.Extensions r)"
  by (simp add: OpenAPI_MarshalYAML_def build_def map_of_put_range_add)

section \<open>Lemmas on whole decoders and encoders\<close>

lemmas decoder_steps =
  string_field_def bool_field_def value_field_def slice_field_def strings_field_def
  string_map_field_def child_field_def items_field_def extensions_field_def
  extensions_unused_def

lemmas extension_keys =
  Extensions_UnmarshalYAML_def HasPrefix_def ToLower_def to_lower_def cleanupInterfaceMap.simps

lemma Operation_keeps_bag:
  "Operation_UnmarshalYAML unmarshalExternalDocs unmarshalParameters unmarshalRequestBody
     unmarshalResponses unmarshalCallbacks unmarshalSecurity unmarshalServers r obj = Inr r'
         \<Longrightarrow>
   Operation.Extensions r' = Operation.Extensions r"
  unfolding Operation_UnmarshalYAML_def
  by (erule establishesD [rotated])
     ((rule establishes_preserved | rule establishes_Nil | rule preserves_intros | (simp; fail))+)

subsection \<open>The string arrays\<close>




lemma ServerVariable_scenario:
  "ServerVariable_UnmarshalYAML ServerVariable_zero
     [(''enum'', VSlice [VInt 8443, VInt 443]), (''default'', VString ''8443'')] =
   Inr (ServerVariable_zero\<lparr>ServerVariable.Enum := [''8443'', ''443''],
        ServerVariable.Default := ''8443''\<rparr>)"
  by (simp add: ServerVariable_UnmarshalYAML_def decoder_steps extension_keys
      string_of_int_def string_of_nat.simps digit_def)

lemma Sprint_sorts_keys:
  "sortable (VMapI [(VString ''b'', VInt 1), (VString ''a'', VInt 2)])
   \<and> Sprint (VMapI [(VString ''b'', VInt 1), (VString ''a'', VInt 2)]) = ''map[a:2 b:1]''
   \<and> Sprint (VMapI [(VInt 10, VBool True), (VInt 9, VNull)]) = ''map[9:<nil> 10:true]''
   \<and> Sprint (VSlice [VString ''a'', VSlice [VInt 1, VInt 2]]) = ''[a [1 2]]''"
  by (simp add: one_kind_def sort_entries_def string_of_int_def string_of_nat.simps digit_def)

lemma Operation_tags_scenario:
  "Operation_UnmarshalYAML unmarshalExternalDocs unmarshalParameters unmarshalRequestBody
     unmarshalResponses unmarshalCallbacks unmarshalSecurity unmarshalServers Operation_zero
     [(''tags'', VSlice [VString ''pets'', VInt 7, VBool True,
         VMapI [(VString ''b'', VInt 1), (VString ''a'', VInt 2)]])] =
   Inr (Operation_zero\<lparr>Operation.Tags := [''pets'', ''7'', ''true'', ''map[a:2 b:1]'']\<rparr>)"
  by (simp add: Operation_UnmarshalYAML_def decoder_steps extension_keys sort_entries_def
      string_of_int_def string_of_nat.simps digit_def)

subsection \<open>The two readings of a flat map\<close>

lemma unmarshal_entries_keys:
  "unmarshal_entries u obj = Inr typed \<Longrightarrow> map fst typed = map fst obj"
  by (induction obj arbitrary: typed) (auto split: sum.splits)

lemma unmarshal_entries_map_of:
  "unmarshal_entries u obj = Inr typed \<Longrightarrow>
   map_of typed k = Some c \<longleftrightarrow> (\<exists>v. map_of obj k = Some v \<and> u v =
       Inr c)"
  by (induction obj arbitrary: typed) (auto split: sum.splits)

lemma map_of_Extensions_UnmarshalYAML:
  "map_of (Extensions_UnmarshalYAML r obj) k =
     (if HasPrefix (ToLower k) ''x-'' \<and> k \<in> fst ` set obj
      then Some (cleanupMapValue (the (map_of obj k))) else map_of r k)"
  unfolding Extensions_UnmarshalYAML_def
  using map_of_fold_update_if
    [of "\<lambda>k. HasPrefix (ToLower k) ''x-''" "\<lambda>k. cleanupMapValue (the (map_of obj k))"
      "map fst obj" r k]
  by simp

lemma keys_Extensions_UnmarshalYAML:
  "fst ` set (Extensions_UnmarshalYAML r obj) =
     {k \<in> fst ` set obj. HasPrefix (ToLower k) ''x-''} \<union> fst ` set r"
  unfolding Extensions_UnmarshalYAML_def
  using keys_fold_update_if
    [of "\<lambda>k. HasPrefix (ToLower k) ''x-''" "\<lambda>k. cleanupMapValue (the (map_of obj k))"
      "map fst obj" r]
  by simp

lemma in_keys_iff: "k \<in> fst ` set al \<longleftrightarrow> (\<exists>v. map_of al k = Some v)"
  by (metis domIff dom_map_of_conv_image_fst not_Some_eq)

lemma split_entries:
  assumes "unmarshal_entries u obj = Inr typed"
  shows "splits_map u obj
     (fold (\<lambda>k r. if \<not> HasPrefix (ToLower k) ''x-''
                    then AList.update k (the (map_of typed k)) r else r) (map fst typed) [])
     (Extensions_UnmarshalYAML [] obj)"
proof -
  let ?items = "fold (\<lambda>k r. if \<not> HasPrefix (ToLower k) ''x-''
                    then AList.update k (the (map_of typed k)) r else r) (map fst typed) []"
  have keys: "map fst typed = map fst obj"
    using assms by (rule unmarshal_entries_keys)
  have typed: "map_of typed k = Some c \<longleftrightarrow> (\<exists>v. map_of obj k = Some v
      \<and> u v = Inr c)" for k c
    using assms by (rule unmarshal_entries_map_of)
  have set_keys: "fst ` set typed = fst ` set obj"
    using keys by (metis list.set_map)
  have items_keys: "fst ` set ?items = {k \<in> fst ` set obj. \<not> HasPrefix (ToLower k) ''x-''}"
    using keys_fold_update_if
      [of "\<lambda>k. \<not> HasPrefix (ToLower k) ''x-''" "\<lambda>k. the (map_of typed k)" "map fst typed" "[]"]
    by (simp add: keys)
  have items_map: "map_of ?items k =
      (if \<not> HasPrefix (ToLower k) ''x-'' \<and> k \<in> fst ` set obj
       then Some (the (map_of typed k)) else None)" for k
    using map_of_fold_update_if
      [of "\<lambda>k. \<not> HasPrefix (ToLower k) ''x-''" "\<lambda>k. the (map_of typed k)" "map fst typed" "[]" k]
    by (simp add: keys)
  have items: "map_of ?items k = Some c \<longleftrightarrow>
      \<not> HasPrefix (ToLower k) ''x-'' \<and> (\<exists>v. map_of obj k = Some v \<and> u v = Inr c)" for k c
  proof (cases "\<not> HasPrefix (ToLower k) ''x-'' \<and> k \<in> fst ` set obj")
    case True
    then obtain c' where c': "map_of typed k = Some c'"
      using set_keys in_keys_iff [of k typed] by auto
    with True show ?thesis
      using typed [of k c] typed [of k c'] by (auto simp: items_map)
  next
    case False
    then show ?thesis
      using in_keys_iff [of k obj] by (auto simp: items_map)
  qed
  have exts: "map_of (Extensions_UnmarshalYAML [] obj) k = Some w \<longleftrightarrow>
      HasPrefix (ToLower k) ''x-'' \<and> (\<exists>v. map_of obj k = Some v \<and> w = cleanupMapValue v)" for k w
    using in_keys_iff [of k obj] by (auto simp: map_of_Extensions_UnmarshalYAML)
  show ?thesis
    unfolding splits_map_def
    using items exts by (auto simp: items_keys keys_Extensions_UnmarshalYAML)
qed

lemma PathItems_split:
  "PathItems_UnmarshalYAML u [] obj = Inr items \<Longrightarrow>
   splits_map u obj items (Extensions_UnmarshalYAML [] obj)"
  unfolding PathItems_UnmarshalYAML_def
  by (auto split: sum.splits dest: split_entries)

lemma CallbackItems_split:
  "CallbackItems_UnmarshalYAML u [] obj = Inr items \<Longrightarrow>
   splits_map u obj items (Extensions_UnmarshalYAML [] obj)"
  unfolding CallbackItems_UnmarshalYAML_def
  by (auto split: sum.splits dest: split_entries)

lemma Paths_UnmarshalYAML_Inr:
  assumes "Paths_UnmarshalYAML u r obj = Inr r'"
  obtains items where "PathItems_UnmarshalYAML u [] obj = Inr items"
    and "r' = (let r1 = (if length items > 0 then r\<lparr>Paths.PathItems := items\<rparr> else
        r);
                   exts = Extensions_UnmarshalYAML [] obj
               in if length exts > 0 then r1\<lparr>Paths.Extensions := exts\<rparr> else r1)"
proof (cases "PathItems_UnmarshalYAML u [] obj")
  case (Inl e)
  with assms show ?thesis
    by (simp add: Paths_UnmarshalYAML_def items_field_def)
next
  case (Inr items)
  with assms have "r' = (let r1 = (if length items > 0 then r\<lparr>Paths.PathItems :=
      items\<rparr> else r);
                   exts = Extensions_UnmarshalYAML [] obj
               in if length exts > 0 then r1\<lparr>Paths.Extensions := exts\<rparr> else r1)"
    by (simp add: Paths_UnmarshalYAML_def items_field_def extensions_field_def Let_def
        split: if_splits)
  with Inr that show ?thesis by blast
qed

lemma Callback_UnmarshalYAML_Inr:
  assumes "Callback_UnmarshalYAML u r obj = Inr r'"
  obtains items r0 where "CallbackItems_UnmarshalYAML u [] obj = Inr items"
    and "string_field obj ''$ref'' (\<lambda>value r. r\<lparr>Callback.Ref := value\<rparr>) r = Inr r0"
    and "r' = (let r1 = (if length items > 0 then r0\<lparr>Callback.CallbackItems :=
        items\<rparr> else r0);
                   exts = Extensions_UnmarshalYAML [] obj
               in if length exts > 0 then r1\<lparr>Callback.Extensions := exts\<rparr> else r1)"
proof -
  obtain r0 where r0: "string_field obj ''$ref'' (\<lambda>value r. r\<lparr>Callback.Ref := value\<rparr>) r = Inr r0"
    using string_field_returns
      [of obj "''$ref''" "\<lambda>value r. r\<lparr>Callback.Ref := value\<rparr>" r]
    by (elim exE)
  show ?thesis
  proof (cases "CallbackItems_UnmarshalYAML u [] obj")
    case (Inl e)
    with assms r0 show ?thesis
      by (simp add: Callback_UnmarshalYAML_def items_field_def)
  next
    case (Inr items)
    with assms r0 have "r' = (let r1 = (if length items > 0 then r0\<lparr>Callback.CallbackItems
        := items\<rparr> else r0);
                   exts = Extensions_UnmarshalYAML [] obj
               in if length exts > 0 then r1\<lparr>Callback.Extensions := exts\<rparr> else r1)"
      by (simp add: Callback_UnmarshalYAML_def items_field_def extensions_field_def Let_def
          split: if_splits)
    with Inr r0 that show ?thesis by blast
  qed
qed

lemma string_field_other:
  "string_field obj k assign r = Inr r0 \<Longrightarrow> (\<And>v r. f (assign v r) = f r)
      \<Longrightarrow> f r0 = f r"
  using preserves_string_field [of f assign obj k] by (simp add: preserves_def)

subsection \<open>The bag in the encoders\<close>

lemma map_of_Extensions_MarshalYAML:
  "map_of (Extensions_MarshalYAML r) k = (if HasPrefix (ToLower k) ''x-'' then map_of r k else None)"
proof -
  have "map_of (Extensions_MarshalYAML r) k =
      (if HasPrefix (ToLower k) ''x-'' \<and> k \<in> set (map fst r) then Some (the (map_of r k)) else None)"
    unfolding Extensions_MarshalYAML_def
    using map_of_fold_update_if
      [of "\<lambda>k. HasPrefix (ToLower k) ''x-''" "\<lambda>k. the (map_of r k)" "map fst r" "[]" k]
    by simp
  then show ?thesis
    using in_keys_iff [of k r] by auto
qed

lemma map_of_put_ptr_if:
  "map_of (put_ptr p k enc obj) k' =
     (if p \<noteq> None \<and> k' = k then Some (enc (the p)) else map_of obj k')"
  by (cases p) simp_all

lemma map_of_put_range_if:
  "map_of (put_range m obj) k = (if map_of m k \<noteq> None then map_of m k else map_of obj k)"
  by (auto split: option.splits)

lemma Schema_unset_field_keeps_bag:
  "list_all (\<lambda>k.
      map_of (Schema_MarshalYAML marshalDiscriminator marshalXML marshalExternalDocs
        marshalSchema marshalProperties marshalSchemas (r\<lparr>Schema.Extensions :=
            []\<rparr>)) k = None \<longrightarrow>
      map_of (Schema_MarshalYAML marshalDiscriminator marshalXML marshalExternalDocs
        marshalSchema marshalProperties marshalSchemas r) k = map_of (Schema.Extensions r) k)
     Schema_keys_after_extensions"
  unfolding Schema_keys_after_extensions_def list.pred_inject
  by (intro conjI TrueI;
      simp add: Schema_MarshalYAML_def build_def map_of_put_ptr_if map_of_put_range_if
        del: map_of_put_ptr map_of_put_range)

lemma Schema_copies_bag_unless_overwritten:
  assumes "k \<in> set Schema_keys_after_extensions \<longrightarrow>
     map_of (Schema_MarshalYAML marshalDiscriminator marshalXML marshalExternalDocs marshalSchema
         marshalProperties marshalSchemas (r\<lparr>Schema.Extensions := []\<rparr>)) k = None"
  shows "map_of (Schema_MarshalYAML marshalDiscriminator marshalXML marshalExternalDocs
      marshalSchema marshalProperties marshalSchemas r) k =
     (map_of (Schema_MarshalYAML marshalDiscriminator marshalXML marshalExternalDocs
         marshalSchema marshalProperties marshalSchemas (r\<lparr>Schema.Extensions :=
             []\<rparr>)) ++
      map_of (Schema.Extensions r)) k"
proof (cases "k \<in> set Schema_keys_after_extensions")
  case False
  then show ?thesis
    by (rule Schema_copies_bag)
next
  case True
  with assms have none: "map_of (Schema_MarshalYAML marshalDiscriminator marshalXML
      marshalExternalDocs marshalSchema marshalProperties marshalSchemas
          (r\<lparr>Schema.Extensions := []\<rparr>)) k = None"
    by simp
  with True Schema_unset_field_keeps_bag [of marshalDiscriminator marshalXML marshalExternalDocs
      marshalSchema marshalProperties marshalSchemas r]
  have "map_of (Schema_MarshalYAML marshalDiscriminator marshalXML marshalExternalDocs
      marshalSchema marshalProperties marshalSchemas r) k = map_of (Schema.Extensions r) k"
    unfolding list_all_iff by blast
  with none show ?thesis
    by (simp add: map_add_def split: option.splits)
qed

section \<open>The extension bag of an operation\<close>

text \<open>
  Every decoder of the package ends with the decoding of the bag from the map it has
  read; all but one then attach the bag, when it is not empty, with
  \<^verbatim>\<open>if len(exts) > 0 { r.Extensions = exts }\<close> (the lemmas \<open>attaches\<close> above).
  The decoder of \<^verbatim>\<open>Operation\<close> decodes the bag and returns without the assignment
  (\<open>Operation_keeps_bag\<close>). The four statements of this section show what follows.
\<close>

text \<open>
  Claim C4. A decoder attaches the bag decoded from its map when that bag is not empty.
  For the map with the single entry x-internal: true the decoded bag holds that entry and
  the decoder of License attaches it, but the decoder of Operation returns the Operation
  it was given, its bag still empty, whatever the decoders of its children are.
\<close>

theorem Operation_UnmarshalYAML_drops_extensions:
  "Extensions_UnmarshalYAML [] [(''x-internal'', VBool True)] = [(''x-internal'', VBool True)]
   \<and> Operation_UnmarshalYAML unmarshalExternalDocs unmarshalParameters unmarshalRequestBody
        unmarshalResponses unmarshalCallbacks unmarshalSecurity unmarshalServers
        Operation_zero [(''x-internal'', VBool True)] = Inr Operation_zero
   \<and> License_UnmarshalYAML License_zero [(''x-internal'', VBool True)] =
        Inr (License_zero\<lparr>License.Extensions := [(''x-internal'', VBool True)]\<rparr>)"
  by (simp add: Operation_UnmarshalYAML_def License_UnmarshalYAML_def decoder_steps extension_keys)

text \<open>
  Claim C2. A key with the prefix x- is to appear in the bag of the decoded entity, its
  value normalized. For the map with summary: List pets and x-rate-limit: {limit: 5} the
  decoded bag holds x-rate-limit with the string-keyed map {limit: 5}, but the Operation
  that the decoder of Operation returns has the summary and an empty bag.
\<close>

theorem Operation_extension_not_isolated:
  "map_of (Extensions_UnmarshalYAML []
      [(''summary'', VString ''List pets''),
       (''x-rate-limit'', VMapI [(VString ''limit'', VInt 5)])]) ''x-rate-limit'' =
     Some (VMapS [(''limit'', VInt 5)])
   \<and> Operation_UnmarshalYAML unmarshalExternalDocs unmarshalParameters unmarshalRequestBody
        unmarshalResponses unmarshalCallbacks unmarshalSecurity unmarshalServers
        Operation_zero
        [(''summary'', VString ''List pets''),
         (''x-rate-limit'', VMapI [(VString ''limit'', VInt 5)])] =
       Inr (Operation_zero\<lparr>Operation.Summary := ''List pets''\<rparr>)
   \<and> Operation.Extensions (Operation_zero\<lparr>Operation.Summary := ''List pets''\<rparr>) = []"
  by (simp add: Operation_UnmarshalYAML_def Operation_zero_def decoder_steps extension_keys)

text \<open>
  Claim C1. Decoding the encoding of a value is to give the value back. An Operation whose
  bag holds x-internal: true is not what the decoder of Operation returns for the YAML
  text of its own encoding; indeed no map at all decodes to it from a fresh Operation,
  whatever the codecs of its children are.
\<close>

theorem Operation_round_trip_loses_extensions:
  "Operation_UnmarshalYAML unmarshalExternalDocs unmarshalParameters unmarshalRequestBody
     unmarshalResponses unmarshalCallbacks unmarshalSecurity unmarshalServers Operation_zero
     (reload_obj (Operation_MarshalYAML marshalExternalDocs marshalParameters marshalRequestBody
        marshalResponses marshalCallbacks marshalSecurity marshalServers
        (Operation_zero\<lparr>Operation.Extensions := [(''x-internal'', VBool True)]\<rparr>)))
     \<noteq> Inr (Operation_zero\<lparr>Operation.Extensions := [(''x-internal'', VBool True)]\<rparr>)
   \<and> Operation_UnmarshalYAML unmarshalExternalDocs unmarshalParameters unmarshalRequestBody
        unmarshalResponses unmarshalCallbacks unmarshalSecurity unmarshalServers Operation_zero obj
     \<noteq> Inr (Operation_zero\<lparr>Operation.Extensions := [(''x-internal'', VBool True)]\<rparr>)"
proof -
  have "Operation_UnmarshalYAML unmarshalExternalDocs unmarshalParameters unmarshalRequestBody
        unmarshalResponses unmarshalCallbacks unmarshalSecurity unmarshalServers Operation_zero obj
     \<noteq> Inr (Operation_zero\<lparr>Operation.Extensions := [(''x-internal'', VBool True)]\<rparr>)" for obj
  proof
    assume "Operation_UnmarshalYAML unmarshalExternalDocs unmarshalParameters unmarshalRequestBody
        unmarshalResponses unmarshalCallbacks unmarshalSecurity unmarshalServers Operation_zero obj
     = Inr (Operation_zero\<lparr>Operation.Extensions := [(''x-internal'', VBool True)]\<rparr>)"
    from Operation_keeps_bag [OF this] show False
      by (simp add: Operation_zero_def)
  qed
  then show ?thesis by blast
qed

text \<open>
  Claim C8. Clone is to return a value equal to the one cloned. The Clone of an Operation
  with the summary List pets and the bag x-internal: true does not return that Operation,
  whatever the codecs of its children are: Clone is the encoder followed by the decoder,
  and the decoder leaves the bag of the fresh Operation empty.
\<close>

theorem Operation_Clone_loses_extensions:
  "Operation_Clone marshalExternalDocs marshalParameters marshalRequestBody
     marshalResponses marshalCallbacks marshalSecurity marshalServers
     unmarshalExternalDocs unmarshalParameters unmarshalRequestBody
     unmarshalResponses unmarshalCallbacks unmarshalSecurity unmarshalServers
     (Operation_zero\<lparr>Operation.Summary := ''List pets'',
        Operation.Extensions := [(''x-internal'', VBool True)]\<rparr>)
   \<noteq> Inr (Operation_zero\<lparr>Operation.Summary := ''List pets'',
        Operation.Extensions := [(''x-internal'', VBool True)]\<rparr>)"
proof
  assume "Operation_Clone marshalExternalDocs marshalParameters marshalRequestBody
     marshalResponses marshalCallbacks marshalSecurity marshalServers
     unmarshalExternalDocs unmarshalParameters unmarshalRequestBody
     unmarshalResponses unmarshalCallbacks unmarshalSecurity unmarshalServers
     (Operation_zero\<lparr>Operation.Summary := ''List pets'',
        Operation.Extensions := [(''x-internal'', VBool True)]\<rparr>)
   = Inr (Operation_zero\<lparr>Operation.Summary := ''List pets'',
        Operation.Extensions := [(''x-internal'', VBool True)]\<rparr>)"
  then have "Operation.Extensions (Operation_zero\<lparr>Operation.Summary := ''List pets'',
        Operation.Extensions := [(''x-internal'', VBool True)]\<rparr>
        :: ('a, 'b, 'c, 'd, 'e) Operation) =
      Operation.Extensions (Operation_zero :: ('a, 'b, 'c, 'd, 'e) Operation)"
    unfolding Operation_Clone_def Clone_def by (rule Operation_keeps_bag)
  then show False
    by (simp add: Operation_zero_def)
qed

section \<open>Omission of empty fields\<close>

text \<open>
  Encoder by encoder: the keys of the encoding of a value whose optional fields are all
  empty are the keys that the encoder always writes and the keys of the bag. The two
  fields \<^verbatim>\<open>Callbacks\<close> and \<^verbatim>\<open>Servers\<close> of an \<^verbatim>\<open>Operation\<close> are nil here.
\<close>

lemma keys_of_zero_values:
  "(\<forall>exts.
      fst ` set (Contact_MarshalYAML
         \<lparr>Contact.Name = '''', Contact.URL = '''', Contact.Email = '''',
          Contact.Extensions = exts\<rparr>) =
      fst ` set exts)
   \<and> (\<forall>name' exts.
      fst ` set (License_MarshalYAML
         \<lparr>License.Name = name', License.URL = '''', License.Extensions = exts\<rparr>) =
      {''name''} \<union> fst ` set exts)
   \<and> (\<forall>url exts.
      fst ` set (ExternalDocumentation_MarshalYAML
         \<lparr>ExternalDocumentation.Description = '''', ExternalDocumentation.URL = url,
          ExternalDocumentation.Extensions = exts\<rparr>) =
      {''url''} \<union> fst ` set exts)
   \<and> (\<forall>default' exts.
      fst ` set (ServerVariable_MarshalYAML
         \<lparr>ServerVariable.Enum = [], ServerVariable.Default = default',
          ServerVariable.Description = '''', ServerVariable.Extensions = exts\<rparr>) =
      {''default''} \<union> fst ` set exts)
   \<and> (\<forall>marshalVariables url exts.
      fst ` set (Server_MarshalYAML marshalVariables
         \<lparr>Server.URL = url, Server.Description = '''', Server.Variables = [],
          Server.Extensions = exts\<rparr>) =
      {''url''} \<union> fst ` set exts)
   \<and> (\<forall>exts.
      fst ` set (XML_MarshalYAML
         \<lparr>XML.Name = '''', XML.Namespace = '''', XML.Prefix = '''', XML.Attribute = False,
          XML.Wrapped = False, XML.Extensions = exts\<rparr>) =
      fst ` set exts)
   \<and> (\<forall>propertyName.
      fst ` set (Discriminator_MarshalYAML
         \<lparr>Discriminator.PropertyName = propertyName,
          Discriminator.Mapping = []\<rparr>) =
      {''propertyName''})
   \<and> (\<forall>name' exts.
      fst ` set (Tag_MarshalYAML
         \<lparr>Tag.Name = name', Tag.Description = '''', Tag.ExternalDocs = None,
          Tag.Extensions = exts\<rparr>) =
      {''name''} \<union> fst ` set exts)
   \<and> (\<forall>exts.
      fst ` set (Example_MarshalYAML
         \<lparr>Example.Ref = '''', Example.Summary = '''', Example.Description = '''',
          Example.Value = VNull, Example.ExternalValue = '''',
          Example.Extensions = exts\<rparr>) =
      fst ` set exts)
   \<and> (\<forall>authorizationURL tokenURL scopes exts.
      fst ` set (OAuthFlow_MarshalYAML
         \<lparr>OAuthFlow.AuthorizationURL = authorizationURL, OAuthFlow.TokenURL = tokenURL,
          OAuthFlow.RefreshURL = '''', OAuthFlow.Scopes = scopes,
          OAuthFlow.Extensions = exts\<rparr>) =
      {''authorizationUrl'', ''tokenUrl'', ''scopes''} \<union> fst ` set exts)
   \<and> (\<forall>marshalOAuthFlow exts.
      fst ` set (OAuthFlows_MarshalYAML marshalOAuthFlow
         \<lparr>OAuthFlows.Implicit = None, OAuthFlows.Password = None,
          OAuthFlows.ClientCredentials = None, OAuthFlows.AuthorizationCode = None,
          OAuthFlows.Extensions = exts\<rparr>) =
      fst ` set exts)
   \<and> (\<forall>title version exts.
      fst ` set (Info_MarshalYAML
         \<lparr>Info.Title = title, Info.Description = '''', Info.TermsOfService = '''',
          Info.Contact = None, Info.License = None, Info.Version = version,
          Info.Extensions = exts\<rparr>) =
      {''title'', ''version''} \<union> fst ` set exts)
   \<and> (\<forall>marshalServer exts.
      fst ` set (Link_MarshalYAML marshalServer
         \<lparr>Link.Ref = '''', Link.OperationRef = '''', Link.OperationID = '''',
          Link.Parameters = [], Link.RequestBody = '''', Link.Description = '''',
          Link.Server = None, Link.Extensions = exts\<rparr>) =
      fst ` set exts)
   \<and> (\<forall>marshalDiscriminator marshalXML marshalExternalDocs marshalSchema marshalProperties
           marshalSchemas exts.
      fst ` set
          (Schema_MarshalYAML marshalDiscriminator marshalXML marshalExternalDocs marshalSchema
              marshalProperties marshalSchemas
         \<lparr>Schema.Ref = '''', Schema.Nullable = False, Schema.Discriminator = None,
          Schema.ReadOnly = False, Schema.WriteOnly = False, Schema.XML = None,
          Schema.ExternalDocs = None, Schema.Example = VNull, Schema.Deprecated = False,
          Schema.Extensions = exts, Schema.MultipleOf = VNull, Schema.Maximum = VNull,
          Schema.ExclusiveMaximum = False, Schema.Minimum = VNull,
          Schema.ExclusiveMinimum = False, Schema.MaxLength = VNull, Schema.MinLength = VNull,
          Schema.Pattern = '''', Schema.Items = None, Schema.MaxItems = VNull,
          Schema.MinItems = VNull, Schema.UniqueItems = False, Schema.MaxProperties = VNull,
          Schema.MinProperties = VNull, Schema.Required = [], Schema.Properties = [],
          Schema.AdditionalProperties = None, Schema.Enum = [], Schema.Type = '''',
          Schema.AllOf = [], Schema.AnyOf = [], Schema.OneOf = [], Schema.Not = None,
          Schema.Title = '''', Schema.Description = '''', Schema.Default = VNull,
          Schema.Format = ''''\<rparr>) =
      fst ` set exts)
   \<and> (\<forall>marshalSchema marshalExamples marshalContent exts.
      fst ` set (Header_MarshalYAML marshalSchema marshalExamples marshalContent
         \<lparr>Header.Ref = '''', Header.Description = '''', Header.Required = False,
          Header.Deprecated = False, Header.AllowEmptyValue = False, Header.Style = '''',
          Header.Explode = False, Header.AllowReserved = False, Header.Schema = None,
          Header.Example = VNull, Header.Examples = [], Header.Content = [],
          Header.Extensions = exts\<rparr>) =
      fst ` set exts)
   \<and> (\<forall>marshalSchema marshalExamples marshalContent exts name' in'.
      fst ` set (Parameter_MarshalYAML marshalSchema marshalExamples marshalContent
         \<lparr>Header.Ref = '''', Header.Description = '''', Header.Required = False,
          Header.Deprecated = False, Header.AllowEmptyValue = False, Header.Style = '''',
          Header.Explode = False, Header.AllowReserved = False, Header.Schema = None,
          Header.Example = VNull, Header.Examples = [], Header.Content = [],
          Header.Extensions = exts, Parameter.Name = name', Parameter.In = in'\<rparr>) =
      {''name'', ''in''} \<union> fst ` set exts)
   \<and> (\<forall>marshalHeaders exts.
      fst ` set (Encoding_MarshalYAML marshalHeaders
         \<lparr>Encoding.ContentType = '''', Encoding.Headers = [], Encoding.Style = '''',
          Encoding.Explode = False, Encoding.AllowReserved = False,
          Encoding.Extensions = exts\<rparr>) =
      fst ` set exts)
   \<and> (\<forall>marshalSchema marshalExamples marshalEncoding exts.
      fst ` set (MediaType_MarshalYAML marshalSchema marshalExamples marshalEncoding
         \<lparr>MediaType.Schema = None, MediaType.Example = VNull, MediaType.Examples = [],
          MediaType.Encoding = [], MediaType.Extensions = exts\<rparr>) =
      fst ` set exts)
   \<and> (\<forall>marshalContent content' exts.
      fst ` set (RequestBody_MarshalYAML marshalContent
         \<lparr>RequestBody.Ref = '''', RequestBody.Description = '''',
          RequestBody.Content = content', RequestBody.Required = False,
          RequestBody.Extensions = exts\<rparr>) =
      {''content''} \<union> fst ` set exts)
   \<and> (\<forall>marshalHeaders marshalContent marshalLinks description exts.
      fst ` set (Response_MarshalYAML marshalHeaders marshalContent marshalLinks
         \<lparr>Response.Ref = '''', Response.Description = description, Response.Headers = [],
          Response.Content = [], Response.Links = [], Response.Extensions = exts\<rparr>) =
      {''description''} \<union> fst ` set exts)
   \<and> (\<forall>marshalExternalDocs marshalParameters marshalRequestBody marshalResponses
           marshalCallbacks marshalSecurity marshalServers responses exts.
      fst ` set
          (Operation_MarshalYAML marshalExternalDocs marshalParameters marshalRequestBody
              marshalResponses marshalCallbacks marshalSecurity marshalServers
         \<lparr>Operation.Tags = [], Operation.Summary = '''', Operation.Description = '''',
          Operation.ExternalDocs = None, Operation.OperationID = '''', Operation.Parameters = [],
          Operation.RequestBody = None, Operation.Responses = responses,
          Operation.Callbacks = None, Operation.Deprecated = False, Operation.Security = [],
          Operation.Servers = None, Operation.Extensions = exts\<rparr>) =
      {''responses''} \<union> fst ` set exts)
   \<and> (\<forall>marshalOperation marshalServers marshalParameters exts.
      fst ` set (PathItem_MarshalYAML marshalOperation marshalServers marshalParameters
         \<lparr>PathItem.Ref = '''', PathItem.Summary = '''', PathItem.Description = '''',
          PathItem.Get = None, PathItem.Put = None, PathItem.Post = None, PathItem.Delete = None,
          PathItem.Options = None, PathItem.Head = None, PathItem.Patch = None,
          PathItem.Trace = None, PathItem.Servers = [], PathItem.Parameters = [],
          PathItem.Extensions = exts\<rparr>) =
      fst ` set exts)
   \<and> (\<forall>marshalPathItem exts.
      fst ` set (Paths_MarshalYAML marshalPathItem
         \<lparr>Paths.PathItems = [], Paths.Extensions = exts\<rparr>) =
      fst ` set exts)
   \<and> (\<forall>marshalPathItem exts.
      fst ` set (Callback_MarshalYAML marshalPathItem
         \<lparr>Callback.Ref = '''', Callback.CallbackItems = [],
          Callback.Extensions = exts\<rparr>) =
      fst ` set exts)
   \<and> (\<forall>marshalSchemas marshalResponses marshalParameters marshalExamples
           marshalRequestBodies marshalHeaders marshalSecuritySchemes marshalLinks marshalCallbacks
               exts.
      fst ` set
          (Components_MarshalYAML marshalSchemas marshalResponses marshalParameters marshalExamples
              marshalRequestBodies marshalHeaders marshalSecuritySchemes marshalLinks
                  marshalCallbacks
         \<lparr>Components.Schemas = [], Components.Responses = [], Components.Parameters = [],
          Components.Examples = [], Components.RequestBodies = [], Components.Headers = [],
          Components.SecuritySchemes = [], Components.Links = [], Components.Callbacks = [],
          Components.Extensions = exts\<rparr>) =
      fst ` set exts)
   \<and> (\<forall>marshalInfo marshalServers marshalPaths marshalComponents marshalSecurity
           marshalTags marshalExternalDocs openapi info' paths' exts.
      fst ` set
          (OpenAPI_MarshalYAML marshalInfo marshalServers marshalPaths marshalComponents
              marshalSecurity marshalTags marshalExternalDocs
         \<lparr>OpenAPI.OpenAPI = openapi, OpenAPI.Info = info', OpenAPI.Servers = [],
          OpenAPI.Paths = paths', OpenAPI.Components = None, OpenAPI.Security = [],
          OpenAPI.Tags = [], OpenAPI.ExternalDocs = None, OpenAPI.Extensions = exts\<rparr>) =
      {''openapi'', ''info'', ''paths''} \<union> fst ` set exts)"
  by (intro conjI allI
      Contact_omission License_omission ExternalDocumentation_omission
      ServerVariable_omission Server_omission XML_omission Discriminator_omission
      Tag_omission Example_omission OAuthFlow_omission OAuthFlows_omission Info_omission
      Link_omission Schema_omission Header_omission Parameter_omission Encoding_omission
      MediaType_omission RequestBody_omission Response_omission Operation_omission
      PathItem_omission Paths_omission Callback_omission Components_omission
      OpenAPI_omission)

text \<open>
  Claim C3. An empty map or sequence is to be left out of the encoding. The encoder of
  Operation tests its fields Callbacks and Servers against nil, where the encoders of
  PathItem, Components and OpenAPI test the length of the same fields: an Operation whose
  fields are all empty, with Callbacks an empty map that is not nil, is encoded with the
  key callbacks besides responses, and one with Servers an empty slice that is not nil
  with the key servers.
\<close>

theorem empty_callbacks_are_emitted:
  "fst ` set (Operation_MarshalYAML (\<lambda>_. VNull) (\<lambda>_. VNull) (\<lambda>_. VNull) (\<lambda>_. VNull)
      (\<lambda>_. VNull) (\<lambda>_. VNull) (\<lambda>_. VNull)
      ((Operation_zero :: (unit, unit, unit, unit, unit) Operation)
         \<lparr>Operation.Callbacks := Some []\<rparr>)) =
     {''responses'', ''callbacks''}
   \<and> fst ` set (Operation_MarshalYAML (\<lambda>_. VNull) (\<lambda>_. VNull) (\<lambda>_. VNull) (\<lambda>_. VNull)
      (\<lambda>_. VNull) (\<lambda>_. VNull) (\<lambda>_. VNull)
      ((Operation_zero :: (unit, unit, unit, unit, unit) Operation)
         \<lparr>Operation.Servers := Some []\<rparr>)) =
     {''responses'', ''servers''}"
  by (auto simp: Operation_MarshalYAML_def Operation_zero_def build_def)

section \<open>Scalars of the wrong type\<close>

text \<open>
  Claim C5, as amended. For every decoder other than that of Callback and every field of
  it that is a string or a bool: when the key of the field holds a value of another type,
  the decoder runs as it runs on the map without that key (the value causes no error of
  its own), and a successful run leaves the field as the receiver had it, empty for a
  fresh receiver. The decoders of the entities without structured children (Contact,
  License, ExternalDocumentation, ServerVariable, XML, Discriminator and Example) return
  for every map. A decoder with structured children returns an error exactly when it does
  so on the map without the key, that is when a child is malformed. The decoder of
  Callback reads every key of its map, the key of its one string field among them, a
  second time as a callback item; for it the statement is only that a successful run
  leaves the field as the receiver had it.
\<close>

theorem mismatched_scalar_is_ignored:
  "(keeps_mismatched_strings Contact_UnmarshalYAML Contact_string_fields)
   \<and> (ignores_mismatched_strings Contact_UnmarshalYAML Contact_string_fields)
   \<and> (always_returns Contact_UnmarshalYAML)
   \<and> (keeps_mismatched_strings License_UnmarshalYAML License_string_fields)
   \<and> (ignores_mismatched_strings License_UnmarshalYAML License_string_fields)
   \<and> (always_returns License_UnmarshalYAML)
   \<and> (keeps_mismatched_strings ExternalDocumentation_UnmarshalYAML
           ExternalDocumentation_string_fields)
   \<and> (ignores_mismatched_strings ExternalDocumentation_UnmarshalYAML
           ExternalDocumentation_string_fields)
   \<and> (always_returns ExternalDocumentation_UnmarshalYAML)
   \<and> (keeps_mismatched_strings ServerVariable_UnmarshalYAML ServerVariable_string_fields)
   \<and> (ignores_mismatched_strings ServerVariable_UnmarshalYAML ServerVariable_string_fields)
   \<and> (always_returns ServerVariable_UnmarshalYAML)
   \<and> (\<forall>unmarshalVariables. keeps_mismatched_strings
           (Server_UnmarshalYAML unmarshalVariables) Server_string_fields)
   \<and> (\<forall>unmarshalVariables. ignores_mismatched_strings
           (Server_UnmarshalYAML unmarshalVariables) Server_string_fields)
   \<and> (keeps_mismatched_strings XML_UnmarshalYAML XML_string_fields)
   \<and> (ignores_mismatched_strings XML_UnmarshalYAML XML_string_fields)
   \<and> (keeps_mismatched_bools XML_UnmarshalYAML XML_bool_fields)
   \<and> (ignores_mismatched_bools XML_UnmarshalYAML XML_bool_fields)
   \<and> (always_returns XML_UnmarshalYAML)
   \<and> (keeps_mismatched_strings Discriminator_UnmarshalYAML Discriminator_string_fields)
   \<and> (ignores_mismatched_strings Discriminator_UnmarshalYAML Discriminator_string_fields)
   \<and> (always_returns Discriminator_UnmarshalYAML)
   \<and> (\<forall>unmarshalExternalDocs. keeps_mismatched_strings
           (Tag_UnmarshalYAML unmarshalExternalDocs) Tag_string_fields)
   \<and> (\<forall>unmarshalExternalDocs. ignores_mismatched_strings
           (Tag_UnmarshalYAML unmarshalExternalDocs) Tag_string_fields)
   \<and> (keeps_mismatched_strings Example_UnmarshalYAML Example_string_fields)
   \<and> (ignores_mismatched_strings Example_UnmarshalYAML Example_string_fields)
   \<and> (always_returns Example_UnmarshalYAML)
   \<and> (\<forall>unmarshalScopes. keeps_mismatched_strings (OAuthFlow_UnmarshalYAML unmarshalScopes)
           OAuthFlow_string_fields)
   \<and> (\<forall>unmarshalScopes. ignores_mismatched_strings
           (OAuthFlow_UnmarshalYAML unmarshalScopes) OAuthFlow_string_fields)
   \<and> (\<forall>unmarshalContact unmarshalLicense. keeps_mismatched_strings
           (Info_UnmarshalYAML unmarshalContact unmarshalLicense) Info_string_fields)
   \<and> (\<forall>unmarshalContact unmarshalLicense. ignores_mismatched_strings
           (Info_UnmarshalYAML unmarshalContact unmarshalLicense) Info_string_fields)
   \<and> (\<forall>unmarshalParameters unmarshalServer. keeps_mismatched_strings
           (Link_UnmarshalYAML unmarshalParameters unmarshalServer) Link_string_fields)
   \<and> (\<forall>unmarshalParameters unmarshalServer. ignores_mismatched_strings
           (Link_UnmarshalYAML unmarshalParameters unmarshalServer) Link_string_fields)
   \<and> (\<forall>unmarshalDiscriminator unmarshalXML unmarshalExternalDocs unmarshalSchema
           unmarshalProperties unmarshalSchemas. keeps_mismatched_strings
               (Schema_UnmarshalYAML unmarshalDiscriminator unmarshalXML unmarshalExternalDocs
                   unmarshalSchema unmarshalProperties unmarshalSchemas) Schema_string_fields)
   \<and> (\<forall>unmarshalDiscriminator unmarshalXML unmarshalExternalDocs unmarshalSchema
           unmarshalProperties unmarshalSchemas. ignores_mismatched_strings
               (Schema_UnmarshalYAML unmarshalDiscriminator unmarshalXML unmarshalExternalDocs
                   unmarshalSchema unmarshalProperties unmarshalSchemas) Schema_string_fields)
   \<and> (\<forall>unmarshalDiscriminator unmarshalXML unmarshalExternalDocs unmarshalSchema
           unmarshalProperties unmarshalSchemas. keeps_mismatched_bools
               (Schema_UnmarshalYAML unmarshalDiscriminator unmarshalXML unmarshalExternalDocs
                   unmarshalSchema unmarshalProperties unmarshalSchemas) Schema_bool_fields)
   \<and> (\<forall>unmarshalDiscriminator unmarshalXML unmarshalExternalDocs unmarshalSchema
           unmarshalProperties unmarshalSchemas. ignores_mismatched_bools
               (Schema_UnmarshalYAML unmarshalDiscriminator unmarshalXML unmarshalExternalDocs
                   unmarshalSchema unmarshalProperties unmarshalSchemas) Schema_bool_fields)
   \<and> (\<forall>unmarshalSchema unmarshalExamples unmarshalContent. keeps_mismatched_strings
           (Header_UnmarshalYAML unmarshalSchema unmarshalExamples unmarshalContent)
               Header_string_fields)
   \<and> (\<forall>unmarshalSchema unmarshalExamples unmarshalContent. ignores_mismatched_strings
           (Header_UnmarshalYAML unmarshalSchema unmarshalExamples unmarshalContent)
               Header_string_fields)
   \<and> (\<forall>unmarshalSchema unmarshalExamples unmarshalContent. keeps_mismatched_bools
           (Header_UnmarshalYAML unmarshalSchema unmarshalExamples unmarshalContent)
               Header_bool_fields)
   \<and> (\<forall>unmarshalSchema unmarshalExamples unmarshalContent. ignores_mismatched_bools
           (Header_UnmarshalYAML unmarshalSchema unmarshalExamples unmarshalContent)
               Header_bool_fields)
   \<and> (\<forall>unmarshalSchema unmarshalExamples unmarshalContent. keeps_mismatched_strings
           (Parameter_UnmarshalYAML unmarshalSchema unmarshalExamples unmarshalContent)
               Parameter_string_fields)
   \<and> (\<forall>unmarshalSchema unmarshalExamples unmarshalContent. ignores_mismatched_strings
           (Parameter_UnmarshalYAML unmarshalSchema unmarshalExamples unmarshalContent)
               Parameter_string_fields)
   \<and> (\<forall>unmarshalSchema unmarshalExamples unmarshalContent. keeps_mismatched_bools
           (Parameter_UnmarshalYAML unmarshalSchema unmarshalExamples unmarshalContent)
               Parameter_bool_fields)
   \<and> (\<forall>unmarshalSchema unmarshalExamples unmarshalContent. ignores_mismatched_bools
           (Parameter_UnmarshalYAML unmarshalSchema unmarshalExamples unmarshalContent)
               Parameter_bool_fields)
   \<and> (\<forall>unmarshalHeaders. keeps_mismatched_strings
           (Encoding_UnmarshalYAML unmarshalHeaders) Encoding_string_fields)
   \<and> (\<forall>unmarshalHeaders. ignores_mismatched_strings
           (Encoding_UnmarshalYAML unmarshalHeaders) Encoding_string_fields)
   \<and> (\<forall>unmarshalHeaders. keeps_mismatched_bools (Encoding_UnmarshalYAML unmarshalHeaders)
           Encoding_bool_fields)
   \<and> (\<forall>unmarshalHeaders. ignores_mismatched_bools
           (Encoding_UnmarshalYAML unmarshalHeaders) Encoding_bool_fields)
   \<and> (\<forall>unmarshalContent. keeps_mismatched_strings
           (RequestBody_UnmarshalYAML unmarshalContent) RequestBody_string_fields)
   \<and> (\<forall>unmarshalContent. ignores_mismatched_strings
           (RequestBody_UnmarshalYAML unmarshalContent) RequestBody_string_fields)
   \<and> (\<forall>unmarshalContent. keeps_mismatched_bools
           (RequestBody_UnmarshalYAML unmarshalContent) RequestBody_bool_fields)
   \<and> (\<forall>unmarshalContent. ignores_mismatched_bools
           (RequestBody_UnmarshalYAML unmarshalContent) RequestBody_bool_fields)
   \<and> (\<forall>unmarshalHeaders unmarshalContent unmarshalLinks. keeps_mismatched_strings
           (Response_UnmarshalYAML unmarshalHeaders unmarshalContent unmarshalLinks)
               Response_string_fields)
   \<and> (\<forall>unmarshalHeaders unmarshalContent unmarshalLinks. ignores_mismatched_strings
           (Response_UnmarshalYAML unmarshalHeaders unmarshalContent unmarshalLinks)
               Response_string_fields)
   \<and> (\<forall>unmarshalExternalDocs unmarshalParameters unmarshalRequestBody unmarshalResponses
           unmarshalCallbacks unmarshalSecurity unmarshalServers. keeps_mismatched_strings
               (Operation_UnmarshalYAML unmarshalExternalDocs unmarshalParameters
                   unmarshalRequestBody unmarshalResponses unmarshalCallbacks unmarshalSecurity
                       unmarshalServers) Operation_string_fields)
   \<and> (\<forall>unmarshalExternalDocs unmarshalParameters unmarshalRequestBody unmarshalResponses
           unmarshalCallbacks unmarshalSecurity unmarshalServers. ignores_mismatched_strings
               (Operation_UnmarshalYAML unmarshalExternalDocs unmarshalParameters
                   unmarshalRequestBody unmarshalResponses unmarshalCallbacks unmarshalSecurity
                       unmarshalServers) Operation_string_fields)
   \<and> (\<forall>unmarshalExternalDocs unmarshalParameters unmarshalRequestBody unmarshalResponses
           unmarshalCallbacks unmarshalSecurity unmarshalServers. keeps_mismatched_bools
               (Operation_UnmarshalYAML unmarshalExternalDocs unmarshalParameters
                   unmarshalRequestBody unmarshalResponses unmarshalCallbacks unmarshalSecurity
                       unmarshalServers) Operation_bool_fields)
   \<and> (\<forall>unmarshalExternalDocs unmarshalParameters unmarshalRequestBody unmarshalResponses
           unmarshalCallbacks unmarshalSecurity unmarshalServers. ignores_mismatched_bools
               (Operation_UnmarshalYAML unmarshalExternalDocs unmarshalParameters
                   unmarshalRequestBody unmarshalResponses unmarshalCallbacks unmarshalSecurity
                       unmarshalServers) Operation_bool_fields)
   \<and> (\<forall>unmarshalOperation unmarshalServers unmarshalParameters. keeps_mismatched_strings
           (PathItem_UnmarshalYAML unmarshalOperation unmarshalServers unmarshalParameters)
               PathItem_string_fields)
   \<and> (\<forall>unmarshalOperation unmarshalServers unmarshalParameters. ignores_mismatched_strings
           (PathItem_UnmarshalYAML unmarshalOperation unmarshalServers unmarshalParameters)
               PathItem_string_fields)
   \<and> (\<forall>unmarshalPathItem. keeps_mismatched_strings
           (Callback_UnmarshalYAML unmarshalPathItem) Callback_string_fields)
   \<and> (\<forall>unmarshalInfo unmarshalServers unmarshalPaths unmarshalComponents unmarshalSecurity
           unmarshalTags unmarshalExternalDocs. keeps_mismatched_strings
               (OpenAPI_UnmarshalYAML unmarshalInfo unmarshalServers unmarshalPaths
                   unmarshalComponents unmarshalSecurity unmarshalTags unmarshalExternalDocs)
                       OpenAPI_string_fields)
   \<and> (\<forall>unmarshalInfo unmarshalServers unmarshalPaths unmarshalComponents unmarshalSecurity
           unmarshalTags unmarshalExternalDocs. ignores_mismatched_strings
               (OpenAPI_UnmarshalYAML unmarshalInfo unmarshalServers unmarshalPaths
                   unmarshalComponents unmarshalSecurity unmarshalTags unmarshalExternalDocs)
                       OpenAPI_string_fields)"
  by (intro conjI allI
      Contact_keeps_strings Contact_ignores_strings Contact_returns
      License_keeps_strings License_ignores_strings License_returns
      ExternalDocumentation_keeps_strings ExternalDocumentation_ignores_strings
      ExternalDocumentation_returns ServerVariable_keeps_strings
      ServerVariable_ignores_strings ServerVariable_returns Server_keeps_strings
      Server_ignores_strings XML_keeps_strings XML_ignores_strings XML_keeps_bools
      XML_ignores_bools XML_returns Discriminator_keeps_strings
      Discriminator_ignores_strings Discriminator_returns Tag_keeps_strings
      Tag_ignores_strings Example_keeps_strings Example_ignores_strings Example_returns
      OAuthFlow_keeps_strings OAuthFlow_ignores_strings Info_keeps_strings
      Info_ignores_strings Link_keeps_strings Link_ignores_strings Schema_keeps_strings
      Schema_ignores_strings Schema_keeps_bools Schema_ignores_bools
      Header_keeps_strings Header_ignores_strings Header_keeps_bools
      Header_ignores_bools Parameter_keeps_strings Parameter_ignores_strings
      Parameter_keeps_bools Parameter_ignores_bools Encoding_keeps_strings
      Encoding_ignores_strings Encoding_keeps_bools Encoding_ignores_bools
      RequestBody_keeps_strings RequestBody_ignores_strings RequestBody_keeps_bools
      RequestBody_ignores_bools Response_keeps_strings Response_ignores_strings
      Operation_keeps_strings Operation_ignores_strings Operation_keeps_bools
      Operation_ignores_bools PathItem_keeps_strings PathItem_ignores_strings
      Callback_keeps_strings OpenAPI_keeps_strings OpenAPI_ignores_strings)

text \<open>
  A schema given with \<^verbatim>\<open>type: 5\<close> and \<^verbatim>\<open>title: Pet\<close> is decoded with the title and
  without a type.
\<close>

theorem mismatched_scalar_is_ignored_witness:
  "map_of [(''type'', VInt 5), (''title'', VString ''Pet'')] ''type'' = Some (VInt 5)
   \<and> Schema_UnmarshalYAML (\<lambda>_. Inl TypeError) (\<lambda>_. Inl TypeError) (\<lambda>_. Inl TypeError)
        (\<lambda>_. Inl TypeError) (\<lambda>_. Inl TypeError) (\<lambda>_. Inl TypeError)
        (Schema_zero :: unit Schema) [(''type'', VInt 5), (''title'', VString ''Pet'')] =
       Inr (Schema_zero\<lparr>Schema.Title := ''Pet''\<rparr>)
   \<and> Schema.Type ((Schema_zero :: unit Schema)\<lparr>Schema.Title := ''Pet''\<rparr>) = []"
proof -
  let ?obj = "[(''type'', VInt 5), (''title'', VString ''Pet'')]"
  let ?dec = "Schema_UnmarshalYAML (\<lambda>_. Inl TypeError) (\<lambda>_. Inl TypeError) (\<lambda>_. Inl TypeError)
        (\<lambda>_. Inl TypeError) (\<lambda>_. Inl TypeError) (\<lambda>_. Inl TypeError)
      :: unit Schema \<Rightarrow> obj \<Rightarrow> error + unit Schema"
  have present: "map_of ?obj ''type'' = Some (VInt 5)"
    by simp
  have run: "?dec Schema_zero ?obj = Inr (Schema_zero\<lparr>Schema.Title := ''Pet''\<rparr>)"
    by (simp add: Schema_UnmarshalYAML_def decoder_steps extension_keys)
  have "keeps_mismatched_strings ?dec Schema_string_fields"
    by (rule mismatched_scalar_is_ignored
        [THEN conjunct2, THEN conjunct2, THEN conjunct2, THEN conjunct2, THEN conjunct2, THEN conjunct2, THEN conjunct2, THEN conjunct2, THEN conjunct2, THEN conjunct2, THEN conjunct2, THEN conjunct2, THEN conjunct2, THEN conjunct2, THEN conjunct2, THEN conjunct2, THEN conjunct2, THEN conjunct2, THEN conjunct2, THEN conjunct2, THEN conjunct2, THEN conjunct2, THEN conjunct2, THEN conjunct2, THEN conjunct2, THEN conjunct2, THEN conjunct2, THEN conjunct2, THEN conjunct2, THEN conjunct2, THEN conjunct2, THEN conjunct2, THEN conjunct2, THEN conjunct1, rule_format])
  then have "Schema.Type (Schema_zero\<lparr>Schema.Title := ''Pet''\<rparr> :: unit Schema) =
      Schema.Type (Schema_zero :: unit Schema)"
    using present run
    unfolding keeps_mismatched_strings_def Schema_string_fields_def
    by (auto simp del: map_of.simps)
  with present run show ?thesis
    by (simp add: Schema_zero_def)
qed

text \<open>
  The decoder of \<^verbatim>\<open>Info\<close> on \<^verbatim>\<open>title: 5\<close> and \<^verbatim>\<open>contact: support\<close>: the title
  is of the wrong type, and the decoder returns an error, that of the contact.
\<close>

theorem malformed_child_fails_decoder:
  "map_of [(''title'', VInt 5), (''contact'', VString ''support'')] ''title'' = Some (VInt 5)
   \<and> Info_UnmarshalYAML (yaml_into Contact_UnmarshalYAML Contact_zero)
        (yaml_into License_UnmarshalYAML License_zero) Info_zero
        [(''title'', VInt 5), (''contact'', VString ''support'')] = Inl TypeError"
  by (simp add: Info_UnmarshalYAML_def decoder_steps yaml_into_def unmarshal_obj_def)

section \<open>Arrays of strings\<close>



section \<open>Paths and callbacks\<close>

text \<open>
  What a successful run of the decoder of \<^verbatim>\<open>Paths\<close>, and likewise of
  \<^verbatim>\<open>Callback\<close>, returns: the entries of the map of path items are the keys whose
  lowercase form does not start with \<^verbatim>\<open>x-\<close>, each decoded as a path item; the entries
  of the bag are the keys whose lowercase form starts with \<^verbatim>\<open>x-\<close>, each normalized; no
  key is in both; each of the two collections replaces that of the receiver only when it
  is not empty.
\<close>

lemma successful_split:
  "(Paths_UnmarshalYAML unmarshalPathItem paths obj = Inr paths' \<longrightarrow>
      (\<exists>items. PathItems_UnmarshalYAML unmarshalPathItem [] obj = Inr items
         \<and> splits_map unmarshalPathItem obj items (Extensions_UnmarshalYAML [] obj)
         \<and> Paths.PathItems paths' = (if length items > 0 then items else Paths.PathItems paths)
         \<and> Paths.Extensions paths' =
             (if length (Extensions_UnmarshalYAML [] obj) > 0
              then Extensions_UnmarshalYAML [] obj else Paths.Extensions paths)))
   \<and> (Callback_UnmarshalYAML unmarshalPathItem callback obj = Inr callback' \<longrightarrow>
      (\<exists>items. CallbackItems_UnmarshalYAML unmarshalPathItem [] obj = Inr items
         \<and> splits_map unmarshalPathItem obj items (Extensions_UnmarshalYAML [] obj)
         \<and> Callback.CallbackItems callback' =
             (if length items > 0 then items else Callback.CallbackItems callback)
         \<and> Callback.Extensions callback' =
             (if length (Extensions_UnmarshalYAML [] obj) > 0
              then Extensions_UnmarshalYAML [] obj else Callback.Extensions callback)))"
proof (intro conjI impI)
  assume "Paths_UnmarshalYAML unmarshalPathItem paths obj = Inr paths'"
  then obtain items where items: "PathItems_UnmarshalYAML unmarshalPathItem [] obj = Inr items"
    and r': "paths' =
      (let r1 = (if length items > 0 then paths\<lparr>Paths.PathItems := items\<rparr> else paths);
           exts = Extensions_UnmarshalYAML [] obj
       in if length exts > 0 then r1\<lparr>Paths.Extensions := exts\<rparr> else r1)"
    by (rule Paths_UnmarshalYAML_Inr)
  have "splits_map unmarshalPathItem obj items (Extensions_UnmarshalYAML [] obj)"
    using items by (rule PathItems_split)
  moreover have "Paths.PathItems paths' = (if length items > 0 then items else Paths.PathItems paths)"
    by (simp add: r' Let_def)
  moreover have "Paths.Extensions paths' =
             (if length (Extensions_UnmarshalYAML [] obj) > 0
              then Extensions_UnmarshalYAML [] obj else Paths.Extensions paths)"
    by (simp add: r' Let_def)
  ultimately show "\<exists>items. PathItems_UnmarshalYAML unmarshalPathItem [] obj = Inr items
         \<and> splits_map unmarshalPathItem obj items (Extensions_UnmarshalYAML [] obj)
         \<and> Paths.PathItems paths' = (if length items > 0 then items else Paths.PathItems paths)
         \<and> Paths.Extensions paths' =
             (if length (Extensions_UnmarshalYAML [] obj) > 0
              then Extensions_UnmarshalYAML [] obj else Paths.Extensions paths)"
    using items by blast
next
  assume "Callback_UnmarshalYAML unmarshalPathItem callback obj = Inr callback'"
  then obtain items r0 where items: "CallbackItems_UnmarshalYAML unmarshalPathItem [] obj = Inr items"
    and r0: "string_field obj ''$ref'' (\<lambda>value r. r\<lparr>Callback.Ref := value\<rparr>) callback = Inr r0"
    and r': "callback' =
      (let r1 = (if length items > 0 then r0\<lparr>Callback.CallbackItems := items\<rparr> else r0);
           exts = Extensions_UnmarshalYAML [] obj
       in if length exts > 0 then r1\<lparr>Callback.Extensions := exts\<rparr> else r1)"
    by (rule Callback_UnmarshalYAML_Inr)
  have keep1: "Callback.CallbackItems r0 = Callback.CallbackItems callback"
    using r0 by (rule string_field_other) simp
  have keep2: "Callback.Extensions r0 = Callback.Extensions callback"
    using r0 by (rule string_field_other) simp
  have "splits_map unmarshalPathItem obj items (Extensions_UnmarshalYAML [] obj)"
    using items by (rule CallbackItems_split)
  moreover have "Callback.CallbackItems callback' =
             (if length items > 0 then items else Callback.CallbackItems callback)"
    by (simp add: r' Let_def keep1)
  moreover have "Callback.Extensions callback' =
             (if length (Extensions_UnmarshalYAML [] obj) > 0
              then Extensions_UnmarshalYAML [] obj else Callback.Extensions callback)"
    by (simp add: r' Let_def keep2)
  ultimately show "\<exists>items. CallbackItems_UnmarshalYAML unmarshalPathItem [] obj = Inr items
         \<and> splits_map unmarshalPathItem obj items (Extensions_UnmarshalYAML [] obj)
         \<and> Callback.CallbackItems callback' =
             (if length items > 0 then items else Callback.CallbackItems callback)
         \<and> Callback.Extensions callback' =
             (if length (Extensions_UnmarshalYAML [] obj) > 0
              then Extensions_UnmarshalYAML [] obj else Callback.Extensions callback)"
    using items by blast
qed

text \<open>
  A map with a path and an extension whose value is itself a map.
\<close>

lemma successful_split_scenario:
  "Paths_UnmarshalYAML
     (yaml_into_ptr (PathItem_UnmarshalYAML (\<lambda>_. Inl TypeError) (\<lambda>_. Inl TypeError)
        (\<lambda>_. Inl TypeError)) (PathItem_zero :: (unit, unit) PathItem))
     Paths_zero
     [(''/pets'', VMapI [(VString ''summary'', VString ''Pets'')]),
      (''x-unit'', VMapI [(VString ''unit'', VString ''test'')])] =
   Inr \<lparr>Paths.PathItems = [(''/pets'', Some (PathItem_zero\<lparr>PathItem.Summary := ''Pets''\<rparr>))],
        Paths.Extensions = [(''x-unit'', VMapS [(''unit'', VString ''test'')])]\<rparr>
   \<and> splits_map
       (yaml_into_ptr (PathItem_UnmarshalYAML (\<lambda>_. Inl TypeError) (\<lambda>_. Inl TypeError)
          (\<lambda>_. Inl TypeError)) (PathItem_zero :: (unit, unit) PathItem))
       [(''/pets'', VMapI [(VString ''summary'', VString ''Pets'')]),
        (''x-unit'', VMapI [(VString ''unit'', VString ''test'')])]
       [(''/pets'', Some (PathItem_zero\<lparr>PathItem.Summary := ''Pets''\<rparr>))]
       [(''x-unit'', VMapS [(''unit'', VString ''test'')])]
   \<and> Callback_UnmarshalYAML
     (yaml_into_ptr (PathItem_UnmarshalYAML (\<lambda>_. Inl TypeError) (\<lambda>_. Inl TypeError)
        (\<lambda>_. Inl TypeError)) (PathItem_zero :: (unit, unit) PathItem))
     Callback_zero
     [(''{$request.body#/url}'', VMapI [(VString ''summary'', VString ''Hook'')]),
      (''x-unit'', VMapI [(VString ''unit'', VString ''test'')])] =
   Inr \<lparr>Callback.Ref = [],
        Callback.CallbackItems =
          [(''{$request.body#/url}'', Some (PathItem_zero\<lparr>PathItem.Summary := ''Hook''\<rparr>))],
        Callback.Extensions = [(''x-unit'', VMapS [(''unit'', VString ''test'')])]\<rparr>"
proof -
  let ?u = "yaml_into_ptr (PathItem_UnmarshalYAML (\<lambda>_. Inl TypeError) (\<lambda>_. Inl TypeError)
        (\<lambda>_. Inl TypeError)) (PathItem_zero :: (unit, unit) PathItem)"
  let ?obj = "[(''/pets'', VMapI [(VString ''summary'', VString ''Pets'')]),
      (''x-unit'', VMapI [(VString ''unit'', VString ''test'')])]"
  let ?obj' = "[(''{$request.body#/url}'', VMapI [(VString ''summary'', VString ''Hook'')]),
      (''x-unit'', VMapI [(VString ''unit'', VString ''test'')])]"
  have item: "?u (VMapI [(VString ''summary'', VString s)]) =
      Inr (Some (PathItem_zero\<lparr>PathItem.Summary := s\<rparr>))" for s
    by (simp add: yaml_into_ptr_def yaml_into_def unmarshal_obj_def PathItem_UnmarshalYAML_def
        decoder_steps extension_keys)
  have unit: "?u (VMapI [(VString ''unit'', VString ''test'')]) = Inr (Some PathItem_zero)"
    by (simp add: yaml_into_ptr_def yaml_into_def unmarshal_obj_def PathItem_UnmarshalYAML_def
        decoder_steps extension_keys)
  have exts: "Extensions_UnmarshalYAML [] ?obj = [(''x-unit'', VMapS [(''unit'', VString ''test'')])]"
    "Extensions_UnmarshalYAML [] ?obj' = [(''x-unit'', VMapS [(''unit'', VString ''test'')])]"
    by (simp_all add: extension_keys)
  have items: "PathItems_UnmarshalYAML ?u [] ?obj =
      Inr [(''/pets'', Some (PathItem_zero\<lparr>PathItem.Summary := ''Pets''\<rparr>))]"
    by (simp add: PathItems_UnmarshalYAML_def item unit HasPrefix_def ToLower_def to_lower_def)
  have items': "CallbackItems_UnmarshalYAML ?u [] ?obj' =
      Inr [(''{$request.body#/url}'', Some (PathItem_zero\<lparr>PathItem.Summary := ''Hook''\<rparr>))]"
    by (simp add: CallbackItems_UnmarshalYAML_def item unit HasPrefix_def ToLower_def to_lower_def)
  have paths: "Paths_UnmarshalYAML ?u Paths_zero ?obj =
      Inr \<lparr>Paths.PathItems = [(''/pets'', Some (PathItem_zero\<lparr>PathItem.Summary := ''Pets''\<rparr>))],
        Paths.Extensions = [(''x-unit'', VMapS [(''unit'', VString ''test'')])]\<rparr>"
    by (simp add: Paths_UnmarshalYAML_def items_field_def extensions_field_def items exts
        Paths_zero_def)
  have callback: "Callback_UnmarshalYAML ?u Callback_zero ?obj' =
      Inr \<lparr>Callback.Ref = [],
        Callback.CallbackItems =
          [(''{$request.body#/url}'', Some (PathItem_zero\<lparr>PathItem.Summary := ''Hook''\<rparr>))],
        Callback.Extensions = [(''x-unit'', VMapS [(''unit'', VString ''test'')])]\<rparr>"
    by (simp add: Callback_UnmarshalYAML_def items_field_def extensions_field_def string_field_def
        items' exts Callback_zero_def)
  from successful_split [THEN conjunct1, rule_format, OF paths]
  have "splits_map ?u ?obj [(''/pets'', Some (PathItem_zero\<lparr>PathItem.Summary := ''Pets''\<rparr>))]
      [(''x-unit'', VMapS [(''unit'', VString ''test'')])]"
    by (simp add: items exts)
  with paths callback show ?thesis
    by simp
qed

text \<open>
  Claim C7. Every key whose lowercase form starts with x- is to go into the bag of the
  decoded Paths. The decoder of PathItems decodes every value of the flat map as a path
  item before it looks at the keys, and the decoder of Paths returns its error before the
  bag is decoded: for the map with the path /pets and the entry x-internal: true, whose
  bag would hold x-internal: true, the decoder of Paths returns an error, where it decodes
  the same map without the entry. It returns the same error for the encoding of a Paths
  whose bag holds x-internal: true, which the encoder writes as it is.
\<close>

theorem Paths_scalar_extension_is_error:
  "Extensions_UnmarshalYAML []
     [(''/pets'', VMapI [(VString ''summary'', VString ''Pets'')]), (''x-internal'', VBool True)] =
     [(''x-internal'', VBool True)]
   \<and> Paths_UnmarshalYAML
       (yaml_into_ptr (PathItem_UnmarshalYAML unmarshalOperation unmarshalServers
          unmarshalParameters) PathItem_zero)
       Paths_zero
       [(''/pets'', VMapI [(VString ''summary'', VString ''Pets'')]), (''x-internal'', VBool True)] =
     Inl TypeError
   \<and> Paths_UnmarshalYAML
       (yaml_into_ptr (PathItem_UnmarshalYAML unmarshalOperation unmarshalServers
          unmarshalParameters) PathItem_zero)
       Paths_zero
       [(''/pets'', VMapI [(VString ''summary'', VString ''Pets'')])] =
     Inr (Paths_zero\<lparr>Paths.PathItems :=
        [(''/pets'', Some (PathItem_zero\<lparr>PathItem.Summary := ''Pets''\<rparr>))]\<rparr>)
   \<and> Paths_UnmarshalYAML
       (yaml_into_ptr (PathItem_UnmarshalYAML unmarshalOperation unmarshalServers
          unmarshalParameters) PathItem_zero)
       Paths_zero
       (reload_obj (Paths_MarshalYAML marshalPathItem
          (Paths_zero\<lparr>Paths.Extensions := [(''x-internal'', VBool True)]\<rparr>))) =
     Inl TypeError"
proof -
  let ?u = "yaml_into_ptr (PathItem_UnmarshalYAML unmarshalOperation unmarshalServers
          unmarshalParameters) PathItem_zero"
  have item: "?u (VMapI [(VString ''summary'', VString ''Pets'')]) =
      Inr (Some (PathItem_zero\<lparr>PathItem.Summary := ''Pets''\<rparr>))"
    by (simp add: yaml_into_ptr_def yaml_into_def unmarshal_obj_def PathItem_UnmarshalYAML_def
        decoder_steps extension_keys)
  have scalar: "?u (VBool True) = Inl TypeError"
    by (simp add: yaml_into_ptr_def yaml_into_def unmarshal_obj_def)
  have "Extensions_UnmarshalYAML []
     [(''/pets'', VMapI [(VString ''summary'', VString ''Pets'')]), (''x-internal'', VBool True)] =
     [(''x-internal'', VBool True)]"
    by (simp add: extension_keys cleanupMapValue.simps)
  moreover have "Paths_UnmarshalYAML ?u Paths_zero
       [(''/pets'', VMapI [(VString ''summary'', VString ''Pets'')]), (''x-internal'', VBool True)] =
     Inl TypeError"
    by (simp add: Paths_UnmarshalYAML_def items_field_def PathItems_UnmarshalYAML_def item scalar)
  moreover have "Paths_UnmarshalYAML ?u Paths_zero
       [(''/pets'', VMapI [(VString ''summary'', VString ''Pets'')])] =
     Inr (Paths_zero\<lparr>Paths.PathItems :=
        [(''/pets'', Some (PathItem_zero\<lparr>PathItem.Summary := ''Pets''\<rparr>))]\<rparr>)"
    by (simp add: Paths_UnmarshalYAML_def items_field_def extensions_field_def
        PathItems_UnmarshalYAML_def item extension_keys Paths_zero_def)
  moreover have "Paths_UnmarshalYAML ?u Paths_zero
       (reload_obj (Paths_MarshalYAML marshalPathItem
          (Paths_zero\<lparr>Paths.Extensions := [(''x-internal'', VBool True)]\<rparr>))) =
     Inl TypeError"
    by (simp add: Paths_UnmarshalYAML_def items_field_def PathItems_UnmarshalYAML_def scalar
        Paths_MarshalYAML_def Paths_zero_def build_def put_range_def reload_obj_def)
  ultimately show ?thesis
    by blast
qed

section \<open>The bag in the encoders\<close>

text \<open>
  Claim C10, as amended. The encoder of an entity copies every entry of the bag, whatever
  its key, into the map it returns, over the entries of the typed fields written before;
  the encoder of every entity other than Schema writes all its fields before, so that the
  encoding is the encoding without the bag overridden by the bag. The encoder of Schema
  copies the bag after deprecated and before multipleOf and the fields that follow, up to
  format: there an entry of the bag is kept unless its key is the key of one of those
  later fields and that field is set. Only the encoder of Extensions itself drops the keys
  without the prefix x-, and the decoder of the bag keeps the keys with the prefix only.
\<close>

theorem extension_bag_is_copied:
  "(\<forall>r.
      map_of (Contact_MarshalYAML r) =
        map_of (Contact_MarshalYAML (r\<lparr>Contact.Extensions := []\<rparr>)) ++
        map_of (Contact.Extensions r))
   \<and> (\<forall>r.
      map_of (License_MarshalYAML r) =
        map_of (License_MarshalYAML (r\<lparr>License.Extensions := []\<rparr>)) ++
        map_of (License.Extensions r))
   \<and> (\<forall>r.
      map_of (ExternalDocumentation_MarshalYAML r) =
        map_of (ExternalDocumentation_MarshalYAML (r\<lparr>ExternalDocumentation.Extensions :=
            []\<rparr>)) ++
        map_of (ExternalDocumentation.Extensions r))
   \<and> (\<forall>r.
      map_of (ServerVariable_MarshalYAML r) =
        map_of (ServerVariable_MarshalYAML (r\<lparr>ServerVariable.Extensions := []\<rparr>)) ++
        map_of (ServerVariable.Extensions r))
   \<and> (\<forall>marshalVariables r.
      map_of (Server_MarshalYAML marshalVariables r) =
        map_of (Server_MarshalYAML marshalVariables (r\<lparr>Server.Extensions := []\<rparr>)) ++
        map_of (Server.Extensions r))
   \<and> (\<forall>r.
      map_of (XML_MarshalYAML r) =
        map_of (XML_MarshalYAML (r\<lparr>XML.Extensions := []\<rparr>)) ++
        map_of (XML.Extensions r))
   \<and> (\<forall>r.
      map_of (Tag_MarshalYAML r) =
        map_of (Tag_MarshalYAML (r\<lparr>Tag.Extensions := []\<rparr>)) ++
        map_of (Tag.Extensions r))
   \<and> (\<forall>r.
      map_of (Example_MarshalYAML r) =
        map_of (Example_MarshalYAML (r\<lparr>Example.Extensions := []\<rparr>)) ++
        map_of (Example.Extensions r))
   \<and> (\<forall>r.
      map_of (OAuthFlow_MarshalYAML r) =
        map_of (OAuthFlow_MarshalYAML (r\<lparr>OAuthFlow.Extensions := []\<rparr>)) ++
        map_of (OAuthFlow.Extensions r))
   \<and> (\<forall>marshalOAuthFlow r.
      map_of (OAuthFlows_MarshalYAML marshalOAuthFlow r) =
        map_of (OAuthFlows_MarshalYAML marshalOAuthFlow (r\<lparr>OAuthFlows.Extensions :=
            []\<rparr>)) ++
        map_of (OAuthFlows.Extensions r))
   \<and> (\<forall>r.
      map_of (Info_MarshalYAML r) =
        map_of (Info_MarshalYAML (r\<lparr>Info.Extensions := []\<rparr>)) ++
        map_of (Info.Extensions r))
   \<and> (\<forall>marshalServer r.
      map_of (Link_MarshalYAML marshalServer r) =
        map_of (Link_MarshalYAML marshalServer (r\<lparr>Link.Extensions := []\<rparr>)) ++
        map_of (Link.Extensions r))
   \<and> (\<forall>marshalDiscriminator marshalXML marshalExternalDocs marshalSchema
       marshalProperties marshalSchemas r k.
      (k \<in> set Schema_keys_after_extensions \<longrightarrow>
        map_of (Schema_MarshalYAML marshalDiscriminator marshalXML marshalExternalDocs
            marshalSchema marshalProperties marshalSchemas (r\<lparr>Schema.Extensions :=
                []\<rparr>)) k = None) \<longrightarrow>
      map_of (Schema_MarshalYAML marshalDiscriminator marshalXML marshalExternalDocs
          marshalSchema marshalProperties marshalSchemas r) k =
        (map_of (Schema_MarshalYAML marshalDiscriminator marshalXML marshalExternalDocs
            marshalSchema marshalProperties marshalSchemas (r\<lparr>Schema.Extensions :=
                []\<rparr>)) ++
         map_of (Schema.Extensions r)) k)
   \<and> (\<forall>marshalSchema marshalExamples marshalContent r.
      map_of (Header_MarshalYAML marshalSchema marshalExamples marshalContent r) =
        map_of (Header_MarshalYAML marshalSchema marshalExamples marshalContent
            (r\<lparr>Header.Extensions := []\<rparr>)) ++
        map_of (Header.Extensions r))
   \<and> (\<forall>marshalSchema marshalExamples marshalContent r.
      map_of (Parameter_MarshalYAML marshalSchema marshalExamples marshalContent r) =
        map_of (Parameter_MarshalYAML marshalSchema marshalExamples marshalContent
            (r\<lparr>Header.Extensions := []\<rparr>)) ++
        map_of (Header.Extensions r))
   \<and> (\<forall>marshalHeaders r.
      map_of (Encoding_MarshalYAML marshalHeaders r) =
        map_of (Encoding_MarshalYAML marshalHeaders (r\<lparr>Encoding.Extensions := []\<rparr>))
            ++
        map_of (Encoding.Extensions r))
   \<and> (\<forall>marshalSchema marshalExamples marshalEncoding r.
      map_of (MediaType_MarshalYAML marshalSchema marshalExamples marshalEncoding r) =
        map_of (MediaType_MarshalYAML marshalSchema marshalExamples marshalEncoding
            (r\<lparr>MediaType.Extensions := []\<rparr>)) ++
        map_of (MediaType.Extensions r))
   \<and> (\<forall>marshalContent r.
      map_of (RequestBody_MarshalYAML marshalContent r) =
        map_of (RequestBody_MarshalYAML marshalContent (r\<lparr>RequestBody.Extensions :=
            []\<rparr>)) ++
        map_of (RequestBody.Extensions r))
   \<and> (\<forall>marshalHeaders marshalContent marshalLinks r.
      map_of (Response_MarshalYAML marshalHeaders marshalContent marshalLinks r) =
        map_of (Response_MarshalYAML marshalHeaders marshalContent marshalLinks
            (r\<lparr>Response.Extensions := []\<rparr>)) ++
        map_of (Response.Extensions r))
   \<and> (\<forall>marshalExternalDocs marshalParameters marshalRequestBody marshalResponses
       marshalCallbacks marshalSecurity marshalServers r.
      map_of (Operation_MarshalYAML marshalExternalDocs marshalParameters marshalRequestBody
          marshalResponses marshalCallbacks marshalSecurity marshalServers r) =
        map_of (Operation_MarshalYAML marshalExternalDocs marshalParameters marshalRequestBody
            marshalResponses marshalCallbacks marshalSecurity marshalServers
                (r\<lparr>Operation.Extensions := []\<rparr>)) ++
        map_of (Operation.Extensions r))
   \<and> (\<forall>marshalOperation marshalServers marshalParameters r.
      map_of (PathItem_MarshalYAML marshalOperation marshalServers marshalParameters r) =
        map_of (PathItem_MarshalYAML marshalOperation marshalServers marshalParameters
            (r\<lparr>PathItem.Extensions := []\<rparr>)) ++
        map_of (PathItem.Extensions r))
   \<and> (\<forall>marshalPathItem r.
      map_of (Paths_MarshalYAML marshalPathItem r) =
        map_of (Paths_MarshalYAML marshalPathItem (r\<lparr>Paths.Extensions := []\<rparr>)) ++
        map_of (Paths.Extensions r))
   \<and> (\<forall>marshalPathItem r.
      map_of (Callback_MarshalYAML marshalPathItem r) =
        map_of (Callback_MarshalYAML marshalPathItem (r\<lparr>Callback.Extensions :=
            []\<rparr>)) ++
        map_of (Callback.Extensions r))
   \<and> (\<forall>marshalSchemas marshalResponses marshalParameters marshalExamples
       marshalRequestBodies marshalHeaders marshalSecuritySchemes marshalLinks marshalCallbacks r.
      map_of (Components_MarshalYAML marshalSchemas marshalResponses marshalParameters
          marshalExamples marshalRequestBodies marshalHeaders marshalSecuritySchemes marshalLinks
              marshalCallbacks r) =
        map_of (Components_MarshalYAML marshalSchemas marshalResponses marshalParameters
            marshalExamples marshalRequestBodies marshalHeaders marshalSecuritySchemes
                marshalLinks marshalCallbacks (r\<lparr>Components.Extensions := []\<rparr>)) ++
        map_of (Components.Extensions r))
   \<and> (\<forall>marshalInfo marshalServers marshalPaths marshalComponents marshalSecurity
       marshalTags marshalExternalDocs r.
      map_of (OpenAPI_MarshalYAML marshalInfo marshalServers marshalPaths marshalComponents
          marshalSecurity marshalTags marshalExternalDocs r) =
        map_of (OpenAPI_MarshalYAML marshalInfo marshalServers marshalPaths marshalComponents
            marshalSecurity marshalTags marshalExternalDocs (r\<lparr>OpenAPI.Extensions :=
                []\<rparr>)) ++
        map_of (OpenAPI.Extensions r))
   \<and> (\<forall>r k. map_of (Extensions_MarshalYAML r) k =
        (if HasPrefix (ToLower k) ''x-'' then map_of r k else None))
   \<and> (\<forall>obj k. map_of (Extensions_UnmarshalYAML [] obj) k =
        (if HasPrefix (ToLower k) ''x-'' \<and> k \<in> fst ` set obj
         then Some (cleanupMapValue (the (map_of obj k))) else None))"
  by (intro conjI allI impI
      Contact_copies_bag License_copies_bag ExternalDocumentation_copies_bag
      ServerVariable_copies_bag Server_copies_bag XML_copies_bag Tag_copies_bag
      Example_copies_bag OAuthFlow_copies_bag OAuthFlows_copies_bag Info_copies_bag
      Link_copies_bag Schema_copies_bag_unless_overwritten Header_copies_bag Parameter_copies_bag
      Encoding_copies_bag MediaType_copies_bag RequestBody_copies_bag
      Response_copies_bag Operation_copies_bag PathItem_copies_bag Paths_copies_bag
      Callback_copies_bag Components_copies_bag OpenAPI_copies_bag
      map_of_Extensions_MarshalYAML)
     (simp_all add: map_of_Extensions_UnmarshalYAML)

text \<open>
  A schema of type string whose bag holds \<^verbatim>\<open>title: 5\<close>, the title itself not set: the
  encoding holds \<^verbatim>\<open>title: 5\<close>.
\<close>

theorem extension_bag_is_copied_witness:
  "map_of (Schema_MarshalYAML (\<lambda>_. VNull) (\<lambda>_. VNull) (\<lambda>_. VNull) (\<lambda>_. VNull) (\<lambda>_. VNull)
        (\<lambda>_. VNull)
        ((Schema_zero :: unit Schema)\<lparr>Schema.Type := ''string'', Schema.Extensions := []\<rparr>))
        ''title'' = None
   \<and> map_of (Schema_MarshalYAML (\<lambda>_. VNull) (\<lambda>_. VNull) (\<lambda>_. VNull) (\<lambda>_. VNull) (\<lambda>_. VNull)
        (\<lambda>_. VNull)
        ((Schema_zero :: unit Schema)\<lparr>Schema.Type := ''string'',
           Schema.Extensions := [(''title'', VInt 5)]\<rparr>)) ''title'' =
       Some (VInt 5)"
proof -
  let ?r = "(Schema_zero :: unit Schema)\<lparr>Schema.Type := ''string'',
           Schema.Extensions := [(''title'', VInt 5)]\<rparr>"
  let ?enc = "Schema_MarshalYAML (\<lambda>_. VNull) (\<lambda>_. VNull) (\<lambda>_. VNull) (\<lambda>_. VNull) (\<lambda>_. VNull)
        (\<lambda>_. VNull) :: unit Schema \<Rightarrow> obj"
  have h: "map_of (?enc (?r\<lparr>Schema.Extensions := []\<rparr>)) ''title'' = None"
    by (simp add: Schema_MarshalYAML_def Schema_zero_def build_def)
  have "map_of (?enc ?r) ''title'' =
      (map_of (?enc (?r\<lparr>Schema.Extensions := []\<rparr>)) ++ map_of (Schema.Extensions ?r)) ''title''"
    by (rule extension_bag_is_copied
        [THEN conjunct2, THEN conjunct2, THEN conjunct2, THEN conjunct2, THEN conjunct2, THEN conjunct2, THEN conjunct2, THEN conjunct2, THEN conjunct2, THEN conjunct2, THEN conjunct2, THEN conjunct2, THEN conjunct1, rule_format])
      (rule h)
  then have "map_of (?enc ?r) ''title'' = Some (VInt 5)"
    by (simp add: map_add_def h)
  with h show ?thesis
    by simp
qed

text \<open>
  A schema of type string whose bag holds \<^verbatim>\<open>type: 5\<close>: the encoding holds
  \<^verbatim>\<open>type: string\<close>, and the entry of the bag is lost.
\<close>

theorem Schema_field_overwrites_bag_key:
  "map_of (Schema.Extensions ((Schema_zero :: unit Schema)\<lparr>Schema.Type := ''string'',
        Schema.Extensions := [(''type'', VInt 5)]\<rparr>)) ''type'' = Some (VInt 5)
   \<and> map_of (Schema_MarshalYAML (\<lambda>_. VNull) (\<lambda>_. VNull) (\<lambda>_. VNull) (\<lambda>_. VNull) (\<lambda>_. VNull)
        (\<lambda>_. VNull)
        ((Schema_zero :: unit Schema)\<lparr>Schema.Type := ''string'',
           Schema.Extensions := [(''type'', VInt 5)]\<rparr>)) ''type'' =
       Some (VString ''string'')"
  by (simp add: Schema_MarshalYAML_def Schema_zero_def build_def)

section \<open>The value normalizer\<close>

text \<open>
  Claim C9. The normalizer \<^verbatim>\<open>cleanupMapValue\<close> is a total function (its definition
  above is accepted with a termination proof, and no branch of it is an error). On an
  ordered sequence it returns the sequence of the normalized elements, in the same
  order. On a map with untyped keys it returns a string-keyed map: its keys are the
  default string conversions of the original keys, each once, and the value under a key
  is the normalized value of the entry with that conversion (of the last such entry,
  should two keys have the same conversion). Every other value, a scalar or a map that
  is already string-keyed, is returned unchanged.
\<close>

theorem cleanupMapValue_normalizes:
  "cleanupMapValue (VSlice xs) = VSlice (map cleanupMapValue xs)
   \<and> cleanupMapValue (VMapI kvs) = VMapS (cleanupInterfaceMap kvs)
   \<and> distinct (map fst (cleanupInterfaceMap kvs))
   \<and> fst ` set (cleanupInterfaceMap kvs) = (\<lambda>(k, v). Sprint k) ` set kvs
   \<and> map_of (cleanupInterfaceMap kvs) =
       map_of (rev (map (\<lambda>(k, v). (Sprint k, cleanupMapValue v)) kvs))
   \<and> cleanupMapValue VNull = VNull
   \<and> cleanupMapValue (VBool b) = VBool b
   \<and> cleanupMapValue (VInt i) = VInt i
   \<and> cleanupMapValue (VFloat f) = VFloat f
   \<and> cleanupMapValue (VString s) = VString s
   \<and> cleanupMapValue (VMapS m) = VMapS m"
  using cleanupInterfaceMap_map_of [of kvs] cleanupInterfaceMap_distinct [of kvs]
    cleanupInterfaceMap_keys [of kvs]
  by simp

end
